theory Spec2Isabelle
  imports Complex_Main "HOL-Library.Word" "HOL-Library.Multiset"
begin

unbundle bit_operations_syntax

section \<open>Data model of \<^verbatim>\<open>src/pathtrace.cu\<close>\<close>

text \<open>
  The kernels compute on \<^verbatim>\<open>float\<close> and on glm vectors. In the kernels a \<^verbatim>\<open>float\<close> is
  read as the \<^typ>\<open>real\<close> it stands for, without rounding, infinities or NaN. The
  diffuse term \<^verbatim>\<open>BxDF_Diffuse\<close> is studied for a quotient of rounded products, so it is
  modelled on binary32 values, with the rounding of every operation; the section on
  binary32 introduces them. A C \<^verbatim>\<open>int\<close> that only counts or indexes is an \<^typ>\<open>int\<close> or a
  \<^typ>\<open>nat\<close>; the hash of the random engine works on 32-bit words.
\<close>

datatype vec2 = Vec2 (v2x: real) (v2y: real)

datatype vec3 = Vec3 (vx: real) (vy: real) (vz: real)

datatype vec4 = Vec4 real real real real

datatype mat4 = Mat4 vec4 vec4 vec4 vec4

fun vadd :: "vec3 \<Rightarrow> vec3 \<Rightarrow> vec3" where
  "vadd (Vec3 a b c) (Vec3 d e f) = Vec3 (a + d) (b + e) (c + f)"

fun vsub :: "vec3 \<Rightarrow> vec3 \<Rightarrow> vec3" where
  "vsub (Vec3 a b c) (Vec3 d e f) = Vec3 (a - d) (b - e) (c - f)"

text \<open>glm's \<^verbatim>\<open>vec3 * vec3\<close> is componentwise.\<close>

fun vmul :: "vec3 \<Rightarrow> vec3 \<Rightarrow> vec3" where
  "vmul (Vec3 a b c) (Vec3 d e f) = Vec3 (a * d) (b * e) (c * f)"

fun vscale :: "vec3 \<Rightarrow> real \<Rightarrow> vec3" where
  "vscale (Vec3 a b c) s = Vec3 (a * s) (b * s) (c * s)"

fun vdiv :: "vec3 \<Rightarrow> real \<Rightarrow> vec3" where
  "vdiv (Vec3 a b c) s = Vec3 (a / s) (b / s) (c / s)"

fun vdot :: "vec3 \<Rightarrow> vec3 \<Rightarrow> real" where
  "vdot (Vec3 a b c) (Vec3 d e f) = a * d + b * e + c * f"

definition vnormalize :: "vec3 \<Rightarrow> vec3" where
  "vnormalize v = vdiv v (sqrt (vdot v v))"

text \<open>The conversion of a \<^verbatim>\<open>float\<close> to an \<^verbatim>\<open>int\<close> truncates towards zero.\<close>

definition float_to_int :: "real \<Rightarrow> int" where
  "float_to_int r = (if 0 \<le> r then \<lfloor>r\<rfloor> else \<lceil>r\<rceil>)"

section \<open>Binary32\<close>

text \<open>
  A value of the IEEE 754 format binary32: a finite number with its sign and its
  magnitude, an infinity with its sign, or a NaN. The sign is \<open>True\<close> for a negative
  value, so that the two zeros are apart. The operations below return finite values
  whose magnitude binary32 holds: a multiple of \<open>2 ^ (e - 23)\<close> with at most 24 bits, for
  an exponent \<open>e\<close> between \<open>-126\<close> and \<open>127\<close>.
\<close>

datatype float32 = F32 bool real | F32_inf bool | F32_nan

text \<open>The position of the leading bit of a positive natural number.\<close>

fun ilog2 :: "nat \<Rightarrow> nat" where
  "ilog2 n = (if n < 2 then 0 else Suc (ilog2 (n div 2)))"

declare ilog2.simps [simp del]

text \<open>The exponent \<open>e\<close> of a positive real \<open>m\<close>, for which \<open>2 ^ e \<le> m < 2 ^ (e + 1)\<close>.\<close>

definition f32_exponent :: "real \<Rightarrow> int" where
  "f32_exponent m = (if 1 \<le> m then int (ilog2 (nat \<lfloor>m\<rfloor>))
                     else - int (ilog2 (nat \<lceil>1 / m\<rceil> - 1)) - 1)"

text \<open>Rounding to the nearest integer, a tie to the even one.\<close>

definition rne :: "real \<Rightarrow> int" where
  "rne y = (let f = \<lfloor>y\<rfloor>; d = y - of_int f
            in if d < 1 / 2 then f else if 1 / 2 < d then f + 1
               else if even f then f else f + 1)"

text \<open>
  The binary32 value of an exact result with sign \<open>s\<close> and magnitude \<open>m\<close>, in the
  rounding mode of the device, to nearest with ties to even: 24 significant bits,
  gradual underflow below \<open>2 ^ (-126)\<close>, and the infinity when the rounded magnitude
  reaches \<open>2 ^ 128\<close>.
\<close>

definition round32 :: "bool \<Rightarrow> real \<Rightarrow> float32" where
  "round32 s m =
     (if m = 0 then F32 s 0
      else (let e = max (f32_exponent m) (- 126);
                q = 2 powi (e - 23);
                r = of_int (rne (m / q)) * q
            in if 2 ^ 128 \<le> r then F32_inf s else F32 s r))"

text \<open>The product and the quotient of two \<^verbatim>\<open>float\<close>s, and \<^verbatim>\<open>glm::abs\<close>.\<close>

fun f32_mul :: "float32 \<Rightarrow> float32 \<Rightarrow> float32" where
  "f32_mul (F32 s m) (F32 t n) = round32 (s \<noteq> t) (m * n)"
| "f32_mul (F32 s m) (F32_inf t) = (if m = 0 then F32_nan else F32_inf (s \<noteq> t))"
| "f32_mul (F32_inf s) (F32 t n) = (if n = 0 then F32_nan else F32_inf (s \<noteq> t))"
| "f32_mul (F32_inf s) (F32_inf t) = F32_inf (s \<noteq> t)"
| "f32_mul F32_nan y = F32_nan"
| "f32_mul x F32_nan = F32_nan"

fun f32_div :: "float32 \<Rightarrow> float32 \<Rightarrow> float32" where
  "f32_div (F32 s m) (F32 t n) =
     (if n = 0 then (if m = 0 then F32_nan else F32_inf (s \<noteq> t))
      else round32 (s \<noteq> t) (m / n))"
| "f32_div (F32 s m) (F32_inf t) = F32 (s \<noteq> t) 0"
| "f32_div (F32_inf s) (F32 t n) = F32_inf (s \<noteq> t)"
| "f32_div (F32_inf s) (F32_inf t) = F32_nan"
| "f32_div F32_nan y = F32_nan"
| "f32_div x F32_nan = F32_nan"

fun f32_abs :: "float32 \<Rightarrow> float32" where
  "f32_abs (F32 s m) = F32 False m"
| "f32_abs (F32_inf s) = F32_inf False"
| "f32_abs F32_nan = F32_nan"

text \<open>A \<^verbatim>\<open>glm::vec3\<close> of binary32 values, its product and its quotient with a scalar.\<close>

datatype fvec3 = FVec3 float32 float32 float32

fun fv_scale :: "fvec3 \<Rightarrow> float32 \<Rightarrow> fvec3" where
  "fv_scale (FVec3 a b c) s = FVec3 (f32_mul a s) (f32_mul b s) (f32_mul c s)"

fun fv_div :: "fvec3 \<Rightarrow> float32 \<Rightarrow> fvec3" where
  "fv_div (FVec3 a b c) s = FVec3 (f32_div a s) (f32_div b s) (f32_div c s)"

section \<open>The records of the renderer\<close>

record Ray =
  origin :: vec3
  direction :: vec3

record PathSegment =
  ray :: Ray
  color :: vec3
  pixelIndex :: int
  remainingBounces :: int

text \<open>The field \<^verbatim>\<open>t\<close> of the source is \<open>isect_t\<close> here.\<close>

record ShadeableIntersection =
  isect_t :: real
  surfaceNormal :: vec3
  materialId :: int
  uvs :: vec2

text \<open>
  \<^verbatim>\<open>struct Material\<close>, \<^verbatim>\<open>struct Geom\<close>, \<^verbatim>\<open>struct LinearKDNode\<close> and the type of a
  node's bounds are declared in \<^verbatim>\<open>sceneStructs.h\<close>, which is not part of the sources at
  hand. The members that \<^verbatim>\<open>pathtrace.cu\<close> reads are the fields below; all further
  members are the field \<open>..._rest\<close> of a type that is left open. The member
  \<^verbatim>\<open>color\<close> of a material is \<open>m_color\<close>, the member \<^verbatim>\<open>type\<close> of a primitive is
  \<open>gtype\<close>. The type of the colour is open as well: it is \<^typ>\<open>vec3\<close> in the kernels
  and \<^typ>\<open>fvec3\<close> in the diffuse term.
\<close>

record ('c, 'k) Material =
  m_color :: 'c
  emittance :: real
  textureOffset :: int
  tex_width :: int
  tex_height :: int
  normMapOffset :: int
  n_m_width :: int
  n_m_height :: int
  m_rest :: 'k

datatype GeomType = SPHERE | CUBE | DIAMOND | MANDELBULB | TRIANGLE

record 'g Geom =
  gtype :: GeomType
  materialid :: int
  inverseTransform :: mat4
  g_rest :: 'g

record 'b LinearKDNode =
  bounds :: 'b
  nPrimitives :: int
  primitivesOffset :: int
  secondChildOffset :: int

record Camera =
  resolution :: "nat \<times> nat"
  position :: vec3
  view :: vec3
  up :: vec3
  right :: vec3
  pixelLength :: vec2

subsection \<open>Device functions declared outside \<^verbatim>\<open>pathtrace.cu\<close>\<close>

text \<open>
  The intersection tests write the hit point, the normal and the flag \<^verbatim>\<open>outside\<close> through
  references; a test is a function from the three values it is handed to the three
  values it leaves.
\<close>

record outs =
  o_point :: vec3
  o_normal :: vec3
  o_outside :: bool

text \<open>
  The functions of \<^verbatim>\<open>utilities.h\<close>, \<^verbatim>\<open>intersections.h\<close> and \<^verbatim>\<open>interactions.h\<close> that the
  kernels call, and what the libraries glm and thrust leave open, are parameters of the
  model, collected in one record. The random engine
  \<^verbatim>\<open>thrust::default_random_engine\<close> is its 32-bit state; \<open>u01\<close> is one draw of
  \<^verbatim>\<open>thrust::uniform_real_distribution<float>(0, 1)\<close>, which returns the number and the
  advanced engine. The sampler \<^verbatim>\<open>calculateRandomDirectionInHemisphere\<close>, the dot product
  \<^verbatim>\<open>glm::dot\<close> and the constant \<^verbatim>\<open>InvPi\<close> are those that the diffuse term uses, on
  binary32 values; how the sum of the three products of \<^verbatim>\<open>glm::dot\<close> is rounded is the
  library's and the compiler's. The field \<open>sort_arrangement\<close> is the order in which
  \<^verbatim>\<open>thrust::sort_by_key\<close> leaves the pairs of a key and a value it is handed; the
  section on material sorting says how it is used. The field \<open>args_left_to_right\<close> is
  the order in which the compiler evaluates the arguments of a call, which C++ does
  not fix.
\<close>

type_synonym rng = "32 word"

record ('g, 'k, 'b) devfuns =
  utilhash :: "32 word \<Rightarrow> 32 word"
  u01 :: "rng \<Rightarrow> real \<times> rng"
  boundsIntersectionTest :: "'b \<Rightarrow> Ray \<Rightarrow> real"
  boxIntersectionTest :: "'g Geom \<Rightarrow> Ray \<Rightarrow> outs \<Rightarrow> real \<times> outs"
  sphereIntersectionTest :: "'g Geom \<Rightarrow> Ray \<Rightarrow> outs \<Rightarrow> real \<times> outs"
  diamondIntersectionTest :: "'g Geom \<Rightarrow> Ray \<Rightarrow> outs \<Rightarrow> real \<times> outs"
  mandelbulbIntersectionTest :: "'g Geom \<Rightarrow> Ray \<Rightarrow> outs \<Rightarrow> vec3 \<Rightarrow> real \<times> outs \<times> vec3"
  triangleIntersectionTest :: "'g Geom \<Rightarrow> Ray \<Rightarrow> outs \<Rightarrow> real \<times> outs"
  multiplyMV :: "mat4 \<Rightarrow> vec4 \<Rightarrow> vec3"
  computeSphereUVs :: "vec3 \<Rightarrow> vec2"
  computeCubeUVs :: "vec3 \<Rightarrow> vec2"
  GetTriangleUVs :: "'g Geom \<Rightarrow> vec3 \<Rightarrow> vec2"
  computeSphereTBN :: "'g Geom \<Rightarrow> vec3 \<Rightarrow> vec3 \<Rightarrow> vec3 \<times> vec3"
  getPointOnRay :: "Ray \<Rightarrow> real \<Rightarrow> vec3"
  palette :: "real \<Rightarrow> vec3 \<Rightarrow> vec3 \<Rightarrow> vec3 \<Rightarrow> vec3 \<Rightarrow> vec3"
  calculateRandomDirectionInHemisphere :: "fvec3 \<Rightarrow> rng \<Rightarrow> fvec3 \<times> rng"
  glm_dot :: "fvec3 \<Rightarrow> fvec3 \<Rightarrow> float32"
  InvPi :: float32
  scatterRay :: "PathSegment \<Rightarrow> vec3 \<Rightarrow> vec3 \<Rightarrow> (vec3, 'k) Material \<Rightarrow> rng \<Rightarrow> PathSegment"
  sort_arrangement ::
    "(ShadeableIntersection \<times> PathSegment) list \<Rightarrow> (ShadeableIntersection \<times> PathSegment) list"
  args_left_to_right :: bool

section \<open>The random engine of a path\<close>

text \<open>
  \<^verbatim>\<open>makeSeededRandomEngine(iter, index, depth)\<close>: the three \<^verbatim>\<open>int\<close> arguments as 32-bit
  words.
\<close>

definition makeSeededRandomEngine ::
  "('g, 'k, 'b) devfuns \<Rightarrow> 32 word \<Rightarrow> 32 word \<Rightarrow> 32 word \<Rightarrow> rng" where
  "makeSeededRandomEngine X iter index depth =
     (let h = utilhash X (push_bit 31 1 OR push_bit 22 depth OR iter) XOR utilhash X index
      in h)"

section \<open>The diffuse term\<close>

text \<open>
  \<^verbatim>\<open>BxDF_Diffuse\<close> returns the value of the term and writes the sampled direction and
  the density through \<^verbatim>\<open>wi\<close> and \<^verbatim>\<open>pdf\<close>; the engine is advanced by the sampler.
  The result is (value, wi, pdf, engine). The products are taken in the order of the
  source, each one rounded: \<^verbatim>\<open>material.color * InvPi * cosTheta\<close> is the product of
  \<^verbatim>\<open>material.color * InvPi\<close> and \<^verbatim>\<open>cosTheta\<close>.
\<close>

definition BxDF_Diffuse ::
  "('g, 'k, 'b) devfuns \<Rightarrow> (fvec3, 'm) Material \<Rightarrow> fvec3 \<Rightarrow> fvec3 \<Rightarrow> rng \<Rightarrow>
     fvec3 \<times> fvec3 \<times> float32 \<times> rng" where
  "BxDF_Diffuse X material normal wo r =
     (let (wi, r') = calculateRandomDirectionInHemisphere X normal r;
          cosTheta = f32_abs (glm_dot X normal wi);
          pdf = f32_mul cosTheta (InvPi X)
      in (fv_scale (fv_scale (m_color material) (InvPi X)) cosTheta, wi, pdf, r'))"

text \<open>
  How far a binary32 value is from another: \<open>f32_within k x c\<close> holds when both are
  finite, of the same sign, and the magnitudes differ by at most \<open>k / 2 ^ 24\<close> of the
  magnitude of \<open>c\<close>; \<open>f32_quotient_within k d x c\<close> says the same of the exact quotient of
  \<open>x\<close> by \<open>d\<close>. \<open>f32_between\<close> is a positive finite value in a range, \<open>f32_in_range\<close> a
  finite value that is zero or of a magnitude between \<open>2 ^ (-60)\<close> and \<open>2 ^ 60\<close>.
\<close>

definition f32_between :: "real \<Rightarrow> real \<Rightarrow> float32 \<Rightarrow> bool" where
  "f32_between lo hi x = (case x of F32 s m \<Rightarrow> \<not> s \<and> lo \<le> m \<and> m \<le> hi | _ \<Rightarrow> False)"

definition f32_in_range :: "float32 \<Rightarrow> bool" where
  "f32_in_range x = (case x of F32 s m \<Rightarrow> m = 0 \<or> (1 / 2 ^ 60 \<le> m \<and> m \<le> 2 ^ 60) | _ \<Rightarrow> False)"

definition f32_within :: "real \<Rightarrow> float32 \<Rightarrow> float32 \<Rightarrow> bool" where
  "f32_within k x c =
     (case (x, c) of (F32 s r, F32 t m) \<Rightarrow> s = t \<and> \<bar>r - m\<bar> \<le> k / 2 ^ 24 * m | _ \<Rightarrow> False)"

definition f32_quotient_within :: "real \<Rightarrow> float32 \<Rightarrow> float32 \<Rightarrow> float32 \<Rightarrow> bool" where
  "f32_quotient_within k d x c =
     (case (x, d, c) of
        (F32 s a, F32 u b, F32 t m) \<Rightarrow> b \<noteq> 0 \<and> (s \<noteq> u) = t \<and> \<bar>a / b - m\<bar> \<le> k / 2 ^ 24 * m
      | _ \<Rightarrow> False)"

fun fv_all :: "(float32 \<Rightarrow> bool) \<Rightarrow> fvec3 \<Rightarrow> bool" where
  "fv_all P (FVec3 a b c) = (P a \<and> P b \<and> P c)"

fun fv_all2 :: "(float32 \<Rightarrow> float32 \<Rightarrow> bool) \<Rightarrow> fvec3 \<Rightarrow> fvec3 \<Rightarrow> bool" where
  "fv_all2 P (FVec3 a b c) (FVec3 d e f) = (P a d \<and> P b e \<and> P c f)"

section \<open>Ray generation\<close>

text \<open>
  The thread \<open>(x, y)\<close> of \<^verbatim>\<open>generateRayFromCamera\<close>. It assigns every member of
  \<^verbatim>\<open>pathSegments[index]\<close>, so the segment it leaves does not depend on the old one.
  The two draws of the jitter are the arguments of one constructor call,
  \<^verbatim>\<open>glm::vec2 jitter(u01(rng), u01(rng))\<close>: the first draw goes to \<open>x\<close> when the
  arguments are evaluated from left to right and to \<open>y\<close> otherwise.
\<close>

definition generateRayFromCamera_thread ::
  "('g, 'k, 'b) devfuns \<Rightarrow> Camera \<Rightarrow> int \<Rightarrow> int \<Rightarrow> nat \<Rightarrow> nat \<Rightarrow> PathSegment" where
  "generateRayFromCamera_thread X cam iter traceDepth x y =
     (let index = x + y * fst (resolution cam);
          r = makeSeededRandomEngine X (word_of_int iter) (word_of_nat index) 0;
          (d1, r1) = u01 X r;
          (d2, r2) = u01 X r1;
          jx = (if args_left_to_right X then d1 else d2);
          jy = (if args_left_to_right X then d2 else d1);
          pixel = Vec2 (real x + jx) (real y + jy);
          d = vsub (vsub (view cam)
                (vscale (vscale (right cam) (v2x (pixelLength cam)))
                   (v2x pixel - real (fst (resolution cam)) * 0.5)))
                (vscale (vscale (up cam) (v2y (pixelLength cam)))
                   (v2y pixel - real (snd (resolution cam)) * 0.5))
      in \<lparr>ray = \<lparr>origin = position cam, direction = vnormalize d\<rparr>,
          color = Vec3 1 1 1,
          pixelIndex = int index,
          remainingBounces = traceDepth\<rparr>)"

text \<open>
  The launch covers every \<open>(x, y)\<close> below the resolution; the thread \<open>(x, y)\<close> writes
  the slot \<open>x + y * resolution.x\<close>, which is its place in the list of rows below.
\<close>

definition generateRayFromCamera ::
  "('g, 'k, 'b) devfuns \<Rightarrow> Camera \<Rightarrow> int \<Rightarrow> int \<Rightarrow> PathSegment list" where
  "generateRayFromCamera X cam iter traceDepth =
     concat (map (\<lambda>y. map (\<lambda>x. generateRayFromCamera_thread X cam iter traceDepth x y)
                          [0..<fst (resolution cam)])
                 [0..<snd (resolution cam)])"

section \<open>Intersection\<close>

text \<open>
  The locals of an intersection thread. \<^verbatim>\<open>t\<close>, \<^verbatim>\<open>intersect_point\<close>, \<^verbatim>\<open>normal\<close>,
  \<^verbatim>\<open>tmp_intersect\<close>, \<^verbatim>\<open>tmp_normal\<close> and \<^verbatim>\<open>tmp_uv\<close> are declared without a value: a
  thread starts from locals it is handed (the parameter \<open>junk\<close> of the kernels) and
  sets the ones the source initialises. \<open>l_tmp\<close> holds \<^verbatim>\<open>tmp_intersect\<close>,
  \<^verbatim>\<open>tmp_normal\<close> and \<^verbatim>\<open>outside\<close>; \<open>l_pathSegment\<close> is the thread's own copy of its
  path segment.
\<close>

record locals =
  l_pathSegment :: PathSegment
  l_t :: real
  l_tmp :: outs
  l_tmp_uv :: vec2
  l_t_min :: real
  l_hit_geom_index :: int
  l_intersect_point :: vec3
  l_normal :: vec3
  l_uv :: vec2
  l_resColor :: vec3

definition FLT_MAX :: real where
  "FLT_MAX = (2 - 1 / 2 ^ 23) * 2 ^ 127"

text \<open>
  What both kernels do after a hit, in the same words: the texture coordinates of the
  hit point by the type of the primitive, and the normal of the normal map when the
  material has one. \<^verbatim>\<open>glm::mat3(t, b, n) * norm\<close> is the combination of the three
  columns.
\<close>

definition hit_uvs ::
  "('g, 'k, 'b) devfuns \<Rightarrow> 'g Geom \<Rightarrow> vec3 \<Rightarrow> ShadeableIntersection \<Rightarrow> ShadeableIntersection" where
  "hit_uvs X geom pt isect =
     (if gtype geom = SPHERE \<or> gtype geom = DIAMOND \<or> gtype geom = MANDELBULB
      then isect\<lparr>uvs := computeSphereUVs X pt\<rparr>
      else if gtype geom = CUBE then isect\<lparr>uvs := computeCubeUVs X pt\<rparr>
      else if gtype geom = TRIANGLE then isect\<lparr>uvs := GetTriangleUVs X geom pt\<rparr>
      else isect)"

definition hit_normal_map ::
  "('g, 'k, 'b) devfuns \<Rightarrow> 'g Geom \<Rightarrow> vec3 \<Rightarrow> vec3 \<Rightarrow> (vec3, 'k) Material \<Rightarrow> (int \<Rightarrow> vec3) \<Rightarrow>
     ShadeableIntersection \<Rightarrow> ShadeableIntersection" where
  "hit_normal_map X geom pt nrm mat dev_textures isect =
     (if normMapOffset mat > - 1 then
        (let n = nrm;
             (t, b) = computeSphereTBN X geom pt nrm;
             pixel_x = float_to_int (v2x (uvs isect) * real_of_int (n_m_width mat - 1));
             pixel_y = float_to_int ((1 - v2y (uvs isect)) * real_of_int (n_m_height mat - 1));
             idx = pixel_y * n_m_height mat + pixel_x + normMapOffset mat;
             norm = vsub (vscale (dev_textures idx) 2) (Vec3 1 1 1)
         in isect\<lparr>surfaceNormal :=
                    vadd (vadd (vscale t (vx norm)) (vscale b (vy norm))) (vscale n (vz norm))\<rparr>)
      else isect)"

subsection \<open>The brute-force kernel\<close>

text \<open>One round of the loop over all primitives of \<^verbatim>\<open>computeIntersections\<close>.\<close>

definition bf_step ::
  "('g, 'k, 'b) devfuns \<Rightarrow> (int \<Rightarrow> 'g Geom) \<Rightarrow> locals \<Rightarrow> nat \<Rightarrow> locals" where
  "bf_step X geoms L i =
     (let geom = geoms (int i);
          r = ray (l_pathSegment L);
          L1 = (case gtype geom of
                  CUBE \<Rightarrow> (let (t, tmp) = boxIntersectionTest X geom r (l_tmp L)
                           in L\<lparr>l_t := t, l_tmp := tmp\<rparr>)
                | SPHERE \<Rightarrow> (let (t, tmp) = sphereIntersectionTest X geom r (l_tmp L)
                             in L\<lparr>l_t := t, l_tmp := tmp\<rparr>)
                | DIAMOND \<Rightarrow> (let (t, tmp) = diamondIntersectionTest X geom r (l_tmp L)
                              in L\<lparr>l_t := t, l_tmp := tmp\<rparr>)
                | MANDELBULB \<Rightarrow>
                    (let (t, tmp, res) = mandelbulbIntersectionTest X geom r (l_tmp L) (l_resColor L)
                     in L\<lparr>l_t := t, l_tmp := tmp, l_resColor := res\<rparr>)
                | TRIANGLE \<Rightarrow> (let (t, tmp) = triangleIntersectionTest X geom r (l_tmp L)
                               in L\<lparr>l_t := t, l_tmp := tmp\<rparr>))
      in if l_t L1 > 0 \<and> l_t_min L1 > l_t L1
         then L1\<lparr>l_t_min := l_t L1,
                  l_hit_geom_index := int i,
                  l_intersect_point := o_point (l_tmp L1),
                  l_normal := o_normal (l_tmp L1)\<rparr>
         else L1)"

text \<open>
  The locals of the thread when it leaves: after the loop and, on a hit, after the
  statement \<^verbatim>\<open>pathSegment.color *= glm::vec3(1.f, 0.f, 1.f)\<close>, which changes the
  thread's copy of the segment.
\<close>

definition computeIntersections_locals ::
  "('g, 'k, 'b) devfuns \<Rightarrow> locals \<Rightarrow> PathSegment \<Rightarrow> (int \<Rightarrow> 'g Geom) \<Rightarrow> nat \<Rightarrow> locals" where
  "computeIntersections_locals X L0 pathSegment geoms geoms_size =
     (let L = L0\<lparr>l_pathSegment := pathSegment,
                 l_t_min := FLT_MAX,
                 l_hit_geom_index := - 1,
                 l_tmp := (l_tmp L0)\<lparr>o_outside := True\<rparr>,
                 l_resColor := Vec3 1 1 1\<rparr>;
          L' = foldl (bf_step X geoms) L [0..<geoms_size]
      in if l_hit_geom_index L' = - 1 then L'
         else L'\<lparr>l_pathSegment :=
                   (l_pathSegment L')\<lparr>color := vmul (color (l_pathSegment L')) (Vec3 1 0 1)\<rparr>\<rparr>)"

text \<open>What the thread writes to \<^verbatim>\<open>intersections[path_index]\<close>.\<close>

definition write_intersection ::
  "('g, 'k, 'b) devfuns \<Rightarrow> locals \<Rightarrow> (int \<Rightarrow> 'g Geom) \<Rightarrow> (int \<Rightarrow> (vec3, 'k) Material) \<Rightarrow> (int \<Rightarrow> vec3) \<Rightarrow>
     ShadeableIntersection \<Rightarrow> ShadeableIntersection" where
  "write_intersection X L geoms materials dev_textures isect =
     (if l_hit_geom_index L = - 1 then isect\<lparr>isect_t := - 1\<rparr>
      else
        (let geom = geoms (l_hit_geom_index L);
             i1 = isect\<lparr>isect_t := l_t_min L,
                        materialId := materialid geom,
                        surfaceNormal := l_normal L\<rparr>;
             pt = multiplyMV X (inverseTransform geom)
                    (Vec4 (vx (l_intersect_point L)) (vy (l_intersect_point L))
                          (vz (l_intersect_point L)) 1);
             i2 = hit_uvs X geom pt i1;
             mat = materials (materialId i2)
         in hit_normal_map X geom pt (l_normal L) mat dev_textures i2))"

definition computeIntersections_thread ::
  "('g, 'k, 'b) devfuns \<Rightarrow> locals \<Rightarrow> PathSegment \<Rightarrow> (int \<Rightarrow> 'g Geom) \<Rightarrow> nat \<Rightarrow>
     ShadeableIntersection \<Rightarrow> (int \<Rightarrow> (vec3, 'k) Material) \<Rightarrow> (int \<Rightarrow> vec3) \<Rightarrow> ShadeableIntersection" where
  "computeIntersections_thread X L0 pathSegment geoms geoms_size isect materials dev_textures =
     write_intersection X (computeIntersections_locals X L0 pathSegment geoms geoms_size)
       geoms materials dev_textures isect"

text \<open>
  The kernel is handed the two device arrays and leaves them as the pair below: a
  thread reads \<^verbatim>\<open>pathSegments[path_index]\<close> into its copy and writes
  \<^verbatim>\<open>intersections[path_index]\<close> only. The argument \<^verbatim>\<open>depth\<close> is not used by the
  source.
\<close>

definition computeIntersections ::
  "('g, 'k, 'b) devfuns \<Rightarrow> (nat \<Rightarrow> locals) \<Rightarrow> int \<Rightarrow> nat \<Rightarrow> PathSegment list \<Rightarrow> (int \<Rightarrow> 'g Geom) \<Rightarrow> nat \<Rightarrow>
     ShadeableIntersection list \<Rightarrow> (int \<Rightarrow> (vec3, 'k) Material) \<Rightarrow> (int \<Rightarrow> vec3) \<Rightarrow>
     PathSegment list \<times> ShadeableIntersection list" where
  "computeIntersections X junk depth num_paths pathSegments geoms geoms_size intersections materials dev_textures =
     (pathSegments,
      map (\<lambda>path_index. computeIntersections_thread X (junk path_index) (pathSegments ! path_index)
                            geoms geoms_size (intersections ! path_index) materials dev_textures)
          [0..<num_paths]
      @ drop num_paths intersections)"

subsection \<open>The kernel on the flattened KD-tree\<close>

text \<open>
  One round of the loop over the primitives of a leaf. The dispatch has the three
  branches of the source; for the other two types \<^verbatim>\<open>t\<close> keeps the value it had.
\<close>

definition kd_leaf_step ::
  "('g, 'k, 'b) devfuns \<Rightarrow> (int \<Rightarrow> 'g Geom) \<Rightarrow> 'b LinearKDNode \<Rightarrow> locals \<Rightarrow> nat \<Rightarrow> locals" where
  "kd_leaf_step X geoms node L i =
     (let geom = geoms (primitivesOffset node + int i);
          r = ray (l_pathSegment L);
          L1 = (case gtype geom of
                  CUBE \<Rightarrow> (let (t, tmp) = boxIntersectionTest X geom r (l_tmp L)
                           in L\<lparr>l_t := t, l_tmp := tmp\<rparr>)
                | SPHERE \<Rightarrow> (let (t, tmp) = sphereIntersectionTest X geom r (l_tmp L)
                             in L\<lparr>l_t := t, l_tmp := tmp\<rparr>)
                | TRIANGLE \<Rightarrow> (let (t, tmp) = triangleIntersectionTest X geom r (l_tmp L)
                               in L\<lparr>l_t := t, l_tmp := tmp\<rparr>)
                | _ \<Rightarrow> L)
      in if l_t L1 > 0 \<and> l_t_min L1 > l_t L1
         then L1\<lparr>l_t_min := l_t L1,
                  l_hit_geom_index := primitivesOffset node + int i,
                  l_intersect_point := o_point (l_tmp L1),
                  l_normal := o_normal (l_tmp L1),
                  l_uv := l_tmp_uv L1\<rparr>
         else L1)"

text \<open>
  The traversal loop \<^verbatim>\<open>while (true)\<close>. The array \<^verbatim>\<open>nodesToVisit[64]\<close> with its fill
  \<^verbatim>\<open>toVisitOffset\<close> is the list of the entries in use, the last one pushed first:
  \<^verbatim>\<open>toVisitOffset\<close> is the length of the list, a push writes the slot of that index,
  and a push at index 64 or beyond is outside the array. The loop may run forever on
  an array that is not a tree.
\<close>

datatype fault = StackOverflow

partial_function (option) kd_traverse ::
  "('g, 'k, 'b) devfuns \<Rightarrow> (int \<Rightarrow> 'g Geom) \<Rightarrow> (int \<Rightarrow> 'b LinearKDNode) \<Rightarrow>
     int \<Rightarrow> int list \<Rightarrow> locals \<Rightarrow> (fault + locals) option" where
  "kd_traverse X geoms kdtree currentNodeIndex nodesToVisit L =
     (let node = kdtree currentNodeIndex;
          boundsT = boundsIntersectionTest X (bounds node) (ray (l_pathSegment L))
      in if boundsT \<noteq> - 1 then
           (if nPrimitives node > 0 then
              (let L' = foldl (kd_leaf_step X geoms node) L [0..<nat (nPrimitives node)]
               in case nodesToVisit of
                    [] \<Rightarrow> Some (Inr L')
                  | n # rest \<Rightarrow> kd_traverse X geoms kdtree n rest L')
            else if length nodesToVisit \<ge> 64 then Some (Inl StackOverflow)
            else kd_traverse X geoms kdtree (currentNodeIndex + 1)
                   (secondChildOffset node # nodesToVisit) L)
         else
           (case nodesToVisit of
              [] \<Rightarrow> Some (Inr L)
            | n # rest \<Rightarrow> kd_traverse X geoms kdtree n rest L))"

definition computeIntersectionsKD_thread ::
  "('g, 'k, 'b) devfuns \<Rightarrow> locals \<Rightarrow> PathSegment \<Rightarrow> (int \<Rightarrow> 'g Geom) \<Rightarrow> (int \<Rightarrow> 'b LinearKDNode) \<Rightarrow>
     ShadeableIntersection \<Rightarrow> (int \<Rightarrow> (vec3, 'k) Material) \<Rightarrow> (int \<Rightarrow> vec3) \<Rightarrow>
     (fault + ShadeableIntersection) option" where
  "computeIntersectionsKD_thread X L0 pathSegment geoms kdtree isect mats dev_textures =
     (let L = L0\<lparr>l_pathSegment := pathSegment,
                 l_uv := Vec2 0 0,
                 l_t_min := FLT_MAX,
                 l_hit_geom_index := - 1,
                 l_tmp := (l_tmp L0)\<lparr>o_outside := True\<rparr>\<rparr>
      in case kd_traverse X geoms kdtree 0 [] L of
           None \<Rightarrow> None
         | Some (Inl e) \<Rightarrow> Some (Inl e)
         | Some (Inr L') \<Rightarrow> Some (Inr (write_intersection X L' geoms mats dev_textures isect)))"

text \<open>
  The outcome of a launch from the outcomes of its threads: the launch does not return
  when a thread does not, and it is faulty when a thread is.
\<close>

fun collect :: "('e + 'a) option list \<Rightarrow> ('e + 'a list) option" where
  "collect [] = Some (Inr [])"
| "collect (r # rs) =
     (case r of
        None \<Rightarrow> None
      | Some (Inl e) \<Rightarrow> (case collect rs of None \<Rightarrow> None | Some _ \<Rightarrow> Some (Inl e))
      | Some (Inr a) \<Rightarrow>
          (case collect rs of
             None \<Rightarrow> None
           | Some (Inl e) \<Rightarrow> Some (Inl e)
           | Some (Inr as) \<Rightarrow> Some (Inr (a # as))))"

definition computeIntersectionsKD ::
  "('g, 'k, 'b) devfuns \<Rightarrow> (nat \<Rightarrow> locals) \<Rightarrow> int \<Rightarrow> nat \<Rightarrow> PathSegment list \<Rightarrow> (int \<Rightarrow> 'g Geom) \<Rightarrow>
     (int \<Rightarrow> 'b LinearKDNode) \<Rightarrow> nat \<Rightarrow> ShadeableIntersection list \<Rightarrow> (int \<Rightarrow> (vec3, 'k) Material) \<Rightarrow>
     (int \<Rightarrow> vec3) \<Rightarrow> (fault + PathSegment list \<times> ShadeableIntersection list) option" where
  "computeIntersectionsKD X junk depth num_paths pathSegments geoms kdtree geoms_size intersections mats dev_textures =
     (case collect
             (map (\<lambda>path_index. computeIntersectionsKD_thread X (junk path_index)
                                   (pathSegments ! path_index) geoms kdtree
                                   (intersections ! path_index) mats dev_textures)
                  [0..<num_paths]) of
        None \<Rightarrow> None
      | Some (Inl e) \<Rightarrow> Some (Inl e)
      | Some (Inr front) \<Rightarrow> Some (Inr (pathSegments, front @ drop num_paths intersections)))"

section \<open>Shading\<close>

definition SineWave :: "vec2 \<Rightarrow> vec2" where
  "SineWave p =
     (let pi0 = 3.14159;
          A = 0.2;
          w = 10.0 * pi0;
          t = 30.0 * pi0 / 180.0;
          y = sin (w * v2x p + t) * A
      in Vec2 (v2x p) (v2y p + y))"

text \<open>
  The colour that the branch \<^verbatim>\<open>material.textureOffset > -1\<close> multiplies into the
  throughput: the procedural one under \<^verbatim>\<open>PROCTEXT\<close>, the texel otherwise.
\<close>

definition texture_color ::
  "('g, 'k, 'b) devfuns \<Rightarrow> bool \<Rightarrow> ShadeableIntersection \<Rightarrow> (vec3, 'k) Material \<Rightarrow> (int \<Rightarrow> vec3) \<Rightarrow> vec3" where
  "texture_color X PROCTEXT intersection material dev_textures =
     (if PROCTEXT then
        (let f_uv = SineWave (uvs intersection);
             a = Vec3 0.5 0.5 0.5;
             b = Vec3 0.5 0.5 0.5;
             c = Vec3 2.0 1.0 0.0;
             d = Vec3 0.50 0.20 0.25;
             t = v2x f_uv * v2y f_uv
         in palette X t a b c d)
      else
        (let pixel_x = float_to_int (v2x (uvs intersection) * real_of_int (tex_width material - 1));
             pixel_y = float_to_int ((1 - v2y (uvs intersection)) * real_of_int (tex_height material - 1));
             idx = pixel_y * tex_width material + pixel_x + textureOffset material
         in dev_textures idx))"

text \<open>
  The thread \<open>index\<close> of \<^verbatim>\<open>shadeMaterials\<close>, for \<open>index < num_paths\<close>: the new value
  of \<^verbatim>\<open>pathSegments[index]\<close>. The engine is seeded from the thread index, which is the
  position of the path in the array.
\<close>

definition shadeMaterials_thread ::
  "('g, 'k, 'b) devfuns \<Rightarrow> bool \<Rightarrow> int \<Rightarrow> nat \<Rightarrow> ShadeableIntersection \<Rightarrow> PathSegment \<Rightarrow>
     (int \<Rightarrow> (vec3, 'k) Material) \<Rightarrow> int \<Rightarrow> (int \<Rightarrow> vec3) \<Rightarrow> PathSegment" where
  "shadeMaterials_thread X PROCTEXT iter index intersection pathSegment materials depth dev_textures =
     (if remainingBounces pathSegment = 0 then pathSegment
      else if isect_t intersection > 0 then
        (let r = makeSeededRandomEngine X (word_of_int iter) (word_of_nat index) (word_of_int depth);
             material = materials (materialId intersection);
             materialColor = m_color material
         in if emittance material > 0 then
              pathSegment\<lparr>color := vmul (color pathSegment) (vscale materialColor (emittance material)),
                          remainingBounces := 0\<rparr>
            else
              (let isectPt = getPointOnRay X (ray pathSegment) (isect_t intersection);
                   p1 = (if textureOffset material = - 2
                         then pathSegment\<lparr>color := Vec3 1 0 1, remainingBounces := 0\<rparr>
                         else pathSegment);
                   p2 = (if textureOffset material > - 1
                         then p1\<lparr>color := vmul (color p1)
                                    (texture_color X PROCTEXT intersection material dev_textures)\<rparr>
                         else p1);
                   p3 = scatterRay X p2 isectPt (surfaceNormal intersection) material r
               in p3\<lparr>remainingBounces := remainingBounces p3 - 1\<rparr>))
      else pathSegment\<lparr>color := Vec3 0 0 0, remainingBounces := 0\<rparr>)"

text \<open>
  The kernel: every thread below \<open>num_paths\<close> owns the slot of its index; the threads
  above return at once.
\<close>

definition shadeMaterials ::
  "('g, 'k, 'b) devfuns \<Rightarrow> bool \<Rightarrow> int \<Rightarrow> nat \<Rightarrow> ShadeableIntersection list \<Rightarrow> PathSegment list \<Rightarrow>
     (int \<Rightarrow> (vec3, 'k) Material) \<Rightarrow> int \<Rightarrow> (int \<Rightarrow> vec3) \<Rightarrow> PathSegment list" where
  "shadeMaterials X PROCTEXT iter num_paths shadeableIntersections pathSegments materials depth dev_textures =
     map (\<lambda>index. shadeMaterials_thread X PROCTEXT iter index (shadeableIntersections ! index)
                     (pathSegments ! index) materials depth dev_textures)
         [0..<num_paths]
     @ drop num_paths pathSegments"

section \<open>Accumulation\<close>

text \<open>
  \<^verbatim>\<open>finalGather\<close>: the thread \<open>index < nPaths\<close> adds the colour of its path to the
  slot of the image that the stored pixel index names. The image is the device array
  \<^verbatim>\<open>dev_image\<close>, a map from the index to the pixel.
\<close>

definition finalGather :: "nat \<Rightarrow> (int \<Rightarrow> vec3) \<Rightarrow> PathSegment list \<Rightarrow> (int \<Rightarrow> vec3)" where
  "finalGather nPaths im iterationPaths =
     foldl (\<lambda>img iterationPath.
              img(pixelIndex iterationPath := vadd (img (pixelIndex iterationPath)) (color iterationPath)))
           im (take nPaths iterationPaths)"

section \<open>Stream compaction\<close>

text \<open>The predicate \<^verbatim>\<open>rayDeath\<close> handed to \<^verbatim>\<open>thrust::partition\<close>.\<close>

definition rayDeath :: "PathSegment \<Rightarrow> bool" where
  "rayDeath pathSegment = (remainingBounces pathSegment > 0)"

text \<open>
  \<^verbatim>\<open>thrust::partition(first, last, pred)\<close> moves the elements that satisfy the predicate
  in front of the others and returns the end of the first group. The library promises
  nothing about the order inside the two groups; the model keeps the order of the input.
\<close>

definition thrust_partition :: "('a \<Rightarrow> bool) \<Rightarrow> 'a list \<Rightarrow> 'a list \<times> nat" where
  "thrust_partition pred xs =
     (filter pred xs @ filter (\<lambda>x. \<not> pred x) xs, length (filter pred xs))"

text \<open>
  The compaction step of \<^verbatim>\<open>pathtrace\<close>: the first \<open>num_paths\<close> entries of
  \<^verbatim>\<open>dev_paths\<close> are partitioned in place, the rest of the array is not touched, and
  \<open>num_paths\<close> becomes the length of the surviving prefix.
\<close>

definition compact :: "nat \<Rightarrow> PathSegment list \<Rightarrow> PathSegment list \<times> nat" where
  "compact num_paths dev_paths =
     (let (front, path_end) = thrust_partition rayDeath (take num_paths dev_paths)
      in (front @ drop num_paths dev_paths, path_end))"

section \<open>Material sorting\<close>

definition materialCmp :: "ShadeableIntersection \<Rightarrow> ShadeableIntersection \<Rightarrow> bool" where
  "materialCmp a b = (materialId a < materialId b)"

text \<open>
  \<^verbatim>\<open>thrust::sort_by_key(keys_first, keys_last, values_first, comp)\<close> is a routine of the
  library. It leaves the keys in ascending order of the comparison and every value with
  its key; it promises nothing about the order of keys that the comparison does not
  separate. An arrangement of the pairs meets this contract when it has the pairs it was
  handed and no key in it is followed by a smaller one.
\<close>

definition sort_by_key_ok :: "('a \<Rightarrow> 'a \<Rightarrow> bool) \<Rightarrow> ('a \<times> 'v) list \<Rightarrow> ('a \<times> 'v) list \<Rightarrow> bool" where
  "sort_by_key_ok lt kvs out =
     (mset out = mset kvs \<and> sorted_wrt (\<lambda>a b. \<not> lt (fst b) (fst a)) out)"

text \<open>The insertion sort that keeps the order of keys the comparison does not separate.\<close>

fun insert_by_key :: "('a \<Rightarrow> 'a \<Rightarrow> bool) \<Rightarrow> 'a \<times> 'v \<Rightarrow> ('a \<times> 'v) list \<Rightarrow> ('a \<times> 'v) list" where
  "insert_by_key lt kv [] = [kv]"
| "insert_by_key lt kv (x # xs) =
     (if lt (fst x) (fst kv) then x # insert_by_key lt kv xs else kv # x # xs)"

text \<open>
  The call leaves the arrangement that the parameter \<open>arrange\<close> picks, which may be any
  arrangement that meets the contract; where the parameter picks one that does not, the
  call leaves the one of the insertion sort. So the model fixes the result of the library
  exactly as far as the contract does.
\<close>

definition thrust_sort_by_key ::
  "(('a \<times> 'v) list \<Rightarrow> ('a \<times> 'v) list) \<Rightarrow> ('a \<Rightarrow> 'a \<Rightarrow> bool) \<Rightarrow> 'a list \<Rightarrow> 'v list \<Rightarrow>
     'a list \<times> 'v list" where
  "thrust_sort_by_key arrange lt keys vals =
     (let kvs = zip keys vals;
          out = (if sort_by_key_ok lt kvs (arrange kvs) then arrange kvs
                 else foldr (insert_by_key lt) kvs [])
      in (map fst out, map snd out))"

text \<open>
  The sorting stage of \<^verbatim>\<open>pathtrace\<close> under \<^verbatim>\<open>MATSORT\<close>: the first \<open>num_paths\<close>
  intersections are the keys, the first \<open>num_paths\<close> path segments the values.
\<close>

definition sort_stage ::
  "('g, 'k, 'b) devfuns \<Rightarrow> nat \<Rightarrow> ShadeableIntersection list \<Rightarrow> PathSegment list \<Rightarrow>
     ShadeableIntersection list \<times> PathSegment list" where
  "sort_stage X num_paths dev_intersections dev_paths =
     (let (ks, vs) = thrust_sort_by_key (sort_arrangement X) materialCmp
                       (take num_paths dev_intersections) (take num_paths dev_paths)
      in (ks @ drop num_paths dev_intersections, vs @ drop num_paths dev_paths))"

section \<open>One iteration\<close>

text \<open>
  The switches \<^verbatim>\<open>#define MATSORT 0\<close>, \<^verbatim>\<open>STREAMCOMP 1\<close>, \<^verbatim>\<open>ACCELSTRUCT 1\<close> and
  \<^verbatim>\<open>PROCTEXT 1\<close> are a record, so that both sides of every \<^verbatim>\<open>#if\<close> are part of the
  model; \<open>cfg_src\<close> holds the values of the source.
\<close>

record cfg =
  MATSORT :: bool
  STREAMCOMP :: bool
  ACCELSTRUCT :: bool
  PROCTEXT :: bool

definition cfg_src :: cfg where
  "cfg_src = \<lparr>MATSORT = False, STREAMCOMP = True, ACCELSTRUCT = True, PROCTEXT = True\<rparr>"

text \<open>
  What \<^verbatim>\<open>pathtrace\<close> reads of the host scene and of the device copies made by
  \<^verbatim>\<open>pathtraceInit\<close>. The device arrays of the scene are read through indices that the
  scene itself supplies, so they are maps from the index to the element.
\<close>

record ('g, 'k, 'b) Scene =
  scene_camera :: Camera
  scene_traceDepth :: int
  scene_geoms_size :: nat
  scene_geoms :: "int \<Rightarrow> 'g Geom"
  scene_materials :: "int \<Rightarrow> (vec3, 'k) Material"
  scene_textures :: "int \<Rightarrow> vec3"
  scene_kdtree :: "int \<Rightarrow> 'b LinearKDNode"

definition pixelcount :: "('g, 'k, 'b) Scene \<Rightarrow> nat" where
  "pixelcount scene =
     fst (resolution (scene_camera scene)) * snd (resolution (scene_camera scene))"

text \<open>An intersection record after \<^verbatim>\<open>cudaMemset(dev_intersections, 0, ...)\<close>.\<close>

definition zero_intersection :: ShadeableIntersection where
  "zero_intersection =
     \<lparr>isect_t = 0, surfaceNormal = Vec3 0 0 0, materialId = 0, uvs = Vec2 0 0\<rparr>"

text \<open>\<^verbatim>\<open>cudaMemset(dev_image, 0, ...)\<close> of \<^verbatim>\<open>pathtraceInit\<close>.\<close>

definition pathtraceInit_image :: "int \<Rightarrow> vec3" where
  "pathtraceInit_image = (\<lambda>i. Vec3 0 0 0)"

text \<open>
  The intersection stage of one bounce: the buffer is cleared, then one of the two
  kernels is launched on the first \<open>num_paths\<close> path segments.
\<close>

definition intersect_stage ::
  "('g, 'k, 'b) devfuns \<Rightarrow> cfg \<Rightarrow> ('g, 'k, 'b) Scene \<Rightarrow> (nat \<Rightarrow> locals) \<Rightarrow> int \<Rightarrow> nat \<Rightarrow>
     PathSegment list \<Rightarrow> (fault + PathSegment list \<times> ShadeableIntersection list) option" where
  "intersect_stage X c scene junk depth num_paths dev_paths =
     (let dev_intersections = replicate (pixelcount scene) zero_intersection
      in if ACCELSTRUCT c then
           computeIntersectionsKD X junk depth num_paths dev_paths (scene_geoms scene)
             (scene_kdtree scene) (scene_geoms_size scene) dev_intersections
             (scene_materials scene) (scene_textures scene)
         else
           Some (Inr (computeIntersections X junk depth num_paths dev_paths (scene_geoms scene)
                        (scene_geoms_size scene) dev_intersections
                        (scene_materials scene) (scene_textures scene))))"

text \<open>
  What follows the intersection stage in the body of the loop: sorting, shading,
  \<^verbatim>\<open>depth++\<close>, compaction. The result is the new \<open>depth\<close>, \<open>num_paths\<close> and
  \<^verbatim>\<open>dev_paths\<close>, and the flag \<^verbatim>\<open>iterationComplete\<close>.
\<close>

definition shade_stage ::
  "('g, 'k, 'b) devfuns \<Rightarrow> cfg \<Rightarrow> ('g, 'k, 'b) Scene \<Rightarrow> int \<Rightarrow> int \<Rightarrow> nat \<Rightarrow>
     PathSegment list \<Rightarrow> ShadeableIntersection list \<Rightarrow> (int \<times> nat \<times> PathSegment list) \<times> bool" where
  "shade_stage X c scene iter depth num_paths dev_paths dev_intersections =
     (let (isects, paths) = (if MATSORT c then sort_stage X num_paths dev_intersections dev_paths
                             else (dev_intersections, dev_paths));
          shaded = shadeMaterials X (PROCTEXT c) iter num_paths isects paths
                     (scene_materials scene) depth (scene_textures scene);
          depth' = depth + 1
      in if STREAMCOMP c then
           (let (compacted, num_paths') = compact num_paths shaded
            in ((depth', num_paths', compacted),
                num_paths' = 0 \<or> depth' = scene_traceDepth scene))
         else ((depth', num_paths, shaded), depth' = scene_traceDepth scene))"

definition bounce ::
  "('g, 'k, 'b) devfuns \<Rightarrow> cfg \<Rightarrow> ('g, 'k, 'b) Scene \<Rightarrow> (int \<Rightarrow> nat \<Rightarrow> locals) \<Rightarrow> int \<Rightarrow> int \<Rightarrow> nat \<Rightarrow>
     PathSegment list \<Rightarrow> (fault + (int \<times> nat \<times> PathSegment list) \<times> bool) option" where
  "bounce X c scene junk iter depth num_paths dev_paths =
     (case intersect_stage X c scene (junk depth) depth num_paths dev_paths of
        None \<Rightarrow> None
      | Some (Inl e) \<Rightarrow> Some (Inl e)
      | Some (Inr (paths, isects)) \<Rightarrow>
          Some (Inr (shade_stage X c scene iter depth num_paths paths isects)))"

text \<open>
  The loop \<^verbatim>\<open>while (!iterationComplete)\<close>: the flag starts false, so the body runs at
  least once. The loop yields \<^verbatim>\<open>dev_paths\<close> as it leaves them.
\<close>

partial_function (option) trace_loop ::
  "('g, 'k, 'b) devfuns \<Rightarrow> cfg \<Rightarrow> ('g, 'k, 'b) Scene \<Rightarrow> (int \<Rightarrow> nat \<Rightarrow> locals) \<Rightarrow> int \<Rightarrow> int \<Rightarrow> nat \<Rightarrow>
     PathSegment list \<Rightarrow> (fault + PathSegment list) option" where
  "trace_loop X c scene junk iter depth num_paths dev_paths =
     (case bounce X c scene junk iter depth num_paths dev_paths of
        None \<Rightarrow> None
      | Some (Inl e) \<Rightarrow> Some (Inl e)
      | Some (Inr ((depth', num_paths', dev_paths'), iterationComplete)) \<Rightarrow>
          if iterationComplete then Some (Inr dev_paths')
          else trace_loop X c scene junk iter depth' num_paths' dev_paths')"

text \<open>
  \<^verbatim>\<open>pathtrace\<close>, as far as the accumulated image \<^verbatim>\<open>dev_image\<close> goes: the rays are
  generated for every pixel, the loop runs from \<open>depth = 0\<close> on all \<open>pixelcount\<close> paths,
  and \<^verbatim>\<open>finalGather\<close> adds the colour of all \<open>pixelcount\<close> entries of
  \<^verbatim>\<open>dev_paths\<close>. The result is the image after the call.
\<close>

definition pathtrace ::
  "('g, 'k, 'b) devfuns \<Rightarrow> cfg \<Rightarrow> ('g, 'k, 'b) Scene \<Rightarrow> (int \<Rightarrow> nat \<Rightarrow> locals) \<Rightarrow> int \<Rightarrow>
     (int \<Rightarrow> vec3) \<Rightarrow> (fault + (int \<Rightarrow> vec3)) option" where
  "pathtrace X c scene junk iter dev_image =
     (let traceDepth = scene_traceDepth scene;
          cam = scene_camera scene;
          dev_paths = generateRayFromCamera X cam iter traceDepth
      in case trace_loop X c scene junk iter 0 (pixelcount scene) dev_paths of
           None \<Rightarrow> None
         | Some (Inl e) \<Rightarrow> Some (Inl e)
         | Some (Inr paths) \<Rightarrow> Some (Inr (finalGather (pixelcount scene) dev_image paths)))"

section \<open>Flattened trees\<close>

text \<open>
  The tree is built and flattened outside \<^verbatim>\<open>pathtrace.cu\<close>. The traversal reads it as
  follows: a node with \<^verbatim>\<open>nPrimitives > 0\<close> is a leaf; any other node is an interior
  node, its first child is the next node of the array and its second child is the node
  at \<^verbatim>\<open>secondChildOffset\<close>. An array holds a tree of a given shape at a given index when
  it reads so all the way down, the second subtree following the first.
\<close>

datatype shape = KdLeaf | KdNode shape shape

fun nodes :: "shape \<Rightarrow> nat" where
  "nodes KdLeaf = 1"
| "nodes (KdNode l r) = 1 + nodes l + nodes r"

fun max_depth :: "shape \<Rightarrow> nat" where
  "max_depth KdLeaf = 0"
| "max_depth (KdNode l r) = 1 + max (max_depth l) (max_depth r)"

fun laid_out :: "(int \<Rightarrow> 'b LinearKDNode) \<Rightarrow> int \<Rightarrow> shape \<Rightarrow> bool" where
  "laid_out kdtree i KdLeaf = (nPrimitives (kdtree i) > 0)"
| "laid_out kdtree i (KdNode l r) =
     (nPrimitives (kdtree i) \<le> 0 \<and>
      laid_out kdtree (i + 1) l \<and>
      secondChildOffset (kdtree i) = i + 1 + int (nodes l) \<and>
      laid_out kdtree (i + 1 + int (nodes l)) r)"

section \<open>Concrete scenes\<close>

text \<open>
  Modelled from the spec: \<^verbatim>\<open>scatterRay\<close> of \<^verbatim>\<open>interactions.h\<close>, which is not among the
  sources. By the spec the diffuse bounce samples a new direction about the normal and
  multiplies the throughput by the ratio of the diffuse term and its density, which the
  spec takes to be the colour of the material; the counter is decremented by the kernel.
  The new ray starts at the hit point.
\<close>

definition scatterRay_diffuse ::
  "(vec3 \<Rightarrow> rng \<Rightarrow> vec3 \<times> rng) \<Rightarrow> PathSegment \<Rightarrow> vec3 \<Rightarrow> vec3 \<Rightarrow> (vec3, 'k) Material \<Rightarrow> rng \<Rightarrow> PathSegment" where
  "scatterRay_diffuse sample pathSegment intersect nrm m r =
     pathSegment\<lparr>ray := \<lparr>origin = intersect, direction = fst (sample nrm r)\<rparr>,
                 color := vmul (color pathSegment) (m_color m)\<rparr>"

text \<open>
  Modelled from the spec: the constant \<^verbatim>\<open>InvPi\<close> of \<^verbatim>\<open>utilities.h\<close>, which is not among
  the sources. The spec reads it as the factor \<open>1/\<pi>\<close> of the diffuse term; as a
  \<^verbatim>\<open>float\<close> it is the binary32 value next to \<open>1/\<pi>\<close>, which is \<open>10680707 / 2 ^ 25\<close>.
\<close>

definition InvPi_binary32 :: float32 where
  "InvPi_binary32 = F32 False (10680707 / 2 ^ 25)"

text \<open>
  To run the kernels on a concrete scene, the parameters need values. The instance
  below is as plain as the types allow: the hash is the identity; a draw is one half;
  a primitive carries its hit distance in the open field, a sphere is hit by the rays
  that point to positive \<open>x\<close>, a box by those that point to negative \<open>x\<close>, every other
  primitive by every ray; every bounding box is hit; the sampler turns an even engine
  state into the direction \<open>(1, 0, 0)\<close> and an odd one into \<open>(-1, 0, 0)\<close>; the dot
  product is the product of the first components, as it is for these directions;
  \<^verbatim>\<open>InvPi\<close> is the constant above; the sort
  arranges the pairs as the insertion sort does; arguments are evaluated from left to
  right.
\<close>

definition sample0 :: "vec3 \<Rightarrow> rng \<Rightarrow> vec3 \<times> rng" where
  "sample0 nrm r = (if even r then Vec3 1 0 0 else Vec3 (- 1) 0 0, r + 1)"

definition X0 :: "(real, unit, unit) devfuns" where
  "X0 = \<lparr>utilhash = (\<lambda>a. a),
          u01 = (\<lambda>r. (1 / 2, r + 1)),
          boundsIntersectionTest = (\<lambda>b r. 0),
          boxIntersectionTest = (\<lambda>g r w. (if vx (direction r) < 0 then g_rest g else - 1, w)),
          sphereIntersectionTest = (\<lambda>g r w. (if vx (direction r) > 0 then g_rest g else - 1, w)),
          diamondIntersectionTest = (\<lambda>g r w. (g_rest g, w)),
          mandelbulbIntersectionTest = (\<lambda>g r w c. (g_rest g, w, c)),
          triangleIntersectionTest = (\<lambda>g r w. (g_rest g, w)),
          multiplyMV = (\<lambda>m v. case v of Vec4 a b c d \<Rightarrow> Vec3 a b c),
          computeSphereUVs = (\<lambda>p. Vec2 0 0),
          computeCubeUVs = (\<lambda>p. Vec2 0 0),
          GetTriangleUVs = (\<lambda>g p. Vec2 0 0),
          computeSphereTBN = (\<lambda>g p n. (Vec3 1 0 0, Vec3 0 1 0)),
          getPointOnRay = (\<lambda>r t. vadd (origin r) (vscale (direction r) t)),
          palette = (\<lambda>t a b c d. a),
          calculateRandomDirectionInHemisphere =
            (\<lambda>nrm r. (FVec3 (F32 (odd r) 1) (F32 False 0) (F32 False 0), r + 1)),
          glm_dot = (\<lambda>a b. case (a, b) of (FVec3 ax ay az, FVec3 bx by bz) \<Rightarrow> f32_mul ax bx),
          InvPi = InvPi_binary32,
          scatterRay = scatterRay_diffuse sample0,
          sort_arrangement = (\<lambda>kvs. foldr (insert_by_key materialCmp) kvs []),
          args_left_to_right = True\<rparr>"

definition locals0 :: locals where
  "locals0 =
     \<lparr>l_pathSegment = \<lparr>ray = \<lparr>origin = Vec3 0 0 0, direction = Vec3 0 0 0\<rparr>,
                        color = Vec3 0 0 0, pixelIndex = 0, remainingBounces = 0\<rparr>,
      l_t = 0,
      l_tmp = \<lparr>o_point = Vec3 0 0 0, o_normal = Vec3 0 0 0, o_outside = False\<rparr>,
      l_tmp_uv = Vec2 0 0,
      l_t_min = 0,
      l_hit_geom_index = 0,
      l_intersect_point = Vec3 0 0 0,
      l_normal = Vec3 0 0 0,
      l_uv = Vec2 0 0,
      l_resColor = Vec3 0 0 0\<rparr>"

definition identity4 :: mat4 where
  "identity4 = Mat4 (Vec4 1 0 0 0) (Vec4 0 1 0 0) (Vec4 0 0 1 0) (Vec4 0 0 0 1)"

definition prim :: "GeomType \<Rightarrow> int \<Rightarrow> real \<Rightarrow> real Geom" where
  "prim ty m d = \<lparr>gtype = ty, materialid = m, inverseTransform = identity4, g_rest = d\<rparr>"

definition plain_material :: "'c \<Rightarrow> real \<Rightarrow> int \<Rightarrow> ('c, unit) Material" where
  "plain_material c e toff =
     \<lparr>m_color = c, emittance = e, textureOffset = toff, tex_width = 0, tex_height = 0,
      normMapOffset = - 1, n_m_width = 0, n_m_height = 0, m_rest = ()\<rparr>"

text \<open>A diffuse material of the colour \<open>(7/8, 1/2, 0)\<close>, on binary32.\<close>

definition diffuse_7_8 :: "(fvec3, unit) Material" where
  "diffuse_7_8 = plain_material (FVec3 (F32 False (7 / 8)) (F32 False (1 / 2)) (F32 False 0)) 0 (- 1)"

definition leaf_node :: "int \<Rightarrow> int \<Rightarrow> unit LinearKDNode" where
  "leaf_node n off = \<lparr>bounds = (), nPrimitives = n, primitivesOffset = off, secondChildOffset = 0\<rparr>"

definition inner_node :: "int \<Rightarrow> unit LinearKDNode" where
  "inner_node second = \<lparr>bounds = (), nPrimitives = 0, primitivesOffset = 0, secondChildOffset = second\<rparr>"

text \<open>
  A camera of two pixels in a row that looks along \<open>view\<close>. With the draw one half,
  pixel 0 looks half a pixel to the side of positive \<open>x\<close> of \<open>view\<close> and pixel 1 half
  a pixel to the other side.
\<close>

definition cam_two :: "vec3 \<Rightarrow> Camera" where
  "cam_two v = \<lparr>resolution = (2, 1), position = Vec3 0 0 0, view = v, up = Vec3 0 1 0,
                right = Vec3 1 0 0, pixelLength = Vec2 1 1\<rparr>"

text \<open>
  Two diffuse primitives: a white sphere of material 1 and a grey box of material 0,
  each at distance 1 of the rays that hit it; the tree is a root with two leaves.
\<close>

definition kd_two_leaves :: "int \<Rightarrow> unit LinearKDNode" where
  "kd_two_leaves i = (if i = 0 then inner_node 2 else leaf_node 1 (i - 1))"

definition scene_two :: "int \<Rightarrow> (real, unit, unit) Scene" where
  "scene_two td =
     \<lparr>scene_camera = cam_two (Vec3 0 0 1),
      scene_traceDepth = td,
      scene_geoms_size = 2,
      scene_geoms = (\<lambda>i. if i = 0 then prim SPHERE 1 1 else prim CUBE 0 1),
      scene_materials = (\<lambda>i. if i = 1 then plain_material (Vec3 1 1 1) 0 (- 1)
                               else plain_material (Vec3 (1 / 2) (1 / 2) (1 / 2)) 0 (- 1)),
      scene_textures = (\<lambda>i. Vec3 0 0 0),
      scene_kdtree = kd_two_leaves\<rparr>"

text \<open>
  One white sphere of emittance 5 that every ray of the camera hits; the tree is one
  leaf.
\<close>

definition scene_light :: "int \<Rightarrow> (real, unit, unit) Scene" where
  "scene_light td =
     \<lparr>scene_camera = cam_two (Vec3 1 0 1),
      scene_traceDepth = td,
      scene_geoms_size = 1,
      scene_geoms = (\<lambda>i. prim SPHERE 0 1),
      scene_materials = (\<lambda>i. plain_material (Vec3 1 1 1) 5 (- 1)),
      scene_textures = (\<lambda>i. Vec3 0 0 0),
      scene_kdtree = (\<lambda>i. leaf_node 1 0)\<rparr>"

definition white_path :: "vec3 \<Rightarrow> int \<Rightarrow> PathSegment" where
  "white_path d rb =
     \<lparr>ray = \<lparr>origin = Vec3 0 0 0, direction = d\<rparr>, color = Vec3 1 1 1,
      pixelIndex = 0, remainingBounces = rb\<rparr>"

definition hit_record :: "real \<Rightarrow> int \<Rightarrow> ShadeableIntersection" where
  "hit_record d m = \<lparr>isect_t = d, surfaceNormal = Vec3 0 0 1, materialId = m, uvs = Vec2 0 0\<rparr>"

text \<open>
  A sphere of material 0 at distance 10 and a diamond of material 1 at distance 5, in
  one leaf.
\<close>

definition geoms_sphere_diamond :: "int \<Rightarrow> real Geom" where
  "geoms_sphere_diamond i = (if i = 0 then prim SPHERE 0 10 else prim DIAMOND 1 5)"

text \<open>
  The record that the kernels write for a hit under the instance above, whose tests
  leave the normal as the thread's locals had it.
\<close>

definition kernel_hit :: "real \<Rightarrow> int \<Rightarrow> ShadeableIntersection" where
  "kernel_hit d m = \<lparr>isect_t = d, surfaceNormal = Vec3 0 0 0, materialId = m, uvs = Vec2 0 0\<rparr>"

text \<open>The switches of the source with the brute-force kernel, sorting on or off.\<close>

definition cfg_brute :: "bool \<Rightarrow> cfg" where
  "cfg_brute s = \<lparr>MATSORT = s, STREAMCOMP = True, ACCELSTRUCT = False, PROCTEXT = True\<rparr>"

text \<open>The value of a pixel in the image that an iteration returns.\<close>

definition pixel_of :: "(fault + (int \<Rightarrow> vec3)) option \<Rightarrow> int \<Rightarrow> vec3 option" where
  "pixel_of r q = (case r of Some (Inr im) \<Rightarrow> Some (im q) | _ \<Rightarrow> None)"

text \<open>
  The path that the camera of two pixels generates for the pixel \<open>px\<close>: it starts at
  the camera and points along \<open>(dx, 0, 1)\<close>.
\<close>

definition camera_path :: "int \<Rightarrow> real \<Rightarrow> int \<Rightarrow> PathSegment" where
  "camera_path px dx td =
     \<lparr>ray = \<lparr>origin = Vec3 0 0 0, direction = vnormalize (Vec3 dx 0 1)\<rparr>,
      color = Vec3 1 1 1, pixelIndex = px, remainingBounces = td\<rparr>"

text \<open>
  What the shader leaves, in iteration 1 of the scene of two primitives and under the
  instance above, of a path at array position \<open>index\<close> that hit material \<open>m\<close> at
  distance 1: the engine of an even position is odd and gives the direction
  \<open>(-1, 0, 0)\<close>, the engine of an odd position is even and gives \<open>(1, 0, 0)\<close>.
\<close>

definition diffuse_step :: "nat \<Rightarrow> int \<Rightarrow> PathSegment \<Rightarrow> PathSegment" where
  "diffuse_step index m p =
     p\<lparr>ray := \<lparr>origin = vadd (origin (ray p)) (vscale (direction (ray p)) 1),
                direction = (if even index then Vec3 (- 1) 0 0 else Vec3 1 0 0)\<rparr>,
       color := vmul (color p) (if m = 1 then Vec3 1 1 1 else Vec3 (1 / 2) (1 / 2) (1 / 2)),
       remainingBounces := remainingBounces p - 1\<rparr>"

section \<open>Properties\<close>

subsection \<open>Rounding to binary32\<close>

lemma ilog2_bounds: "0 < n \<Longrightarrow> 2 ^ ilog2 n \<le> n \<and> n < 2 ^ Suc (ilog2 n)"
proof (induction n rule: ilog2.induct)
  case (1 n)
  show ?case
  proof (cases "n < 2")
    case True
    with 1(2) have "n = 1" by simp
    then show ?thesis by (simp add: ilog2.simps)
  next
    case False
    then have pos: "0 < n div 2" by simp
    from 1(1) [OF False pos] have a: "2 ^ ilog2 (n div 2) \<le> n div 2"
      and b: "n div 2 < 2 ^ Suc (ilog2 (n div 2))" by simp_all
    from False have e: "ilog2 n = Suc (ilog2 (n div 2))" by (subst ilog2.simps) simp
    from a have "2 * 2 ^ ilog2 (n div 2) \<le> 2 * (n div 2)" by simp
    also have "\<dots> \<le> n" by simp
    finally have c: "2 ^ ilog2 n \<le> n" by (simp add: e)
    from b have "n div 2 + 1 \<le> 2 ^ Suc (ilog2 (n div 2))" by simp
    then have "2 * (n div 2) + 2 \<le> 2 * 2 ^ Suc (ilog2 (n div 2))" by simp
    moreover have "n < 2 * (n div 2) + 2" by presburger
    ultimately have "n < 2 ^ Suc (ilog2 n)" by (simp add: e)
    with c show ?thesis by simp
  qed
qed

lemma f32_exponent_bounds:
  assumes "0 < m"
  shows "2 powi f32_exponent m \<le> m" and "m < 2 powi (f32_exponent m + 1)"
proof -
  have "2 powi f32_exponent m \<le> m \<and> m < 2 powi (f32_exponent m + 1)"
  proof (cases "1 \<le> m")
    case True
    define n where "n = nat \<lfloor>m\<rfloor>"
    from True have n: "0 < n" by (simp add: n_def)
    from True have rn: "real n = of_int \<lfloor>m\<rfloor>" by (simp add: n_def)
    from ilog2_bounds [OF n] have a: "2 ^ ilog2 n \<le> n" and b: "n < 2 ^ Suc (ilog2 n)" by simp_all
    from True have e: "f32_exponent m = int (ilog2 n)" by (simp add: f32_exponent_def n_def)
    from a have "(2::real) ^ ilog2 n \<le> real n"
      by (metis of_nat_le_iff of_nat_numeral of_nat_power)
    also have "\<dots> \<le> m" by (simp add: rn)
    finally have c: "2 powi f32_exponent m \<le> m" by (simp add: e)
    from b have "n + 1 \<le> 2 ^ Suc (ilog2 n)" by simp
    then have "real (n + 1) \<le> (2::real) ^ Suc (ilog2 n)"
      by (metis of_nat_le_iff of_nat_numeral of_nat_power)
    moreover have "m < real (n + 1)" using rn by simp linarith
    ultimately have "m < (2::real) ^ Suc (ilog2 n)" by simp
    moreover have "2 powi (f32_exponent m + 1) = (2::real) ^ Suc (ilog2 n)"
      by (simp add: e power_int_add)
    ultimately show ?thesis using c by simp
  next
    case False
    with assms have y: "1 < 1 / m" by simp
    define n where "n = nat \<lceil>1 / m\<rceil>"
    from y have n2: "2 \<le> n" unfolding n_def by linarith
    then have n1: "0 < n - 1" by simp
    from y have rn: "real n = of_int \<lceil>1 / m\<rceil>" by (simp add: n_def)
    define j where "j = ilog2 (n - 1)"
    from ilog2_bounds [OF n1] have a: "2 ^ j \<le> n - 1" and b: "n - 1 < 2 ^ Suc j"
      by (simp_all add: j_def)
    from False have e: "f32_exponent m = - int j - 1" by (simp add: f32_exponent_def n_def j_def)
    from b n2 have "n \<le> 2 ^ Suc j" by simp
    then have "real n \<le> (2::real) ^ Suc j"
      by (metis of_nat_le_iff of_nat_numeral of_nat_power)
    moreover have "1 / m \<le> real n" by (simp add: rn)
    ultimately have u: "1 / m \<le> 2 ^ Suc j" by simp
    from a n2 have "2 ^ j + 1 \<le> n" by simp
    then have "real (2 ^ j + 1) \<le> real n" by (simp only: of_nat_le_iff)
    then have "(2::real) ^ j + 1 \<le> real n" by simp
    moreover have "real n < 1 / m + 1" unfolding rn by linarith
    ultimately have l: "2 ^ j < 1 / m" by simp
    from u assms have "1 \<le> m * 2 ^ Suc j" by (simp add: field_simps)
    then have c: "1 / 2 ^ Suc j \<le> m" by (simp add: field_simps)
    from l assms have "m * 2 ^ j < 1" by (simp add: field_simps)
    then have d: "m < 1 / 2 ^ j" by (simp add: field_simps)
    have p1: "2 powi f32_exponent m = 1 / (2::real) ^ Suc j"
    proof -
      have "f32_exponent m = - int (Suc j)" by (simp add: e)
      then show ?thesis by (simp only: power_int_minus power_int_of_nat) (simp add: field_simps)
    qed
    have p2: "2 powi (f32_exponent m + 1) = 1 / (2::real) ^ j"
    proof -
      have "f32_exponent m + 1 = - int j" by (simp add: e)
      then show ?thesis by (simp only: power_int_minus power_int_of_nat) (simp add: field_simps)
    qed
    from c d p1 p2 show ?thesis by simp
  qed
  then show "2 powi f32_exponent m \<le> m" and "m < 2 powi (f32_exponent m + 1)" by simp_all
qed

lemma rne_close: "\<bar>of_int (rne y) - y\<bar> \<le> 1 / 2"
  unfolding rne_def Let_def by (auto; linarith)


lemma round32_normal:
  assumes lo: "2 powi (- 126) \<le> m" and hi: "m \<le> 2 ^ 127"
  shows "\<exists>r. round32 s m = F32 s r \<and> \<bar>r - m\<bar> \<le> m / 2 ^ 24"
proof -
  have "(0::real) < 2 powi (- 126)" by simp
  with lo have pos: "0 < m" by linarith
  define e where "e = f32_exponent m"
  note b = f32_exponent_bounds [OF pos, folded e_def]
  have e: "- 126 \<le> e"
  proof (rule ccontr)
    assume "\<not> - 126 \<le> e"
    then have "e + 1 \<le> - 126" by simp
    then have "(2::real) powi (e + 1) \<le> 2 powi (- 126)" by (intro power_int_increasing) simp_all
    with b(2) lo show False by linarith
  qed
  define q :: real where "q = 2 powi (e - 23)"
  have q: "0 < q" by (simp add: q_def)
  have qe: "q * 2 ^ 23 = 2 powi e"
  proof -
    have "(2::real) powi e = 2 powi ((e - 23) + 23)" by simp
    also have "\<dots> = 2 powi (e - 23) * 2 powi 23" by (subst power_int_add) simp_all
    finally show ?thesis by (simp add: q_def)
  qed
  define r where "r = of_int (rne (m / q)) * q"
  have "\<bar>r - m\<bar> = \<bar>of_int (rne (m / q)) - m / q\<bar> * q"
  proof -
    have "r - m = (of_int (rne (m / q)) - m / q) * q" using q by (simp add: r_def field_simps)
    then show ?thesis using q by (simp add: abs_mult)
  qed
  also have "\<dots> \<le> 1 / 2 * q" using rne_close [of "m / q"] q by (intro mult_right_mono) simp_all
  also have "\<dots> = 2 powi e / 2 ^ 24" using qe by simp
  also have "\<dots> \<le> m / 2 ^ 24" using b(1) by (simp add: divide_right_mono)
  finally have err: "\<bar>r - m\<bar> \<le> m / 2 ^ 24" .
  then have "r \<le> m + m / 2 ^ 24" by linarith
  also have "\<dots> \<le> 2 ^ 127 + 2 ^ 127 / 2 ^ 24" using hi by (intro add_mono divide_right_mono) simp_all
  also have "\<dots> < 2 ^ 128" by simp
  finally have no: "\<not> 2 ^ 128 \<le> r" by simp
  from pos e no have "round32 s m = F32 s r"
    by (simp add: round32_def Let_def e_def [symmetric] max_def q_def [symmetric] r_def [symmetric])
  with err show ?thesis by blast
qed

lemma rel_bounds:
  fixes x y :: real
  assumes "\<bar>x - y\<bar> \<le> y / 2 ^ 24"
  shows "x \<le> y * (1 + 1 / 2 ^ 24)" and "y * (1 - 1 / 2 ^ 24) \<le> x"
proof -
  have e: "y * (1 + 1 / 2 ^ 24) = y + y / 2 ^ 24" "y * (1 - 1 / 2 ^ 24) = y - y / 2 ^ 24"
    by (simp_all add: algebra_simps)
  from assms show "x \<le> y * (1 + 1 / 2 ^ 24)" unfolding e by linarith
  from assms show "y * (1 - 1 / 2 ^ 24) \<le> x" unfolding e by linarith
qed

lemma quotient_chain:
  fixes m p t a f d :: real
  assumes m: "0 < m" and p: "0 < p" and t: "0 < t"
    and a: "\<bar>a - m * p\<bar> \<le> m * p / 2 ^ 24"
    and f: "\<bar>f - a * t\<bar> \<le> a * t / 2 ^ 24"
    and d: "\<bar>d - t * p\<bar> \<le> t * p / 2 ^ 24"
  shows "0 < a" and "0 < f" and "0 < d"
    and "f / d \<le> m * ((1 + 1 / 2 ^ 24) * (1 + 1 / 2 ^ 24) / (1 - 1 / 2 ^ 24))"
    and "m * ((1 - 1 / 2 ^ 24) * (1 - 1 / 2 ^ 24) / (1 + 1 / 2 ^ 24)) \<le> f / d"
    and "\<bar>f / d - m\<bar> \<le> 4 / 2 ^ 24 * m"
proof -
  define K :: real where "K = 1 + 1 / 2 ^ 24"
  define k :: real where "k = 1 - 1 / 2 ^ 24"
  have K: "0 < K" and k: "0 < k" by (simp_all add: K_def k_def)
  have up: "K * K / k \<le> 1 + 4 / 2 ^ 24" by (simp add: K_def k_def)
  have lo: "1 - 4 / 2 ^ 24 \<le> k * k / K" by (simp add: K_def k_def)
  from m p t have mp: "0 < m * p" and tp: "0 < t * p" by simp_all
  from rel_bounds [OF a] have a1: "a \<le> m * p * K" and a2: "m * p * k \<le> a"
    by (simp_all only: K_def k_def)
  from a2 mp k show apos: "0 < a" by (meson less_le_trans mult_pos_pos)
  with t have at: "0 < a * t" by simp
  from rel_bounds [OF f] have f1: "f \<le> a * t * K" and f2: "a * t * k \<le> f"
    by (simp_all only: K_def k_def)
  from rel_bounds [OF d] have d1: "d \<le> t * p * K" and d2: "t * p * k \<le> d"
    by (simp_all only: K_def k_def)
  from d2 tp k show dpos: "0 < d" by (meson less_le_trans mult_pos_pos)
  from f2 at k show fpos: "0 < f" by (meson less_le_trans mult_pos_pos)
  have F1: "f \<le> m * p * t * (K * K)"
  proof -
    from a1 t K have "a * t * K \<le> m * p * K * t * K" by (intro mult_right_mono) simp_all
    with f1 show ?thesis by (simp add: mult_ac)
  qed
  have F2: "m * p * t * (k * k) \<le> f"
  proof -
    from a2 t k have "m * p * k * t * k \<le> a * t * k" by (intro mult_right_mono) simp_all
    with f2 show ?thesis by (simp add: mult_ac)
  qed
  have "f / d \<le> m * p * t * (K * K) / (t * p * k)"
    using F1 d2 fpos tp k by (intro frac_le) simp_all
  also have "\<dots> = m * (K * K / k)" using p t by simp
  finally have R1: "f / d \<le> m * (K * K / k)" .
  have "m * p * t * (k * k) / (t * p * K) \<le> f / d"
    using F2 d1 dpos fpos m p t k by (intro frac_le) simp_all
  moreover have "m * p * t * (k * k) / (t * p * K) = m * (k * k / K)" using p t by simp
  ultimately have R2: "m * (k * k / K) \<le> f / d" by simp
  from R1 show "f / d \<le> m * ((1 + 1 / 2 ^ 24) * (1 + 1 / 2 ^ 24) / (1 - 1 / 2 ^ 24))"
    by (simp only: K_def k_def)
  from R2 show "m * ((1 - 1 / 2 ^ 24) * (1 - 1 / 2 ^ 24) / (1 + 1 / 2 ^ 24)) \<le> f / d"
    by (simp only: K_def k_def)
  from up m have "m * (K * K / k) \<le> m * (1 + 4 / 2 ^ 24)" by (intro mult_left_mono) simp_all
  with R1 have U: "f / d \<le> m * (1 + 4 / 2 ^ 24)" by linarith
  from lo m have "m * (1 - 4 / 2 ^ 24) \<le> m * (k * k / K)" by (intro mult_left_mono) simp_all
  with R2 have L: "m * (1 - 4 / 2 ^ 24) \<le> f / d" by linarith
  have e: "m * (1 + 4 / 2 ^ 24) = m + 4 / 2 ^ 24 * m" "m * (1 - 4 / 2 ^ 24) = m - 4 / 2 ^ 24 * m"
    by (simp_all add: algebra_simps)
  from U L show "\<bar>f / d - m\<bar> \<le> 4 / 2 ^ 24 * m" unfolding e by linarith
qed

lemma ratio_chain:
  fixes m x q :: real
  assumes m: "0 < m"
    and R1: "x \<le> m * ((1 + 1 / 2 ^ 24) * (1 + 1 / 2 ^ 24) / (1 - 1 / 2 ^ 24))"
    and R2: "m * ((1 - 1 / 2 ^ 24) * (1 - 1 / 2 ^ 24) / (1 + 1 / 2 ^ 24)) \<le> x"
    and q: "\<bar>q - x\<bar> \<le> x / 2 ^ 24"
  shows "\<bar>q - m\<bar> \<le> 5 / 2 ^ 24 * m"
proof -
  define K :: real where "K = 1 + 1 / 2 ^ 24"
  define k :: real where "k = 1 - 1 / 2 ^ 24"
  have K: "0 < K" and k: "0 < k" by (simp_all add: K_def k_def)
  have up: "K * K * K / k \<le> 1 + 5 / 2 ^ 24" by (simp add: K_def k_def)
  have lo: "1 - 5 / 2 ^ 24 \<le> k * k * k / K" by (simp add: K_def k_def)
  from R1 have R1: "x \<le> m * (K * K / k)" by (simp only: K_def k_def)
  from R2 have R2: "m * (k * k / K) \<le> x" by (simp only: K_def k_def)
  from rel_bounds [OF q] have q1: "q \<le> x * K" and q2: "x * k \<le> q"
    by (simp_all only: K_def k_def)
  from R1 K have "x * K \<le> m * (K * K / k) * K" by (intro mult_right_mono) simp_all
  moreover have "m * (K * K / k) * K = m * (K * K * K / k)" by simp
  ultimately have "q \<le> m * (K * K * K / k)" using q1 by linarith
  also from up m have "\<dots> \<le> m * (1 + 5 / 2 ^ 24)" by (intro mult_left_mono) simp_all
  finally have U: "q \<le> m * (1 + 5 / 2 ^ 24)" .
  from R2 k have "m * (k * k / K) * k \<le> x * k" by (intro mult_right_mono) simp_all
  moreover have "m * (k * k / K) * k = m * (k * k * k / K)" by simp
  ultimately have "m * (k * k * k / K) \<le> q" using q2 by linarith
  moreover from lo m have "m * (1 - 5 / 2 ^ 24) \<le> m * (k * k * k / K)"
    by (intro mult_left_mono) simp_all
  ultimately have L: "m * (1 - 5 / 2 ^ 24) \<le> q" by linarith
  have e: "m * (1 + 5 / 2 ^ 24) = m + 5 / 2 ^ 24 * m" "m * (1 - 5 / 2 ^ 24) = m - 5 / 2 ^ 24 * m"
    by (simp_all add: algebra_simps)
  from U L show ?thesis unfolding e by linarith
qed

lemma prod_lower:
  fixes x y :: real
  assumes "lx \<le> x" and "ly \<le> y" and "0 < lx" and "0 < ly" and "L \<le> lx * ly"
  shows "L \<le> x * y"
proof -
  from assms have "lx * ly \<le> x * y" by (intro mult_mono) simp_all
  with assms show ?thesis by linarith
qed

lemma prod_upper:
  fixes x y :: real
  assumes "x \<le> ux" and "y \<le> uy" and "0 < x" and "0 < y" and "ux * uy \<le> H"
  shows "x * y \<le> H"
proof -
  from assms have "x * y \<le> ux * uy" by (intro mult_mono) simp_all
  with assms show ?thesis by linarith
qed

lemma round32_within:
  assumes "1 / 2 ^ 126 \<le> m" and "m \<le> 2 ^ 127"
  obtains r where "round32 s m = F32 s r" and "\<bar>r - m\<bar> \<le> m / 2 ^ 24"
proof -
  have "(2::real) powi (- 126) = 1 / 2 ^ 126" by (simp add: power_int_minus field_simps)
  with assms round32_normal [of m s] show ?thesis using that by auto
qed

lemma f32_ratio:
  assumes m: "1 / 2 ^ 60 \<le> m" "m \<le> 2 ^ 60"
    and p: "1 / 4 \<le> p" "p \<le> 1 / 2"
    and t: "1 / 2 ^ 60 \<le> t" "t \<le> 2 ^ 60"
  shows "\<exists>f d q. f32_mul (f32_mul (F32 s m) (F32 False p)) (F32 False t) = F32 s f \<and>
           f32_mul (F32 False t) (F32 False p) = F32 False d \<and>
           f32_div (F32 s f) (F32 False d) = F32 s q \<and> 0 < d \<and>
           \<bar>f / d - m\<bar> \<le> 4 / 2 ^ 24 * m \<and> \<bar>q - m\<bar> \<le> 5 / 2 ^ 24 * m"
proof -
  have m0: "0 < m" using m(1) by (rule less_le_trans [rotated]) simp
  have p0: "0 < p" using p(1) by (rule less_le_trans [rotated]) simp
  have t0: "0 < t" using t(1) by (rule less_le_trans [rotated]) simp
  have mp1: "1 / 2 ^ 62 \<le> m * p"
    by (rule prod_lower [OF m(1) p(1)]) simp_all
  have mp2: "m * p \<le> 2 ^ 59"
    by (rule prod_upper [OF m(2) p(2) m0 p0]) simp_all
  from mp1 mp2 have "1 / 2 ^ 126 \<le> m * p" and "m * p \<le> 2 ^ 127" by simp_all
  then obtain a where a: "round32 s (m * p) = F32 s a" and ae: "\<bar>a - m * p\<bar> \<le> m * p / 2 ^ 24"
    by (rule round32_within)
  note ab = rel_bounds [OF ae]
  have a_lo: "1 / 2 ^ 63 \<le> a"
  proof -
    have "1 / 2 ^ 63 \<le> m * p * (1 - 1 / 2 ^ 24)"
      by (rule prod_lower [OF mp1 order_refl]) simp_all
    with ab(2) show ?thesis by linarith
  qed
  have a0: "0 < a" using a_lo by (rule less_le_trans [rotated]) simp
  have a_hi: "a \<le> 2 ^ 60"
  proof -
    from m0 p0 have "0 < m * p" by simp
    then have "m * p * (1 + 1 / 2 ^ 24) \<le> 2 ^ 60"
      by (rule prod_upper [OF mp2 order_refl]) simp_all
    with ab(1) show ?thesis by linarith
  qed
  have "1 / 2 ^ 126 \<le> a * t"
    by (rule prod_lower [OF a_lo t(1)]) simp_all
  moreover have "a * t \<le> 2 ^ 127"
    by (rule prod_upper [OF a_hi t(2) a0 t0]) simp_all
  ultimately have "1 / 2 ^ 126 \<le> a * t" and "a * t \<le> 2 ^ 127" by simp_all
  then obtain f where f: "round32 s (a * t) = F32 s f" and fe: "\<bar>f - a * t\<bar> \<le> a * t / 2 ^ 24"
    by (rule round32_within)
  have "1 / 2 ^ 126 \<le> t * p"
    by (rule prod_lower [OF t(1) p(1)]) simp_all
  moreover have "t * p \<le> 2 ^ 127"
    by (rule prod_upper [OF t(2) p(2) t0 p0]) simp_all
  ultimately obtain d where d: "round32 False (t * p) = F32 False d" and de: "\<bar>d - t * p\<bar> \<le> t * p / 2 ^ 24"
    by (rule round32_within)
  note c = quotient_chain [OF m0 p0 t0 ae fe de]
  have x_lo: "1 / 2 ^ 126 \<le> f / d"
  proof -
    have "1 / 2 ^ 126 \<le> m * ((1 - 1 / 2 ^ 24) * (1 - 1 / 2 ^ 24) / (1 + 1 / 2 ^ 24))"
      by (rule prod_lower [OF m(1) order_refl]) simp_all
    with c(5) show ?thesis by linarith
  qed
  have x_hi: "f / d \<le> 2 ^ 127"
  proof -
    have "m * ((1 + 1 / 2 ^ 24) * (1 + 1 / 2 ^ 24) / (1 - 1 / 2 ^ 24)) \<le> 2 ^ 127"
      by (rule prod_upper [OF m(2) order_refl m0]) simp_all
    with c(4) show ?thesis by linarith
  qed
  from x_lo x_hi obtain q where q: "round32 s (f / d) = F32 s q"
    and qe: "\<bar>q - f / d\<bar> \<le> f / d / 2 ^ 24"
    by (rule round32_within)
  from ratio_chain [OF m0 c(4) c(5) qe] have "\<bar>q - m\<bar> \<le> 5 / 2 ^ 24 * m" .
  moreover from a f have "f32_mul (f32_mul (F32 s m) (F32 False p)) (F32 False t) = F32 s f"
    by simp
  moreover from d have "f32_mul (F32 False t) (F32 False p) = F32 False d" by simp
  moreover from q c(3) have "f32_div (F32 s f) (F32 False d) = F32 s q" by simp
  ultimately show ?thesis using c(3) c(6) by blast
qed

lemma f32_ratio_zero:
  assumes p: "1 / 4 \<le> p" "p \<le> 1 / 2"
    and t: "1 / 2 ^ 60 \<le> t" "t \<le> 2 ^ 60"
  shows "\<exists>d. f32_mul (f32_mul (F32 s 0) (F32 False p)) (F32 False t) = F32 s 0 \<and>
           f32_mul (F32 False t) (F32 False p) = F32 False d \<and> 0 < d \<and>
           f32_div (F32 s 0) (F32 False d) = F32 s 0"
proof -
  have p0: "0 < p" using p(1) by (rule less_le_trans [rotated]) simp
  have t0: "0 < t" using t(1) by (rule less_le_trans [rotated]) simp
  have "1 / 2 ^ 126 \<le> t * p"
    by (rule prod_lower [OF t(1) p(1)]) simp_all
  moreover have "t * p \<le> 2 ^ 127"
    by (rule prod_upper [OF t(2) p(2) t0 p0]) simp_all
  ultimately obtain d where d: "round32 False (t * p) = F32 False d" and de: "\<bar>d - t * p\<bar> \<le> t * p / 2 ^ 24"
    by (rule round32_within)
  from t0 p0 have "0 < t * p * (1 - 1 / 2 ^ 24)" by simp
  with rel_bounds(2) [OF de] have "0 < d" by linarith
  with d show ?thesis by (simp add: round32_def)
qed

lemma diffuse_component:
  assumes p: "f32_between (1 / 4) (1 / 2) P"
    and t: "f32_between (1 / 2 ^ 60) (2 ^ 60) T"
    and c: "f32_in_range c"
  shows "f32_within 5 (f32_div (f32_mul (f32_mul c P) T) (f32_mul T P)) c"
    and "f32_quotient_within 4 (f32_mul T P) (f32_mul (f32_mul c P) T) c"
proof -
  from p obtain pm where P: "P = F32 False pm" and pr: "1 / 4 \<le> pm" "pm \<le> 1 / 2"
    by (auto simp add: f32_between_def split: float32.splits)
  from t obtain tm where T: "T = F32 False tm" and tr: "1 / 2 ^ 60 \<le> tm" "tm \<le> 2 ^ 60"
    by (auto simp add: f32_between_def split: float32.splits)
  from c obtain s m where C: "c = F32 s m" and mr: "m = 0 \<or> (1 / 2 ^ 60 \<le> m \<and> m \<le> 2 ^ 60)"
    by (auto simp add: f32_in_range_def split: float32.splits)
  have "f32_within 5 (f32_div (f32_mul (f32_mul c P) T) (f32_mul T P)) c \<and>
        f32_quotient_within 4 (f32_mul T P) (f32_mul (f32_mul c P) T) c"
  proof (cases "m = 0")
    case True
    from f32_ratio_zero [OF pr tr, of s] obtain d where
      "f32_mul (f32_mul (F32 s 0) (F32 False pm)) (F32 False tm) = F32 s 0"
      "f32_mul (F32 False tm) (F32 False pm) = F32 False d" "0 < d"
      "f32_div (F32 s 0) (F32 False d) = F32 s 0" by blast
    with True show ?thesis
      unfolding C P T by (simp add: f32_within_def f32_quotient_within_def)
  next
    case False
    with mr have m: "1 / 2 ^ 60 \<le> m" "m \<le> 2 ^ 60" by simp_all
    from f32_ratio [OF m pr tr, of s] obtain f d q where
      "f32_mul (f32_mul (F32 s m) (F32 False pm)) (F32 False tm) = F32 s f"
      "f32_mul (F32 False tm) (F32 False pm) = F32 False d"
      "f32_div (F32 s f) (F32 False d) = F32 s q" "0 < d"
      "\<bar>f / d - m\<bar> \<le> 4 / 2 ^ 24 * m" "\<bar>q - m\<bar> \<le> 5 / 2 ^ 24 * m" by blast
    then show ?thesis
      unfolding C P T by (simp add: f32_within_def f32_quotient_within_def)
  qed
  then show "f32_within 5 (f32_div (f32_mul (f32_mul c P) T) (f32_mul T P)) c"
    and "f32_quotient_within 4 (f32_mul T P) (f32_mul (f32_mul c P) T) c" by simp_all
qed

text \<open>
  C9, as binary32 has it. Take \<^verbatim>\<open>InvPi\<close> a positive value between \<open>1/4\<close> and \<open>1/2\<close>, a
  sampled cosine between \<open>2 ^ (-60)\<close> and \<open>2 ^ 60\<close>, and a colour whose components are
  zero or of a magnitude between \<open>2 ^ (-60)\<close> and \<open>2 ^ 60\<close>. Then every component of the
  value that \<^verbatim>\<open>BxDF_Diffuse\<close> returns, divided in binary32 by the density it writes, is
  finite, has the sign of the component of the colour and is within \<open>5 / 2 ^ 24\<close> of
  its magnitude; the exact quotient of the two binary32 values is within \<open>4 / 2 ^ 24\<close>
  of it. A component that is zero comes back as zero.
\<close>

theorem BxDF_Diffuse_ratio_near_albedo:
  assumes "BxDF_Diffuse X material normal wo r = (f, wi, pdf, r')"
    and "f32_between (1 / 4) (1 / 2) (InvPi X)"
    and "f32_between (1 / 2 ^ 60) (2 ^ 60) (f32_abs (glm_dot X normal wi))"
    and "fv_all f32_in_range (m_color material)"
  shows "fv_all2 (f32_within 5) (fv_div f pdf) (m_color material) \<and>
         fv_all2 (f32_quotient_within 4 pdf) f (m_color material)"
proof -
  obtain wi0 r0 where s: "calculateRandomDirectionInHemisphere X normal r = (wi0, r0)"
    by (cases "calculateRandomDirectionInHemisphere X normal r")
  obtain a b c where col: "m_color material = FVec3 a b c" by (cases "m_color material")
  let ?T = "f32_abs (glm_dot X normal wi0)"
  from assms(1) s have wi: "wi = wi0"
    and f: "f = fv_scale (fv_scale (m_color material) (InvPi X)) ?T"
    and pdf: "pdf = f32_mul ?T (InvPi X)"
    by (auto simp add: BxDF_Diffuse_def Let_def)
  from assms(3) wi have t: "f32_between (1 / 2 ^ 60) (2 ^ 60) ?T" by simp
  from assms(4) col have r: "f32_in_range a" "f32_in_range b" "f32_in_range c" by simp_all
  note ca = diffuse_component [OF assms(2) t r(1)]
    and cb = diffuse_component [OF assms(2) t r(2)]
    and cc = diffuse_component [OF assms(2) t r(3)]
  from ca cb cc show ?thesis unfolding f pdf col by simp
qed

lemma BxDF_Diffuse_X0:
  "BxDF_Diffuse X0 diffuse_7_8 (FVec3 (F32 False 1) (F32 False 0) (F32 False 0))
      (FVec3 (F32 False 0) (F32 False 0) (F32 False 1)) 0 =
     (FVec3 (F32 False (9345619 / 2 ^ 25)) (F32 False (10680707 / 2 ^ 26)) (F32 False 0),
      FVec3 (F32 False 1) (F32 False 0) (F32 False 0),
      F32 False (10680707 / 2 ^ 25), 1)"
  by (simp add: BxDF_Diffuse_def X0_def InvPi_binary32_def diffuse_7_8_def plain_material_def
      round32_def f32_exponent_def ilog2.simps rne_def Let_def)

lemma ratio_X0:
  "fv_div (FVec3 (F32 False (9345619 / 2 ^ 25)) (F32 False (10680707 / 2 ^ 26)) (F32 False 0))
      (F32 False (10680707 / 2 ^ 25)) =
     FVec3 (F32 False (14680065 / 2 ^ 24)) (F32 False (1 / 2)) (F32 False 0)"
  by (simp add: round32_def f32_exponent_def ilog2.simps rne_def Let_def)

theorem BxDF_Diffuse_ratio_near_albedo_witness:
  "BxDF_Diffuse X0 diffuse_7_8 (FVec3 (F32 False 1) (F32 False 0) (F32 False 0))
      (FVec3 (F32 False 0) (F32 False 0) (F32 False 1)) 0 =
     (FVec3 (F32 False (9345619 / 2 ^ 25)) (F32 False (10680707 / 2 ^ 26)) (F32 False 0),
      FVec3 (F32 False 1) (F32 False 0) (F32 False 0),
      F32 False (10680707 / 2 ^ 25), 1) \<and>
   f32_between (1 / 4) (1 / 2) (InvPi X0) \<and>
   f32_between (1 / 2 ^ 60) (2 ^ 60)
     (f32_abs (glm_dot X0 (FVec3 (F32 False 1) (F32 False 0) (F32 False 0))
                          (FVec3 (F32 False 1) (F32 False 0) (F32 False 0)))) \<and>
   fv_all f32_in_range (m_color diffuse_7_8) \<and>
   fv_all2 (f32_within 5)
     (FVec3 (F32 False (14680065 / 2 ^ 24)) (F32 False (1 / 2)) (F32 False 0))
     (m_color diffuse_7_8) \<and>
   fv_all2 (f32_quotient_within 4 (F32 False (10680707 / 2 ^ 25)))
     (FVec3 (F32 False (9345619 / 2 ^ 25)) (F32 False (10680707 / 2 ^ 26)) (F32 False 0))
     (m_color diffuse_7_8)"
proof -
  note run = BxDF_Diffuse_X0
  have p: "f32_between (1 / 4) (1 / 2) (InvPi X0)"
    by (simp add: f32_between_def X0_def InvPi_binary32_def)
  have t: "f32_between (1 / 2 ^ 60) (2 ^ 60)
     (f32_abs (glm_dot X0 (FVec3 (F32 False 1) (F32 False 0) (F32 False 0))
                          (FVec3 (F32 False 1) (F32 False 0) (F32 False 0))))"
    by (simp add: f32_between_def X0_def round32_def f32_exponent_def ilog2.simps rne_def Let_def)
  have c: "fv_all f32_in_range (m_color diffuse_7_8)"
    by (simp add: f32_in_range_def diffuse_7_8_def plain_material_def)
  from BxDF_Diffuse_ratio_near_albedo [OF run p t c] ratio_X0 run p t c
  show ?thesis by simp
qed

text \<open>
  The quotient is not the colour itself. With the binary32 value next to \<open>1/\<pi>\<close> for
  \<^verbatim>\<open>InvPi\<close>, the cosine 1 and the colour \<open>(7/8, 1/2, 0)\<close>, the first component of the
  term is \<open>9345619 / 2 ^ 25\<close> and the density is \<open>10680707 / 2 ^ 25\<close>: their quotient in
  binary32 is \<open>7/8 + 1 / 2 ^ 24\<close>, and their exact quotient is not \<open>7/8\<close> either.
\<close>

theorem BxDF_Diffuse_ratio_misses_albedo:
  "BxDF_Diffuse X0 diffuse_7_8 (FVec3 (F32 False 1) (F32 False 0) (F32 False 0))
      (FVec3 (F32 False 0) (F32 False 0) (F32 False 1)) 0 =
     (FVec3 (F32 False (9345619 / 2 ^ 25)) (F32 False (10680707 / 2 ^ 26)) (F32 False 0),
      FVec3 (F32 False 1) (F32 False 0) (F32 False 0),
      F32 False (10680707 / 2 ^ 25), 1) \<and>
   f32_abs (glm_dot X0 (FVec3 (F32 False 1) (F32 False 0) (F32 False 0))
                       (FVec3 (F32 False 1) (F32 False 0) (F32 False 0))) = F32 False 1 \<and>
   m_color diffuse_7_8 = FVec3 (F32 False (7 / 8)) (F32 False (1 / 2)) (F32 False 0) \<and>
   fv_div (FVec3 (F32 False (9345619 / 2 ^ 25)) (F32 False (10680707 / 2 ^ 26)) (F32 False 0))
      (F32 False (10680707 / 2 ^ 25)) =
     FVec3 (F32 False (14680065 / 2 ^ 24)) (F32 False (1 / 2)) (F32 False 0) \<and>
   (14680065 / 2 ^ 24 :: real) \<noteq> 7 / 8 \<and>
   (9345619 / 2 ^ 25) / (10680707 / 2 ^ 25) \<noteq> (7 / 8 :: real)"
proof -
  have "f32_abs (glm_dot X0 (FVec3 (F32 False 1) (F32 False 0) (F32 False 0))
                       (FVec3 (F32 False 1) (F32 False 0) (F32 False 0))) = F32 False 1"
    by (simp add: X0_def round32_def f32_exponent_def ilog2.simps rne_def Let_def)
  moreover have "m_color diffuse_7_8 = FVec3 (F32 False (7 / 8)) (F32 False (1 / 2)) (F32 False 0)"
    by (simp add: diffuse_7_8_def plain_material_def)
  moreover have "(14680065 / 2 ^ 24 :: real) \<noteq> 7 / 8"
    and "(9345619 / 2 ^ 25) / (10680707 / 2 ^ 25) \<noteq> (7 / 8 :: real)" by simp_all
  ultimately show ?thesis using BxDF_Diffuse_X0 ratio_X0 by simp
qed

subsection \<open>Traversal of a flattened tree\<close>

lemma kd_traverse_subtree:
  assumes "laid_out kd i sh" and "length stk + max_depth sh \<le> 64"
  shows "\<exists>L'. kd_traverse X geoms kd i stk L =
           (case stk of [] \<Rightarrow> Some (Inr L') | n # rest \<Rightarrow> kd_traverse X geoms kd n rest L')"
  using assms
proof (induction sh arbitrary: i stk L)
  case KdLeaf
  then have leaf: "nPrimitives (kd i) > 0" by simp
  show ?case
  proof (cases "boundsIntersectionTest X (bounds (kd i)) (ray (l_pathSegment L)) \<noteq> - 1")
    case True
    with leaf show ?thesis
      by (subst kd_traverse.simps) (auto simp add: Let_def)
  next
    case False
    then show ?thesis
      by (subst kd_traverse.simps) (auto simp add: Let_def)
  qed
next
  case (KdNode l r)
  from KdNode.prems have inner: "\<not> nPrimitives (kd i) > 0"
    and lay_l: "laid_out kd (i + 1) l"
    and second: "secondChildOffset (kd i) = i + 1 + int (nodes l)"
    and lay_r: "laid_out kd (i + 1 + int (nodes l)) r"
    and room: "length stk < 64"
    and room_l: "length (secondChildOffset (kd i) # stk) + max_depth l \<le> 64"
    and room_r: "length stk + max_depth r \<le> 64"
    by simp_all
  show ?case
  proof (cases "boundsIntersectionTest X (bounds (kd i)) (ray (l_pathSegment L)) \<noteq> - 1")
    case True
    from KdNode.IH(1) [OF lay_l room_l, of L] obtain L1 where
      l: "kd_traverse X geoms kd (i + 1) (secondChildOffset (kd i) # stk) L =
            kd_traverse X geoms kd (secondChildOffset (kd i)) stk L1"
      by auto
    from KdNode.IH(2) [OF lay_r room_r, of L1] obtain L2 where
      r: "kd_traverse X geoms kd (i + 1 + int (nodes l)) stk L1 =
            (case stk of [] \<Rightarrow> Some (Inr L2) | n # rest \<Rightarrow> kd_traverse X geoms kd n rest L2)"
      by auto
    have "kd_traverse X geoms kd i stk L =
            kd_traverse X geoms kd (i + 1) (secondChildOffset (kd i) # stk) L"
      using True inner room by (subst kd_traverse.simps) (simp add: Let_def)
    with l r second show ?thesis by auto
  next
    case False
    then show ?thesis
      by (subst kd_traverse.simps) (auto simp add: Let_def)
  qed
qed

lemma kd_traverse_returns:
  assumes "laid_out kd 0 sh" and "max_depth sh \<le> 64"
  shows "\<exists>L'. kd_traverse X geoms kd 0 [] L = Some (Inr L')"
  using kd_traverse_subtree [of kd 0 sh "[]" X geoms L] assms by simp

lemma computeIntersectionsKD_thread_returns:
  assumes "laid_out kd 0 sh" and "max_depth sh \<le> 64"
  shows "\<exists>isect'. computeIntersectionsKD_thread X L0 pathSegment geoms kd isect mats tex
           = Some (Inr isect')"
proof -
  let ?L = "L0\<lparr>l_pathSegment := pathSegment, l_uv := Vec2 0 0, l_t_min := FLT_MAX,
               l_hit_geom_index := - 1, l_tmp := (l_tmp L0)\<lparr>o_outside := True\<rparr>\<rparr>"
  from kd_traverse_returns [OF assms, of X geoms ?L] obtain L' where
    "kd_traverse X geoms kd 0 [] ?L = Some (Inr L')" ..
  then show ?thesis by (simp add: computeIntersectionsKD_thread_def)
qed

text \<open>
  C8. On an array that holds a tree at index 0 whose depth is below the 64 slots of
  \<^verbatim>\<open>nodesToVisit\<close>, the traversal of \<^verbatim>\<open>computeIntersectionsKD\<close> returns for every ray
  and every content of the thread's locals, and it returns without a push outside the
  array: the result is neither the missing value of a loop that runs forever nor the
  fault of a push at index 64 or beyond. The same holds of the whole thread.
\<close>

theorem kd_traversal_terminates_in_bounds:
  assumes "laid_out kdtree 0 sh" and "max_depth sh < 64"
  shows "(\<exists>L'. kd_traverse X geoms kdtree 0 [] L = Some (Inr L')) \<and>
         (\<exists>isect'. computeIntersectionsKD_thread X L0 pathSegment geoms kdtree isect mats dev_textures
            = Some (Inr isect'))"
proof -
  from assms(2) have "max_depth sh \<le> 64" by simp
  with assms(1) show ?thesis
    using kd_traverse_returns [of kdtree sh X geoms L]
      computeIntersectionsKD_thread_returns [of kdtree sh X L0 pathSegment geoms isect mats dev_textures]
    by blast
qed

theorem kd_traversal_terminates_in_bounds_witness:
  "laid_out kd_two_leaves 0 (KdNode KdLeaf KdLeaf) \<and> max_depth (KdNode KdLeaf KdLeaf) < 64 \<and>
   (\<exists>L'. kd_traverse X0 (scene_geoms (scene_two 2)) kd_two_leaves 0 [] locals0 = Some (Inr L')) \<and>
   (\<exists>isect'. computeIntersectionsKD_thread X0 locals0 (white_path (Vec3 1 0 0) 2)
                (scene_geoms (scene_two 2)) kd_two_leaves zero_intersection
                (scene_materials (scene_two 2)) (scene_textures (scene_two 2)) = Some (Inr isect'))"
proof -
  have lay: "laid_out kd_two_leaves 0 (KdNode KdLeaf KdLeaf)"
    by (simp add: kd_two_leaves_def inner_node_def leaf_node_def)
  have dep: "max_depth (KdNode KdLeaf KdLeaf) < 64" by simp
  from kd_traversal_terminates_in_bounds [OF lay dep] lay dep show ?thesis by blast
qed

subsection \<open>Lists\<close>


lemma row_shift: "map (\<lambda>i. f (i mod m) (i div m)) [m * n..<m * n + m] = map (\<lambda>x. f x n) [0..<m]"
proof (rule nth_equalityI)
  show "length (map (\<lambda>i. f (i mod m) (i div m)) [m * n..<m * n + m]) = length (map (\<lambda>x. f x n) [0..<m])"
    by simp
next
  fix i assume "i < length (map (\<lambda>i. f (i mod m) (i div m)) [m * n..<m * n + m])"
  then have i: "i < m" by simp
  then have "(m * n + i) mod m = i" and "(m * n + i) div m = n" by simp_all
  with i show "map (\<lambda>i. f (i mod m) (i div m)) [m * n..<m * n + m] ! i = map (\<lambda>x. f x n) [0..<m] ! i"
    by simp
qed

lemma upt_split: "[0..<m * Suc n] = [0..<m * n] @ [m * n..<m * n + m]"
proof -
  have "[0..<m * n + m] = [0..<m * n] @ [m * n..<m * n + m]"
    by (rule upt_add_eq_append) simp
  then show ?thesis by (simp add: add.commute)
qed

lemma concat_rows:
  "concat (map (\<lambda>y. map (\<lambda>x. f x y) [0..<m]) [0..<n]) =
     map (\<lambda>i. f (i mod m) (i div m)) [0..<m * n]"
proof (induction n)
  case 0
  then show ?case by simp
next
  case (Suc n)
  have "concat (map (\<lambda>y. map (\<lambda>x. f x y) [0..<m]) [0..<Suc n]) =
          concat (map (\<lambda>y. map (\<lambda>x. f x y) [0..<m]) [0..<n]) @ map (\<lambda>x. f x n) [0..<m]"
    by simp
  also have "\<dots> = map (\<lambda>i. f (i mod m) (i div m)) [0..<m * n] @
                   map (\<lambda>i. f (i mod m) (i div m)) [m * n..<m * n + m]"
    by (simp only: Suc.IH row_shift)
  also have "\<dots> = map (\<lambda>i. f (i mod m) (i div m)) [0..<m * Suc n]"
    by (simp only: upt_split map_append)
  finally show ?case .
qed

lemma mset_insert_by_key: "mset (insert_by_key lt kv xs) = add_mset kv (mset xs)"
  by (induction xs) simp_all

lemma mset_insertion_sort: "mset (foldr (insert_by_key lt) kvs []) = mset kvs"
  by (induction kvs) (simp_all add: mset_insert_by_key)

lemma insert_by_key_front:
  assumes "\<forall>x \<in> set xs. \<not> lt (fst x) (fst kv)"
  shows "insert_by_key lt kv xs = kv # xs"
  using assms by (cases xs) simp_all

lemma insertion_sort_sorted:
  assumes "sorted_wrt (\<lambda>a b. \<not> lt b a) (map fst kvs)"
  shows "foldr (insert_by_key lt) kvs [] = kvs"
  using assms
proof (induction kvs)
  case Nil
  then show ?case by simp
next
  case (Cons kv kvs)
  then have rest: "foldr (insert_by_key lt) kvs [] = kvs"
    and front: "\<forall>x \<in> set kvs. \<not> lt (fst x) (fst kv)"
    by simp_all
  then show ?case by (simp add: insert_by_key_front)
qed

lemma thrust_sort_by_key_cases:
  obtains out where "thrust_sort_by_key arrange lt keys vals = (map fst out, map snd out)"
    and "mset out = mset (zip keys vals)"
    and "sort_by_key_ok lt (zip keys vals) out \<or> out = foldr (insert_by_key lt) (zip keys vals) []"
proof (cases "sort_by_key_ok lt (zip keys vals) (arrange (zip keys vals))")
  case True
  then have "thrust_sort_by_key arrange lt keys vals =
      (map fst (arrange (zip keys vals)), map snd (arrange (zip keys vals)))"
    by (simp add: thrust_sort_by_key_def Let_def)
  moreover from True have "mset (arrange (zip keys vals)) = mset (zip keys vals)"
    by (simp add: sort_by_key_ok_def)
  ultimately show ?thesis using True that by blast
next
  case False
  then have "thrust_sort_by_key arrange lt keys vals =
      (map fst (foldr (insert_by_key lt) (zip keys vals) []),
       map snd (foldr (insert_by_key lt) (zip keys vals) []))"
    by (simp add: thrust_sort_by_key_def Let_def)
  then show ?thesis using mset_insertion_sort [of lt "zip keys vals"] that by blast
qed

lemma thrust_sort_by_key_zip:
  assumes "length keys = length vals" and "thrust_sort_by_key arrange lt keys vals = (ks, vs)"
  shows "length ks = length keys" and "length vs = length keys"
    and "mset (zip ks vs) = mset (zip keys vals)"
    and "mset vs = mset vals" and "mset ks = mset keys"
proof -
  obtain out where o: "thrust_sort_by_key arrange lt keys vals = (map fst out, map snd out)"
    and m: "mset out = mset (zip keys vals)"
    by (rule thrust_sort_by_key_cases)
  from assms(2) o have ks: "ks = map fst out" and vs: "vs = map snd out" by simp_all
  from m have "length out = length (zip keys vals)" by (rule mset_eq_length)
  with assms(1) show "length ks = length keys" and "length vs = length keys"
    by (simp_all add: ks vs)
  have "zip ks vs = out" by (simp add: ks vs zip_map_fst_snd)
  with m show "mset (zip ks vs) = mset (zip keys vals)" by simp
  have "mset vs = image_mset snd (mset out)" by (simp add: vs)
  also have "\<dots> = mset (map snd (zip keys vals))" by (simp add: m)
  finally show "mset vs = mset vals" using assms(1) by simp
  have "mset ks = image_mset fst (mset out)" by (simp add: ks)
  also have "\<dots> = mset (map fst (zip keys vals))" by (simp add: m)
  finally show "mset ks = mset keys" using assms(1) by simp
qed

lemma gather_at:
  "foldl (\<lambda>img p. img(key p := add (img (key p)) (val p))) im ps q =
     foldl add (im q) (map val (filter (\<lambda>p. key p = q) ps))"
  by (induction ps arbitrary: im) simp_all

lemma filter_upt_index:
  "filter (\<lambda>i. int i = q) [0..<n] = (if 0 \<le> q \<and> q < int n then [nat q] else [])"
  by (induction n) auto

lemma filter_by_index:
  assumes "mset ps = mset (map g [0..<n])" and "\<forall>i<n. key (g i) = int i"
  shows "filter (\<lambda>p. key p = q) ps = (if 0 \<le> q \<and> q < int n then [g (nat q)] else [])"
proof -
  have "filter (\<lambda>p. key p = q) (map g [0..<n]) = map g (filter (\<lambda>i. key (g i) = q) [0..<n])"
    by (simp add: filter_map comp_def)
  also have "filter (\<lambda>i. key (g i) = q) [0..<n] = filter (\<lambda>i. int i = q) [0..<n]"
    using assms(2) by (intro filter_cong) simp_all
  finally have gen: "filter (\<lambda>p. key p = q) (map g [0..<n]) =
      (if 0 \<le> q \<and> q < int n then [g (nat q)] else [])"
    by (simp add: filter_upt_index)
  define xs where "xs = filter (\<lambda>p. key p = q) ps"
  have "mset xs = filter_mset (\<lambda>p. key p = q) (mset ps)" by (simp add: xs_def)
  also have "\<dots> = mset (filter (\<lambda>p. key p = q) (map g [0..<n]))"
    by (simp only: assms(1) mset_filter)
  finally have m: "mset xs = mset (if 0 \<le> q \<and> q < int n then [g (nat q)] else [])"
    by (simp only: gen)
  have "xs = (if 0 \<le> q \<and> q < int n then [g (nat q)] else [])"
  proof (cases "0 \<le> q \<and> q < int n")
    case True
    with m have "mset xs = {#g (nat q)#}" by simp
    then have "xs = [g (nat q)]" by (simp add: mset_single_iff_right)
    with True show ?thesis by simp
  next
    case False
    with m have "mset xs = {#}" by simp
    then have "xs = []" by simp
    with False show ?thesis by simp
  qed
  then show ?thesis by (simp add: xs_def)
qed


subsection \<open>Ray generation\<close>

lemma generateRayFromCamera_eq:
  "generateRayFromCamera X cam iter td =
     map (\<lambda>i. generateRayFromCamera_thread X cam iter td
                 (i mod fst (resolution cam)) (i div fst (resolution cam)))
         [0..<fst (resolution cam) * snd (resolution cam)]"
  unfolding generateRayFromCamera_def by (rule concat_rows)

lemma generateRayFromCamera_thread_fields:
  "color (generateRayFromCamera_thread X cam iter td x y) = Vec3 1 1 1"
  "remainingBounces (generateRayFromCamera_thread X cam iter td x y) = td"
  "pixelIndex (generateRayFromCamera_thread X cam iter td x y) = int (x + y * fst (resolution cam))"
  by (simp_all add: generateRayFromCamera_thread_def Let_def split: prod.splits)

lemma generated_pixelIndex:
  "pixelIndex (generateRayFromCamera_thread X cam iter td
      (i mod fst (resolution cam)) (i div fst (resolution cam))) = int i"
  by (simp add: generateRayFromCamera_thread_fields)

subsection \<open>Compaction\<close>

lemma compact_all_dead:
  assumes "\<forall>p \<in> set (take n ps). remainingBounces p \<le> 0"
  shows "compact n ps = (ps, 0)"
proof -
  from assms have "filter rayDeath (take n ps) = []"
    by (auto simp add: rayDeath_def filter_empty_conv)
  moreover from assms have "filter (\<lambda>x. \<not> rayDeath x) (take n ps) = take n ps"
    by (auto simp add: rayDeath_def filter_id_conv)
  ultimately show ?thesis
    by (simp add: compact_def thrust_partition_def)
qed

text \<open>
  C5, as the code has it. After the compaction of the first \<open>num_paths\<close> entries the
  new count is at most the old one; every entry of the new prefix has a counter above
  zero, and the entries of the new prefix are, as a multiset, exactly the entries of the
  old prefix with a counter above zero, so a surviving path keeps its ray, throughput,
  pixel index and counter; every entry moved behind the new prefix has a counter that
  is not above zero, which is zero whenever no counter of the old prefix was negative;
  the array beyond \<open>num_paths\<close> is not touched.
\<close>

theorem compaction_partitions:
  assumes "compact num_paths dev_paths = (paths', num_paths')"
    and "num_paths \<le> length dev_paths"
  shows "num_paths' \<le> num_paths \<and>
         length paths' = length dev_paths \<and>
         (\<forall>i<num_paths'. remainingBounces (paths' ! i) > 0) \<and>
         mset (take num_paths' paths') = mset (filter rayDeath (take num_paths dev_paths)) \<and>
         (\<forall>i. num_paths' \<le> i \<and> i < num_paths \<longrightarrow> remainingBounces (paths' ! i) \<le> 0) \<and>
         mset (drop num_paths' (take num_paths paths')) =
           mset (filter (\<lambda>p. \<not> rayDeath p) (take num_paths dev_paths)) \<and>
         drop num_paths paths' = drop num_paths dev_paths \<and>
         ((\<forall>p \<in> set (take num_paths dev_paths). 0 \<le> remainingBounces p) \<longrightarrow>
            (\<forall>i. num_paths' \<le> i \<and> i < num_paths \<longrightarrow> remainingBounces (paths' ! i) = 0))"
proof -
  let ?act = "take num_paths dev_paths"
  let ?live = "filter rayDeath ?act"
  let ?dead = "filter (\<lambda>p. \<not> rayDeath p) ?act"
  from assms(1) have p': "paths' = ?live @ ?dead @ drop num_paths dev_paths"
    and n': "num_paths' = length ?live"
    by (simp_all add: compact_def thrust_partition_def)
  from assms(2) have len_act: "length ?act = num_paths" by simp
  have split: "length ?live + length ?dead = num_paths"
    using sum_length_filter_compl [of rayDeath ?act] len_act by simp
  have c1: "num_paths' \<le> num_paths" using split n' by simp
  have c2: "length paths' = length dev_paths"
    using split assms(2) by (simp add: p')
  have c3: "\<forall>i<num_paths'. remainingBounces (paths' ! i) > 0"
  proof (intro allI impI)
    fix i assume i: "i < num_paths'"
    then have "paths' ! i = ?live ! i" by (simp add: p' n' nth_append)
    moreover from i have "?live ! i \<in> set ?live" unfolding n' by (rule nth_mem)
    then have "rayDeath (?live ! i)" by simp
    ultimately show "remainingBounces (paths' ! i) > 0" by (simp add: rayDeath_def)
  qed
  have c4: "mset (take num_paths' paths') = mset ?live" by (simp add: p' n')
  have dead_at: "paths' ! i \<in> set ?dead" if "num_paths' \<le> i" "i < num_paths" for i
  proof -
    from that split n' have d: "i - num_paths' < length ?dead" by simp
    from that d have "paths' ! i = ?dead ! (i - num_paths')" by (simp add: p' n' nth_append)
    moreover from d have "?dead ! (i - num_paths') \<in> set ?dead" by (rule nth_mem)
    ultimately show ?thesis by simp
  qed
  have c5: "\<forall>i. num_paths' \<le> i \<and> i < num_paths \<longrightarrow> remainingBounces (paths' ! i) \<le> 0"
  proof (intro allI impI)
    fix i assume "num_paths' \<le> i \<and> i < num_paths"
    with dead_at [of i] have "paths' ! i \<in> set ?dead" by simp
    then show "remainingBounces (paths' ! i) \<le> 0" by (simp add: rayDeath_def)
  qed
  have "take num_paths paths' = ?live @ ?dead"
    using split by (simp add: p')
  then have c6: "mset (drop num_paths' (take num_paths paths')) = mset ?dead"
    by (simp add: n')
  have c7: "drop num_paths paths' = drop num_paths dev_paths"
    using split by (simp add: p')
  have c8: "(\<forall>p \<in> set ?act. 0 \<le> remainingBounces p) \<longrightarrow>
            (\<forall>i. num_paths' \<le> i \<and> i < num_paths \<longrightarrow> remainingBounces (paths' ! i) = 0)"
  proof (intro allI impI)
    fix i assume nn: "\<forall>p \<in> set ?act. 0 \<le> remainingBounces p"
      and "num_paths' \<le> i \<and> i < num_paths"
    with dead_at [of i] have "paths' ! i \<in> set ?dead" by simp
    then have "paths' ! i \<in> set ?act" and "remainingBounces (paths' ! i) \<le> 0"
      by (simp_all add: rayDeath_def)
    with nn show "remainingBounces (paths' ! i) = 0" by force
  qed
  show ?thesis
    by (intro conjI) (fact c1, fact c2, fact c3, fact c4, fact c5, fact c6, fact c7, fact c8)
qed

theorem compaction_partitions_witness:
  "compact 3 [white_path (Vec3 0 0 1) 0, white_path (Vec3 0 0 1) 2, white_path (Vec3 0 0 1) 0]
     = ([white_path (Vec3 0 0 1) 2, white_path (Vec3 0 0 1) 0, white_path (Vec3 0 0 1) 0], 1) \<and>
   3 \<le> length [white_path (Vec3 0 0 1) 0, white_path (Vec3 0 0 1) 2, white_path (Vec3 0 0 1) 0] \<and>
   (1::nat) \<le> 3 \<and>
   mset (take 1 [white_path (Vec3 0 0 1) 2, white_path (Vec3 0 0 1) 0, white_path (Vec3 0 0 1) 0])
     = mset (filter rayDeath
         (take 3 [white_path (Vec3 0 0 1) 0, white_path (Vec3 0 0 1) 2, white_path (Vec3 0 0 1) 0]))"
proof -
  have run: "compact 3 [white_path (Vec3 0 0 1) 0, white_path (Vec3 0 0 1) 2, white_path (Vec3 0 0 1) 0]
     = ([white_path (Vec3 0 0 1) 2, white_path (Vec3 0 0 1) 0, white_path (Vec3 0 0 1) 0], 1)"
    by (simp add: compact_def thrust_partition_def rayDeath_def white_path_def)
  have len: "3 \<le> length [white_path (Vec3 0 0 1) 0, white_path (Vec3 0 0 1) 2, white_path (Vec3 0 0 1) 0]"
    by simp
  from compaction_partitions [OF run len] run len show ?thesis by blast
qed

text \<open>
  The claim as it was stated fails on an entry with a negative counter: the compaction
  removes it, and its counter is not zero.
\<close>

theorem compaction_removes_negative_counter:
  "snd (compact 1 [white_path (Vec3 0 0 1) (- 1)]) = 0 \<and>
   remainingBounces (fst (compact 1 [white_path (Vec3 0 0 1) (- 1)]) ! 0) = - 1 \<and>
   remainingBounces (fst (compact 1 [white_path (Vec3 0 0 1) (- 1)]) ! 0) \<noteq> 0"
  by (simp add: compact_def thrust_partition_def rayDeath_def white_path_def)

subsection \<open>Shading\<close>

lemma shade_emissive:
  assumes "remainingBounces seg \<noteq> 0" and "isect_t isect > 0"
    and "emittance (mats (materialId isect)) > 0"
  shows "shadeMaterials_thread X pt iter index isect seg mats depth tex =
           seg\<lparr>color := vmul (color seg)
                           (vscale (m_color (mats (materialId isect))) (emittance (mats (materialId isect)))),
               remainingBounces := 0\<rparr>"
  using assms by (simp add: shadeMaterials_thread_def Let_def)

lemma shade_dead:
  assumes "remainingBounces seg = 0"
  shows "shadeMaterials_thread X pt iter index isect seg mats depth tex = seg"
  using assms by (simp add: shadeMaterials_thread_def)

text \<open>
  C3, at the input where the code leaves the claim. A path with two bounces left hits a
  material that is no light and whose texture offset is the sentinel \<open>-2\<close>. The branch
  of the sentinel sets the counter to zero; the kernel then goes on to \<^verbatim>\<open>scatterRay\<close>
  and to \<^verbatim>\<open>remainingBounces--\<close>, and the counter of the path is \<open>-1\<close>.
\<close>

theorem shade_texture_error_counter_negative:
  "remainingBounces
     (shadeMaterials_thread X0 True 1 0 (hit_record 1 0) (white_path (Vec3 0 0 1) 2)
        (\<lambda>i. plain_material (Vec3 (1 / 2) (1 / 2) (1 / 2)) 0 (- 2)) 0 (\<lambda>i. Vec3 0 0 0)) = - 1"
  by (simp add: shadeMaterials_thread_def X0_def hit_record_def white_path_def plain_material_def
      scatterRay_diffuse_def Let_def)

text \<open>
  C6, as the code runs. On the branch of the texture-load sentinel the kernel forces
  the throughput to magenta and the counter to zero, and then, with no \<^verbatim>\<open>else\<close> and no
  \<^verbatim>\<open>return\<close>, hands that segment to \<^verbatim>\<open>scatterRay\<close> and decrements the counter: what
  the path is left with is what \<^verbatim>\<open>scatterRay\<close> makes of the magenta segment, its counter
  one lower.
\<close>

theorem shade_texture_error_goes_on_to_scatter:
  assumes "remainingBounces seg \<noteq> 0" and "isect_t isect > 0"
    and "\<not> emittance (mats (materialId isect)) > 0"
    and "textureOffset (mats (materialId isect)) = - 2"
  shows "shadeMaterials_thread X pt iter index isect seg mats depth tex =
           (let p3 = scatterRay X (seg\<lparr>color := Vec3 1 0 1, remainingBounces := 0\<rparr>)
                       (getPointOnRay X (ray seg) (isect_t isect)) (surfaceNormal isect)
                       (mats (materialId isect))
                       (makeSeededRandomEngine X (word_of_int iter) (word_of_nat index) (word_of_int depth))
            in p3\<lparr>remainingBounces := remainingBounces p3 - 1\<rparr>)"
  using assms by (simp add: shadeMaterials_thread_def Let_def)

theorem shade_texture_error_goes_on_to_scatter_witness:
  "shadeMaterials_thread X0 True 1 0 (hit_record 1 0) (white_path (Vec3 0 0 1) 1)
     (\<lambda>i. plain_material (Vec3 (1 / 2) (1 / 2) (1 / 2)) 0 (- 2)) 0 (\<lambda>i. Vec3 0 0 0) =
    \<lparr>ray = \<lparr>origin = Vec3 0 0 1, direction = Vec3 (- 1) 0 0\<rparr>, color = Vec3 (1 / 2) 0 (1 / 2),
      pixelIndex = 0, remainingBounces = - 1\<rparr>"
proof -
  let ?mats = "\<lambda>i::int. plain_material (Vec3 (1 / 2) (1 / 2) (1 / 2)) 0 (- 2)"
  have h1: "remainingBounces (white_path (Vec3 0 0 1) 1) \<noteq> 0" by (simp add: white_path_def)
  have h2: "isect_t (hit_record 1 0) > 0" by (simp add: hit_record_def)
  have h3: "\<not> emittance (?mats (materialId (hit_record 1 0))) > 0"
    by (simp add: plain_material_def)
  have h4: "textureOffset (?mats (materialId (hit_record 1 0))) = - 2"
    by (simp add: plain_material_def)
  show ?thesis
    by (subst shade_texture_error_goes_on_to_scatter [OF h1 h2 h3 h4])
       (simp add: X0_def hit_record_def white_path_def plain_material_def
          scatterRay_diffuse_def Let_def sample0_def makeSeededRandomEngine_def)
qed

subsection \<open>Intersection\<close>

text \<open>
  C4, at the input where the two kernels part. The leaf holds a sphere at distance 10
  and a diamond at distance 5. The brute-force kernel tests both and records the
  diamond: \<open>t = 5\<close>, material 1. The dispatch of the kernel on the tree has no branch
  for a diamond, so \<^verbatim>\<open>t\<close> still holds the distance of the sphere when the diamond is
  compared, and the kernel records the sphere: \<open>t = 10\<close>, material 0.
\<close>

theorem kd_kernel_misses_diamond:
  "computeIntersections_thread X0 locals0 (white_path (Vec3 1 0 0) 1) geoms_sphere_diamond 2
     zero_intersection (\<lambda>i. plain_material (Vec3 1 1 1) 0 (- 1)) (\<lambda>i. Vec3 0 0 0) =
     \<lparr>isect_t = 5, surfaceNormal = Vec3 0 0 0, materialId = 1, uvs = Vec2 0 0\<rparr> \<and>
   computeIntersectionsKD_thread X0 locals0 (white_path (Vec3 1 0 0) 1) geoms_sphere_diamond
     (\<lambda>i. leaf_node 2 0) zero_intersection (\<lambda>i. plain_material (Vec3 1 1 1) 0 (- 1))
     (\<lambda>i. Vec3 0 0 0) =
     Some (Inr \<lparr>isect_t = 10, surfaceNormal = Vec3 0 0 0, materialId = 0, uvs = Vec2 0 0\<rparr>)"
proof
  show "computeIntersections_thread X0 locals0 (white_path (Vec3 1 0 0) 1) geoms_sphere_diamond 2
     zero_intersection (\<lambda>i. plain_material (Vec3 1 1 1) 0 (- 1)) (\<lambda>i. Vec3 0 0 0) =
     \<lparr>isect_t = 5, surfaceNormal = Vec3 0 0 0, materialId = 1, uvs = Vec2 0 0\<rparr>"
    by (simp add: computeIntersections_thread_def computeIntersections_locals_def
        write_intersection_def bf_step_def X0_def locals0_def white_path_def
        geoms_sphere_diamond_def prim_def zero_intersection_def plain_material_def hit_uvs_def
        hit_normal_map_def Let_def FLT_MAX_def upt_rec numeral_2_eq_2)
next
  show "computeIntersectionsKD_thread X0 locals0 (white_path (Vec3 1 0 0) 1) geoms_sphere_diamond
     (\<lambda>i. leaf_node 2 0) zero_intersection (\<lambda>i. plain_material (Vec3 1 1 1) 0 (- 1))
     (\<lambda>i. Vec3 0 0 0) =
     Some (Inr \<lparr>isect_t = 10, surfaceNormal = Vec3 0 0 0, materialId = 0, uvs = Vec2 0 0\<rparr>)"
    unfolding computeIntersectionsKD_thread_def
    by (subst kd_traverse.simps)
       (simp add: write_intersection_def kd_leaf_step_def X0_def locals0_def white_path_def
          geoms_sphere_diamond_def prim_def zero_intersection_def leaf_node_def plain_material_def
          hit_uvs_def hit_normal_map_def Let_def FLT_MAX_def upt_rec numeral_2_eq_2)
qed

lemma bf_step_path: "l_pathSegment (bf_step X geoms L i) = l_pathSegment L"
  by (simp add: bf_step_def Let_def split: GeomType.splits prod.splits)

lemma bf_loop_path: "l_pathSegment (foldl (bf_step X geoms) L js) = l_pathSegment L"
  by (induction js arbitrary: L) (simp_all add: bf_step_path)

lemma computeIntersections_local_color:
  assumes "l_hit_geom_index (computeIntersections_locals X L0 pathSegment geoms geoms_size) \<noteq> - 1"
  shows "color (l_pathSegment (computeIntersections_locals X L0 pathSegment geoms geoms_size)) =
           vmul (color pathSegment) (Vec3 1 0 1)"
  using assms
  by (simp add: computeIntersections_locals_def Let_def bf_loop_path split: if_splits)

lemma computeIntersections_paths:
  "fst (computeIntersections X junk depth num_paths pathSegments geoms geoms_size intersections
          materials dev_textures) = pathSegments"
  by (simp add: computeIntersections_def)

lemma bounce_brute_force:
  assumes "\<not> ACCELSTRUCT c"
  shows "bounce X c scene junk iter depth num_paths dev_paths =
           Some (Inr (shade_stage X c scene iter depth num_paths dev_paths
             (snd (computeIntersections X (junk depth) depth num_paths dev_paths (scene_geoms scene)
                     (scene_geoms_size scene) (replicate (pixelcount scene) zero_intersection)
                     (scene_materials scene) (scene_textures scene)))))"
  using assms
  by (simp add: bounce_def intersect_stage_def computeIntersections_def Let_def)

text \<open>
  C10. The brute-force kernel leaves the array of path segments as it found it, with
  the throughput of every path; under the brute-force switch the shading stage of the
  bounce is handed that same array together with the intersections the kernel wrote.
  The colour the kernel multiplies in on a hit goes to the thread's own copy of the
  segment, which ends with the thread.
\<close>

theorem computeIntersections_writes_intersections_only:
  "fst (computeIntersections X junk depth num_paths pathSegments geoms geoms_size intersections
          materials dev_textures) = pathSegments \<and>
   (\<not> ACCELSTRUCT c \<longrightarrow>
      bounce X c scene junk2 iter depth num_paths pathSegments =
        Some (Inr (shade_stage X c scene iter depth num_paths pathSegments
          (snd (computeIntersections X (junk2 depth) depth num_paths pathSegments (scene_geoms scene)
                  (scene_geoms_size scene) (replicate (pixelcount scene) zero_intersection)
                  (scene_materials scene) (scene_textures scene)))))) \<and>
   (l_hit_geom_index (computeIntersections_locals X L0 pathSegment geoms geoms_size) \<noteq> - 1 \<longrightarrow>
      color (l_pathSegment (computeIntersections_locals X L0 pathSegment geoms geoms_size)) =
        vmul (color pathSegment) (Vec3 1 0 1))"
  using computeIntersections_paths [of X junk depth num_paths pathSegments geoms geoms_size
      intersections materials dev_textures]
    bounce_brute_force [of c X scene junk2 iter depth num_paths pathSegments]
    computeIntersections_local_color [of X L0 pathSegment geoms geoms_size]
  by blast


subsection \<open>The stages of a bounce\<close>

lemma map_nth_take: "n \<le> length xs \<Longrightarrow> map (\<lambda>i. xs ! i) [0..<n] = take n xs"
  by (rule nth_equalityI) simp_all

lemma shadeMaterials_all_dead:
  assumes "n \<le> length ps" and "\<forall>p \<in> set (take n ps). remainingBounces p = 0"
  shows "shadeMaterials X pt iter n isects ps mats depth tex = ps"
proof -
  have "map (\<lambda>index. shadeMaterials_thread X pt iter index (isects ! index) (ps ! index) mats depth tex)
          [0..<n] = map (\<lambda>i. ps ! i) [0..<n]"
  proof (rule map_cong [OF refl])
    fix i assume "i \<in> set [0..<n]"
    with assms(1) have "ps ! i \<in> set (take n ps)"
      by (simp add: in_set_conv_nth) (metis nth_take length_take min.absorb2)
    with assms(2) have "remainingBounces (ps ! i) = 0" by simp
    then show "shadeMaterials_thread X pt iter i (isects ! i) (ps ! i) mats depth tex = ps ! i"
      by (rule shade_dead)
  qed
  with assms(1) show ?thesis
    by (simp add: shadeMaterials_def map_nth_take)
qed

lemma shadeMaterials_all_lit:
  assumes "n \<le> length ps" and "n \<le> length isects"
    and "\<forall>p \<in> set (take n ps). remainingBounces p \<noteq> 0 \<and> color p = Vec3 1 1 1"
    and "\<forall>r \<in> set (take n isects). isect_t r > 0 \<and> m_color (mats (materialId r)) = Vec3 1 1 1 \<and>
           emittance (mats (materialId r)) = 5"
  shows "shadeMaterials X pt iter n isects ps mats depth tex =
           map (\<lambda>p. p\<lparr>color := Vec3 5 5 5, remainingBounces := 0\<rparr>) (take n ps) @ drop n ps"
proof -
  have "map (\<lambda>index. shadeMaterials_thread X pt iter index (isects ! index) (ps ! index) mats depth tex)
          [0..<n] = map (\<lambda>i. (ps ! i)\<lparr>color := Vec3 5 5 5, remainingBounces := 0\<rparr>) [0..<n]"
  proof (rule map_cong [OF refl])
    fix i assume "i \<in> set [0..<n]"
    then have i: "i < n" by simp
    with assms(1) have "take n ps ! i = ps ! i" and "i < length (take n ps)" by simp_all
    then have "ps ! i \<in> set (take n ps)" by (metis nth_mem)
    with assms(3) have p: "remainingBounces (ps ! i) \<noteq> 0" "color (ps ! i) = Vec3 1 1 1" by simp_all
    from i assms(2) have "take n isects ! i = isects ! i" and "i < length (take n isects)" by simp_all
    then have "isects ! i \<in> set (take n isects)" by (metis nth_mem)
    with assms(4) have r: "isect_t (isects ! i) > 0"
      "m_color (mats (materialId (isects ! i))) = Vec3 1 1 1"
      "emittance (mats (materialId (isects ! i))) = 5" by simp_all
    from r(3) have e: "emittance (mats (materialId (isects ! i))) > 0" by simp
    have "shadeMaterials_thread X pt iter i (isects ! i) (ps ! i) mats depth tex =
            (ps ! i)\<lparr>color := vmul (color (ps ! i))
                (vscale (m_color (mats (materialId (isects ! i))))
                   (emittance (mats (materialId (isects ! i))))),
              remainingBounces := 0\<rparr>"
      using p(1) r(1) e by (rule shade_emissive)
    then show "shadeMaterials_thread X pt iter i (isects ! i) (ps ! i) mats depth tex =
            (ps ! i)\<lparr>color := Vec3 5 5 5, remainingBounces := 0\<rparr>"
      by (simp add: p(2) r(2) r(3))
  qed
  also have "\<dots> = map (\<lambda>p. p\<lparr>color := Vec3 5 5 5, remainingBounces := 0\<rparr>) (map (\<lambda>i. ps ! i) [0..<n])"
    by (simp add: comp_def)
  finally show ?thesis using assms(1)
    by (simp add: shadeMaterials_def map_nth_take)
qed

lemma sort_stage_props:
  assumes "n \<le> length isects" and "n \<le> length ps" and "sort_stage X n isects ps = (isects', ps')"
  shows "length ps' = length ps" and "length isects' = length isects"
    and "mset ps' = mset ps" and "mset (take n isects') = mset (take n isects)"
    and "mset (take n ps') = mset (take n ps)"
proof -
  obtain ks vs where
    s: "thrust_sort_by_key (sort_arrangement X) materialCmp (take n isects) (take n ps) = (ks, vs)"
    by (cases "thrust_sort_by_key (sort_arrangement X) materialCmp (take n isects) (take n ps)")
  from assms(1,2) have len: "length (take n isects) = length (take n ps)" by simp
  note z = thrust_sort_by_key_zip [OF len s]
  from assms(3) s have i': "isects' = ks @ drop n isects" and p': "ps' = vs @ drop n ps"
    by (simp_all add: sort_stage_def)
  from z(1,2) assms(1,2) have lk: "length ks = n" and lv: "length vs = n" by simp_all
  show "length ps' = length ps" using lv assms(2) by (simp add: p')
  show "length isects' = length isects" using lk assms(1) by (simp add: i')
  have "mset ps' = mset (take n ps) + mset (drop n ps)" by (simp add: p' z(4))
  also have "\<dots> = mset (take n ps @ drop n ps)" by (simp only: mset_append)
  also have "\<dots> = mset ps" by (simp only: append_take_drop_id)
  finally show "mset ps' = mset ps" .
  show "mset (take n isects') = mset (take n isects)" using lk by (simp add: i' z(5))
  show "mset (take n ps') = mset (take n ps)" using lv by (simp add: p' z(4))
qed

lemma sorted_arrangement_unique:
  fixes f :: "'a \<Rightarrow> int"
  assumes "mset out = mset kvs" and "sorted (map f out)" and "sorted_wrt (<) (map f kvs)"
  shows "out = kvs"
proof -
  from assms(3) have s: "sorted (map f kvs)" and d: "distinct (map f kvs)"
    by (simp_all add: strict_sorted_iff)
  from assms(1) have "mset (map f out) = mset (map f kvs)" by simp
  with d have d': "distinct (map f out)" by (metis mset_eq_imp_distinct_iff)
  from assms(1) have e: "set out = set kvs" by (rule mset_eq_setD)
  from d have "inj_on f (set kvs)" by (simp add: distinct_map)
  with e have "inj_on f (set out \<union> set kvs)" by simp
  then show ?thesis using assms(2) d' s d e by (rule map_sorted_distinct_set_unique)
qed

lemma sort_stage_sorted:
  assumes "n \<le> length isects" and "n \<le> length ps"
    and "sorted_wrt (<) (map materialId (take n isects))"
  shows "sort_stage X n isects ps = (isects, ps)"
proof -
  let ?kvs = "zip (take n isects) (take n ps)"
  from assms(1,2) have len: "length (take n isects) = length (take n ps)" by simp
  then have keys: "map fst ?kvs = take n isects" and vals: "map snd ?kvs = take n ps" by simp_all
  from keys have ids: "map (\<lambda>kv. materialId (fst kv)) ?kvs = map materialId (take n isects)"
    by (metis (no_types, lifting) map_map comp_def map_eq_conv)
  obtain out where
    o: "thrust_sort_by_key (sort_arrangement X) materialCmp (take n isects) (take n ps)
          = (map fst out, map snd out)"
    and m: "mset out = mset ?kvs"
    and c: "sort_by_key_ok materialCmp ?kvs out \<or> out = foldr (insert_by_key materialCmp) ?kvs []"
    by (rule thrust_sort_by_key_cases)
  from c have "out = ?kvs"
  proof
    assume "sort_by_key_ok materialCmp ?kvs out"
    then have "sorted (map (\<lambda>kv. materialId (fst kv)) out)"
      by (simp add: sort_by_key_ok_def sorted_wrt_map materialCmp_def not_less)
    with m show ?thesis using assms(3) unfolding ids [symmetric]
      by (rule sorted_arrangement_unique)
  next
    assume f: "out = foldr (insert_by_key materialCmp) ?kvs []"
    from assms(3) have "sorted (map materialId (take n isects))"
      by (simp add: strict_sorted_iff)
    then have "sorted_wrt (\<lambda>a b. \<not> materialCmp b a) (map fst ?kvs)"
      unfolding keys by (simp add: sorted_wrt_map materialCmp_def not_less)
    then show ?thesis unfolding f by (rule insertion_sort_sorted)
  qed
  with o keys vals show ?thesis by (simp add: sort_stage_def)
qed

lemma ascends_iff:
  "sorted_wrt (\<lambda>a b. \<not> materialCmp (fst b) (fst a)) out =
     sorted (map (\<lambda>kv. materialId (fst kv)) out)"
  by (simp add: sorted_wrt_map materialCmp_def not_less)

lemma insert_by_key_ascends:
  assumes "sorted (map (\<lambda>kv. materialId (fst kv)) xs)"
  shows "sorted (map (\<lambda>kv. materialId (fst kv)) (insert_by_key materialCmp kv xs))"
  using assms
proof (induction xs)
  case Nil
  then show ?case by simp
next
  case (Cons x xs)
  then have rest: "sorted (map (\<lambda>kv. materialId (fst kv)) (insert_by_key materialCmp kv xs))"
    and below: "\<forall>y \<in> set xs. materialId (fst x) \<le> materialId (fst y)"
    and tail: "sorted (map (\<lambda>kv. materialId (fst kv)) xs)"
    by simp_all
  have members: "set (insert_by_key materialCmp kv xs) = insert kv (set xs)"
    by (metis mset_insert_by_key set_mset_add_mset_insert set_mset_mset)
  show ?case
  proof (cases "materialCmp (fst x) (fst kv)")
    case True
    then have "materialId (fst x) \<le> materialId (fst kv)" by (simp add: materialCmp_def)
    with below members
    have "\<forall>y \<in> set (insert_by_key materialCmp kv xs). materialId (fst x) \<le> materialId (fst y)"
      by simp
    with True rest show ?thesis by simp
  next
    case False
    then have k: "materialId (fst kv) \<le> materialId (fst x)" by (simp add: materialCmp_def)
    with below have "\<forall>y \<in> set xs. materialId (fst kv) \<le> materialId (fst y)" by force
    with False k below tail show ?thesis by simp
  qed
qed

lemma insertion_sort_ascends:
  "sorted (map (\<lambda>kv. materialId (fst kv)) (foldr (insert_by_key materialCmp) kvs []))"
  by (induction kvs) (simp_all add: insert_by_key_ascends)

text \<open>
  Whatever the parameter, the call meets the contract; and every arrangement that meets
  the contract is what the call leaves for some parameter, here the parameter itself.
\<close>

lemma thrust_sort_by_key_meets_contract:
  assumes "length keys = length vals"
    and "thrust_sort_by_key arrange materialCmp keys vals = (ks, vs)"
  shows "sort_by_key_ok materialCmp (zip keys vals) (zip ks vs)"
proof -
  obtain out where
    o: "thrust_sort_by_key arrange materialCmp keys vals = (map fst out, map snd out)"
    and c: "sort_by_key_ok materialCmp (zip keys vals) out \<or>
            out = foldr (insert_by_key materialCmp) (zip keys vals) []"
    by (rule thrust_sort_by_key_cases)
  from assms(2) o have "ks = map fst out" and "vs = map snd out" by simp_all
  then have z: "zip ks vs = out" by (simp add: zip_map_fst_snd)
  from c have "sort_by_key_ok materialCmp (zip keys vals) out"
  proof
    assume "out = foldr (insert_by_key materialCmp) (zip keys vals) []"
    then show ?thesis
      using insertion_sort_ascends [of "zip keys vals"] mset_insertion_sort [of materialCmp "zip keys vals"]
      by (simp add: sort_by_key_ok_def ascends_iff)
  qed
  with z show ?thesis by simp
qed

lemma thrust_sort_by_key_any:
  assumes "sort_by_key_ok lt (zip keys vals) (arrange (zip keys vals))"
  shows "thrust_sort_by_key arrange lt keys vals =
           (map fst (arrange (zip keys vals)), map snd (arrange (zip keys vals)))"
  using assms by (simp add: thrust_sort_by_key_def Let_def)

text \<open>An arrangement that turns round two pairs of one material meets the contract.\<close>

lemma sort_stage_tie:
  assumes "materialId a = materialId b"
  shows "sort_stage (X\<lparr>sort_arrangement := rev\<rparr>) 2 [a, b] [p, q] = ([b, a], [q, p])"
  using assms
  by (simp add: sort_stage_def thrust_sort_by_key_def sort_by_key_ok_def materialCmp_def)

lemma finalGather_uniform:
  assumes "mset ps' = mset (map g [0..<n])" and "\<forall>i<n. pixelIndex (g i) = int i"
    and "\<forall>p \<in> set ps'. color (upd p) = K \<and> pixelIndex (upd p) = pixelIndex p"
  shows "finalGather n im (map upd ps') =
           (\<lambda>q. if 0 \<le> q \<and> q < int n then vadd (im q) K else im q)"
proof
  fix q
  from assms(1) have "length ps' = length (map g [0..<n])" by (rule mset_eq_length)
  then have len: "length ps' = n" by simp
  have "filter (\<lambda>p. pixelIndex p = q) (map upd ps') =
          map upd (filter (\<lambda>p. pixelIndex (upd p) = q) ps')"
    by (simp add: filter_map comp_def)
  also have "filter (\<lambda>p. pixelIndex (upd p) = q) ps' = filter (\<lambda>p. pixelIndex p = q) ps'"
    using assms(3) by (intro filter_cong) simp_all
  also have "\<dots> = (if 0 \<le> q \<and> q < int n then [g (nat q)] else [])"
    using assms(1,2) by (rule filter_by_index)
  finally have f: "filter (\<lambda>p. pixelIndex p = q) (map upd ps') =
      (if 0 \<le> q \<and> q < int n then [upd (g (nat q))] else [])" by simp
  have "color (upd (g (nat q))) = K" if "0 \<le> q \<and> q < int n"
  proof -
    from that have "g (nat q) \<in> set (map g [0..<n])" by auto
    then have "g (nat q) \<in># mset (map g [0..<n])" by simp
    with assms(1) have "g (nat q) \<in> set ps'" by (metis set_mset_mset)
    with assms(3) show ?thesis by simp
  qed
  with f have "map color (filter (\<lambda>p. pixelIndex p = q) (map upd ps')) =
      (if 0 \<le> q \<and> q < int n then [K] else [])" by simp
  then show "finalGather n im (map upd ps') q =
      (if 0 \<le> q \<and> q < int n then vadd (im q) K else im q)"
    unfolding finalGather_def using len by (simp add: gather_at)
qed

lemma collect_length: "collect rs = Some (Inr xs) \<Longrightarrow> length xs = length rs"
  by (induction rs arbitrary: xs) (auto split: option.splits sum.splits)

lemma collect_returns:
  assumes "\<forall>r \<in> set rs. \<exists>a. r = Some (Inr a)"
  shows "\<exists>xs. collect rs = Some (Inr xs)"
  using assms by (induction rs) auto

lemma trace_loop_last:
  assumes "bounce X c scene junk iter depth n ps = Some (Inr ((depth', n', ps'), True))"
  shows "trace_loop X c scene junk iter depth n ps = Some (Inr ps')"
  using assms by (subst trace_loop.simps) simp

lemma intersect_stage_MATSORT:
  "intersect_stage X (c\<lparr>MATSORT := b\<rparr>) scene junk depth n ps =
     intersect_stage X c scene junk depth n ps"
  by (simp add: intersect_stage_def)

lemma intersect_stage_result:
  assumes "intersect_stage X c scene junk depth n ps = Some (Inr (ps', isects))"
    and "n \<le> pixelcount scene"
  shows "ps' = ps" and "length isects = pixelcount scene"
proof -
  let ?cleared = "replicate (pixelcount scene) zero_intersection"
  show "ps' = ps" using assms(1)
    by (auto simp add: intersect_stage_def computeIntersectionsKD_def computeIntersections_def
        Let_def split: if_splits option.splits sum.splits)
  show "length isects = pixelcount scene"
  proof (cases "ACCELSTRUCT c")
    case True
    with assms(1) obtain front where
      f: "collect (map (\<lambda>path_index. computeIntersectionsKD_thread X (junk path_index)
             (ps ! path_index) (scene_geoms scene) (scene_kdtree scene)
             (?cleared ! path_index) (scene_materials scene) (scene_textures scene)) [0..<n])
           = Some (Inr front)"
      and i: "isects = front @ drop n ?cleared"
      by (auto simp add: intersect_stage_def computeIntersectionsKD_def Let_def
          split: option.splits sum.splits)
    from collect_length [OF f] have "length front = n" by simp
    with assms(2) show ?thesis by (simp add: i)
  next
    case False
    with assms show ?thesis
      by (auto simp add: intersect_stage_def computeIntersections_def Let_def)
  qed
qed

lemma intersect_stage_returns:
  assumes "ACCELSTRUCT c \<longrightarrow> laid_out (scene_kdtree scene) 0 sh \<and> max_depth sh \<le> 64"
  shows "\<exists>r. intersect_stage X c scene junk depth n ps = Some (Inr r)"
proof (cases "ACCELSTRUCT c")
  case True
  with assms have lay: "laid_out (scene_kdtree scene) 0 sh" and dep: "max_depth sh \<le> 64"
    by simp_all
  let ?cleared = "replicate (pixelcount scene) zero_intersection"
  let ?rs = "map (\<lambda>path_index. computeIntersectionsKD_thread X (junk path_index)
             (ps ! path_index) (scene_geoms scene) (scene_kdtree scene)
             (?cleared ! path_index) (scene_materials scene) (scene_textures scene)) [0..<n]"
  have "\<forall>r \<in> set ?rs. \<exists>a. r = Some (Inr a)"
    using computeIntersectionsKD_thread_returns [OF lay dep] by auto
  then obtain xs where "collect ?rs = Some (Inr xs)"
    using collect_returns by blast
  with True show ?thesis
    by (simp add: intersect_stage_def computeIntersectionsKD_def Let_def)
next
  case False
  then show ?thesis by (simp add: intersect_stage_def)
qed

lemma sorted_or_not:
  assumes "n \<le> length isects" and "n \<le> length ps"
  shows "\<exists>isects' ps'. (if s then sort_stage X n isects ps else (isects, ps)) = (isects', ps') \<and>
           length ps' = length ps \<and> length isects' = length isects \<and> mset ps' = mset ps \<and>
           mset (take n isects') = mset (take n isects)"
proof (cases s)
  case True
  obtain isects' ps' where s: "sort_stage X n isects ps = (isects', ps')"
    by (cases "sort_stage X n isects ps")
  from sort_stage_props [OF assms s] s True show ?thesis by simp
next
  case False
  then show ?thesis by simp
qed

lemma shade_stage_all_dead:
  assumes "STREAMCOMP c" and "n \<le> length ps" and "n \<le> length isects"
    and "\<forall>p \<in> set ps. remainingBounces p = 0"
  shows "\<exists>ps'. mset ps' = mset ps \<and>
           shade_stage X c scene iter depth n ps isects = ((depth + 1, 0, ps'), True)"
proof -
  from sorted_or_not [OF assms(3,2), of "MATSORT c"] obtain isects' ps' where
    s: "(if MATSORT c then sort_stage X n isects ps else (isects, ps)) = (isects', ps')"
    and len: "length ps' = length ps" and m: "mset ps' = mset ps"
    by blast
  from m have "set ps' = set ps" by (rule mset_eq_setD)
  with assms(4) have dead: "\<forall>p \<in> set ps'. remainingBounces p = 0" by simp
  then have dead_n: "\<forall>p \<in> set (take n ps'). remainingBounces p = 0"
    by (meson in_set_takeD)
  from assms(2) len have n: "n \<le> length ps'" by simp
  have sh: "shadeMaterials X (PROCTEXT c) iter n isects' ps' (scene_materials scene) depth
              (scene_textures scene) = ps'"
    using n dead_n by (rule shadeMaterials_all_dead)
  from dead_n have "\<forall>p \<in> set (take n ps'). remainingBounces p \<le> 0" by simp
  then have "compact n ps' = (ps', 0)" by (rule compact_all_dead)
  with s sh assms(1) have "shade_stage X c scene iter depth n ps isects = ((depth + 1, 0, ps'), True)"
    by (simp add: shade_stage_def Let_def)
  with m show ?thesis by blast
qed

lemma shade_stage_all_lit:
  assumes "STREAMCOMP c" and "length ps = n" and "length isects = n"
    and "\<forall>p \<in> set ps. remainingBounces p \<noteq> 0 \<and> color p = Vec3 1 1 1"
    and "\<forall>r \<in> set isects. isect_t r > 0 \<and>
           m_color (scene_materials scene (materialId r)) = Vec3 1 1 1 \<and>
           emittance (scene_materials scene (materialId r)) = 5"
  shows "\<exists>ps'. mset ps' = mset ps \<and>
           shade_stage X c scene iter depth n ps isects =
             ((depth + 1, 0, map (\<lambda>p. p\<lparr>color := Vec3 5 5 5, remainingBounces := 0\<rparr>) ps'), True)"
proof -
  let ?upd = "\<lambda>p. p\<lparr>color := Vec3 5 5 5, remainingBounces := 0\<rparr>"
  from assms(2,3) have le: "n \<le> length isects" "n \<le> length ps" by simp_all
  from sorted_or_not [OF le, of "MATSORT c"] obtain isects' ps' where
    s: "(if MATSORT c then sort_stage X n isects ps else (isects, ps)) = (isects', ps')"
    and len: "length ps' = length ps" and leni: "length isects' = length isects"
    and m: "mset ps' = mset ps" and mi: "mset (take n isects') = mset (take n isects)"
    by blast
  from m have "set ps' = set ps" by (rule mset_eq_setD)
  with assms(4) len assms(2)
  have lit: "\<forall>p \<in> set (take n ps'). remainingBounces p \<noteq> 0 \<and> color p = Vec3 1 1 1" by simp
  from mi have "set (take n isects') = set (take n isects)" by (rule mset_eq_setD)
  with assms(5) assms(3)
  have hit: "\<forall>r \<in> set (take n isects'). isect_t r > 0 \<and>
           m_color (scene_materials scene (materialId r)) = Vec3 1 1 1 \<and>
           emittance (scene_materials scene (materialId r)) = 5" by simp
  from len leni assms(2,3) have n: "n \<le> length ps'" "n \<le> length isects'" by simp_all
  have "shadeMaterials X (PROCTEXT c) iter n isects' ps' (scene_materials scene) depth
          (scene_textures scene) = map ?upd (take n ps') @ drop n ps'"
    using n lit hit by (rule shadeMaterials_all_lit)
  with len assms(2)
  have sh: "shadeMaterials X (PROCTEXT c) iter n isects' ps' (scene_materials scene) depth
          (scene_textures scene) = map ?upd ps'" by simp
  have "\<forall>p \<in> set (map ?upd ps'). remainingBounces p \<le> 0" by auto
  then have "\<forall>p \<in> set (take n (map ?upd ps')). remainingBounces p \<le> 0"
    by (meson in_set_takeD)
  then have "compact n (map ?upd ps') = (map ?upd ps', 0)" by (rule compact_all_dead)
  with s sh assms(1)
  have "shade_stage X c scene iter depth n ps isects = ((depth + 1, 0, map ?upd ps'), True)"
    by (simp add: shade_stage_def Let_def)
  with m show ?thesis by blast
qed

lemma generated_paths:
  "\<forall>p \<in> set (generateRayFromCamera X cam iter td). remainingBounces p = td \<and> color p = Vec3 1 1 1"
  "length (generateRayFromCamera X cam iter td) = fst (resolution cam) * snd (resolution cam)"
  by (auto simp add: generateRayFromCamera_eq generateRayFromCamera_thread_fields)

lemma pathtrace_zero_budget:
  assumes "STREAMCOMP c" and "scene_traceDepth scene = 0"
    and "ACCELSTRUCT c \<longrightarrow> laid_out (scene_kdtree scene) 0 sh \<and> max_depth sh \<le> 64"
  shows "pathtrace X c scene junk iter dev_image =
           Some (Inr (\<lambda>q. if 0 \<le> q \<and> q < int (pixelcount scene)
                           then vadd (dev_image q) (Vec3 1 1 1) else dev_image q))"
proof -
  let ?cam = "scene_camera scene"
  let ?N = "pixelcount scene"
  let ?g = "\<lambda>i. generateRayFromCamera_thread X ?cam iter 0
                 (i mod fst (resolution ?cam)) (i div fst (resolution ?cam))"
  let ?ps0 = "generateRayFromCamera X ?cam iter 0"
  have ps0: "?ps0 = map ?g [0..<?N]"
    by (simp add: generateRayFromCamera_eq pixelcount_def)
  have len0: "length ?ps0 = ?N" by (simp add: generated_paths pixelcount_def)
  from intersect_stage_returns [OF assms(3), of X "junk 0" 0 ?N ?ps0] obtain r where
    "intersect_stage X c scene (junk 0) 0 ?N ?ps0 = Some (Inr r)" ..
  then obtain psx isects where
    i: "intersect_stage X c scene (junk 0) 0 ?N ?ps0 = Some (Inr (psx, isects))"
    by (cases r) auto
  from intersect_stage_result [OF i] have psx: "psx = ?ps0" and leni: "length isects = ?N"
    by simp_all
  have dead: "\<forall>p \<in> set ?ps0. remainingBounces p = 0"
    using generated_paths(1) [of X ?cam iter 0] by simp
  from shade_stage_all_dead [OF assms(1) _ _ dead, of ?N isects X scene iter 0] len0 leni
  obtain ps' where m: "mset ps' = mset ?ps0"
    and sh: "shade_stage X c scene iter 0 ?N ?ps0 isects = ((0 + 1, 0, ps'), True)"
    by auto
  from i psx sh have "bounce X c scene junk iter 0 ?N ?ps0 = Some (Inr ((0 + 1, 0, ps'), True))"
    by (simp add: bounce_def)
  then have loop: "trace_loop X c scene junk iter 0 ?N ?ps0 = Some (Inr ps')"
    by (rule trace_loop_last)
  from m have "set ps' = set ?ps0" by (rule mset_eq_setD)
  then have white: "\<forall>p \<in> set ps'. color ((\<lambda>p. p) p) = Vec3 1 1 1 \<and>
      pixelIndex ((\<lambda>p. p) p) = pixelIndex p"
    using generated_paths(1) [of X ?cam iter 0] by simp
  have idx: "\<forall>i<?N. pixelIndex (?g i) = int i"
    by (simp add: generated_pixelIndex)
  from m ps0 have m': "mset ps' = mset (map ?g [0..<?N])" by simp
  from finalGather_uniform [OF m' idx white, of dev_image]
  have "finalGather ?N dev_image ps' =
      (\<lambda>q. if 0 \<le> q \<and> q < int ?N then vadd (dev_image q) (Vec3 1 1 1) else dev_image q)"
    by simp
  with loop assms(2) show ?thesis by (simp add: pathtrace_def Let_def)
qed

lemma pathtrace_all_lit:
  assumes "STREAMCOMP c" and "scene_traceDepth scene > 0"
    and "intersect_stage X c scene (junk 0) 0 (pixelcount scene)
           (generateRayFromCamera X (scene_camera scene) iter (scene_traceDepth scene))
         = Some (Inr (psx, isects))"
    and "\<forall>i<pixelcount scene. isect_t (isects ! i) > 0 \<and>
           m_color (scene_materials scene (materialId (isects ! i))) = Vec3 1 1 1 \<and>
           emittance (scene_materials scene (materialId (isects ! i))) = 5"
  shows "pathtrace X c scene junk iter dev_image =
           Some (Inr (\<lambda>q. if 0 \<le> q \<and> q < int (pixelcount scene)
                           then vadd (dev_image q) (Vec3 5 5 5) else dev_image q))"
proof -
  let ?cam = "scene_camera scene"
  let ?N = "pixelcount scene"
  let ?td = "scene_traceDepth scene"
  let ?g = "\<lambda>i. generateRayFromCamera_thread X ?cam iter ?td
                 (i mod fst (resolution ?cam)) (i div fst (resolution ?cam))"
  let ?ps0 = "generateRayFromCamera X ?cam iter ?td"
  let ?upd = "\<lambda>p. p\<lparr>color := Vec3 5 5 5, remainingBounces := 0\<rparr>"
  have ps0: "?ps0 = map ?g [0..<?N]"
    by (simp add: generateRayFromCamera_eq pixelcount_def)
  have len0: "length ?ps0 = ?N" by (simp add: generated_paths pixelcount_def)
  from intersect_stage_result [OF assms(3)] have psx: "psx = ?ps0" and leni: "length isects = ?N"
    by simp_all
  have live: "\<forall>p \<in> set ?ps0. remainingBounces p \<noteq> 0 \<and> color p = Vec3 1 1 1"
    using generated_paths(1) [of X ?cam iter ?td] assms(2) by simp
  have hit: "\<forall>r \<in> set isects. isect_t r > 0 \<and>
           m_color (scene_materials scene (materialId r)) = Vec3 1 1 1 \<and>
           emittance (scene_materials scene (materialId r)) = 5"
    using assms(4) leni by (auto simp add: in_set_conv_nth)
  from shade_stage_all_lit [OF assms(1) len0 leni live hit, of X iter 0]
  obtain ps' where m: "mset ps' = mset ?ps0"
    and sh: "shade_stage X c scene iter 0 ?N ?ps0 isects = ((0 + 1, 0, map ?upd ps'), True)"
    by auto
  from assms(3) psx sh
  have "bounce X c scene junk iter 0 ?N ?ps0 = Some (Inr ((0 + 1, 0, map ?upd ps'), True))"
    by (simp add: bounce_def)
  then have loop: "trace_loop X c scene junk iter 0 ?N ?ps0 = Some (Inr (map ?upd ps'))"
    by (rule trace_loop_last)
  have lit: "\<forall>p \<in> set ps'. color (?upd p) = Vec3 5 5 5 \<and> pixelIndex (?upd p) = pixelIndex p"
    by simp
  have idx: "\<forall>i<?N. pixelIndex (?g i) = int i"
    by (simp add: generated_pixelIndex)
  from m ps0 have m': "mset ps' = mset (map ?g [0..<?N])" by simp
  from finalGather_uniform [OF m' idx lit, of dev_image]
  have "finalGather ?N dev_image (map ?upd ps') =
      (\<lambda>q. if 0 \<le> q \<and> q < int ?N then vadd (dev_image q) (Vec3 5 5 5) else dev_image q)" .
  with loop show ?thesis by (simp add: pathtrace_def Let_def)
qed

lemma bounce_sort_sorted:
  assumes "intersect_stage X c scene (junk depth) depth n ps = Some (Inr (psx, isects))"
    and "n \<le> length ps" and "n \<le> pixelcount scene"
    and "sorted_wrt (<) (map materialId (take n isects))"
  shows "bounce X (c\<lparr>MATSORT := True\<rparr>) scene junk iter depth n ps =
         bounce X (c\<lparr>MATSORT := False\<rparr>) scene junk iter depth n ps"
proof -
  from intersect_stage_result [OF assms(1,3)] have psx: "psx = ps"
    and leni: "length isects = pixelcount scene" by simp_all
  from leni assms(3) have "n \<le> length isects" by simp
  from sort_stage_sorted [OF this assms(2,4)] have "sort_stage X n isects ps = (isects, ps)" .
  then have "shade_stage X (c\<lparr>MATSORT := True\<rparr>) scene iter depth n ps isects =
             shade_stage X (c\<lparr>MATSORT := False\<rparr>) scene iter depth n ps isects"
    by (simp add: shade_stage_def)
  with assms(1) psx show ?thesis
    by (simp add: bounce_def intersect_stage_MATSORT)
qed

lemma shade_scatter:
  assumes "remainingBounces seg \<noteq> 0" and "isect_t isect > 0"
    and "\<not> emittance (mats (materialId isect)) > 0"
    and "textureOffset (mats (materialId isect)) = - 1"
  shows "shadeMaterials_thread X pt iter index isect seg mats depth tex =
           (let p3 = scatterRay X seg (getPointOnRay X (ray seg) (isect_t isect)) (surfaceNormal isect)
                       (mats (materialId isect))
                       (makeSeededRandomEngine X (word_of_int iter) (word_of_nat index) (word_of_int depth))
            in p3\<lparr>remainingBounces := remainingBounces p3 - 1\<rparr>)"
  using assms by (simp add: shadeMaterials_thread_def Let_def)

lemma shadeMaterials_nth:
  assumes "index < n"
  shows "shadeMaterials X pt iter n isects ps mats depth tex ! index =
           shadeMaterials_thread X pt iter index (isects ! index) (ps ! index) mats depth tex"
  using assms by (simp add: shadeMaterials_def nth_append)

subsection \<open>The concrete scenes\<close>

lemma computeIntersections_two:
  "computeIntersections X junk d 2 [p, q] geoms gs [a, b] mats tex =
     ([p, q], [computeIntersections_thread X (junk 0) p geoms gs a mats tex,
               computeIntersections_thread X (junk 1) q geoms gs b mats tex])"
  by (simp add: computeIntersections_def upt_rec numeral_2_eq_2)

lemma bf_thread_pos:
  assumes "0 < vx (direction (ray p))"
  shows "computeIntersections_thread X0 locals0 p (scene_geoms (scene_two td)) 2 zero_intersection
           (scene_materials (scene_two td)) (scene_textures (scene_two td)) = kernel_hit 1 1"
  using assms
  by (simp add: computeIntersections_thread_def computeIntersections_locals_def
      write_intersection_def bf_step_def hit_uvs_def hit_normal_map_def FLT_MAX_def
      X0_def locals0_def scene_two_def prim_def plain_material_def zero_intersection_def
      kernel_hit_def Let_def upt_rec numeral_2_eq_2)

lemma bf_thread_neg:
  assumes "vx (direction (ray p)) < 0"
  shows "computeIntersections_thread X0 locals0 p (scene_geoms (scene_two td)) 2 zero_intersection
           (scene_materials (scene_two td)) (scene_textures (scene_two td)) = kernel_hit 1 0"
  using assms
  by (simp add: computeIntersections_thread_def computeIntersections_locals_def
      write_intersection_def bf_step_def hit_uvs_def hit_normal_map_def FLT_MAX_def
      X0_def locals0_def scene_two_def prim_def plain_material_def zero_intersection_def
      kernel_hit_def Let_def upt_rec numeral_2_eq_2)

lemma seed_parity:
  "even (makeSeededRandomEngine X0 1 (word_of_nat index) d) \<longleftrightarrow> odd index"
proof -
  have "even (word_of_nat index :: 32 word) \<longleftrightarrow> even index"
    by (simp add: even_word_iff unat_of_nat)
  then show ?thesis
    by (simp add: makeSeededRandomEngine_def X0_def even_xor_iff even_or_iff)
qed

lemma X0_fields:
  "scatterRay X0 = scatterRay_diffuse sample0"
  "getPointOnRay X0 = (\<lambda>r t. vadd (origin r) (vscale (direction r) t))"
  by (simp_all add: X0_def)

lemma shade_diffuse_X0:
  assumes "remainingBounces p \<noteq> 0"
  shows "shadeMaterials_thread X0 pt 1 index (kernel_hit 1 m) p (scene_materials (scene_two td)) depth
           (scene_textures (scene_two td)) =
         p\<lparr>ray := \<lparr>origin = vadd (origin (ray p)) (vscale (direction (ray p)) 1),
                    direction = (if even index then Vec3 (- 1) 0 0 else Vec3 1 0 0)\<rparr>,
           color := vmul (color p) (if m = 1 then Vec3 1 1 1 else Vec3 (1 / 2) (1 / 2) (1 / 2)),
           remainingBounces := remainingBounces p - 1\<rparr>"
  using assms
  by (simp add: shadeMaterials_thread_def X0_fields scene_two_def plain_material_def kernel_hit_def
      scatterRay_diffuse_def sample0_def seed_parity Let_def)

lemma shadeMaterials_two:
  "shadeMaterials X pt iter 2 [a, b] [p, q] mats d tex =
     [shadeMaterials_thread X pt iter 0 a p mats d tex, shadeMaterials_thread X pt iter 1 b q mats d tex]"
  by (simp add: shadeMaterials_def upt_rec numeral_2_eq_2)

lemma sort_stage_two:
  "sort_stage X0 2 [a, b] [p, q] =
     (if materialId b < materialId a then ([b, a], [q, p]) else ([a, b], [p, q]))"
  by (simp add: sort_stage_def thrust_sort_by_key_def sort_by_key_ok_def materialCmp_def X0_def)

lemma compact_two_live:
  assumes "remainingBounces p > 0" and "remainingBounces q > 0"
  shows "compact 2 [p, q] = ([p, q], 2)"
  using assms by (simp add: compact_def thrust_partition_def rayDeath_def)

lemma compact_two_dead:
  assumes "remainingBounces p = 0" and "remainingBounces q = 0"
  shows "compact 2 [p, q] = ([p, q], 0)"
  using assms by (simp add: compact_def thrust_partition_def rayDeath_def)

lemma pixelcount_scene_two: "pixelcount (scene_two td) = 2"
  by (simp add: pixelcount_def scene_two_def cam_two_def)

lemma replicate_two: "replicate 2 x = [x, x]"
  by (simp add: numeral_2_eq_2)

text \<open>One bounce on two paths of the two-pixel scene, by the sides the two rays point to.\<close>

lemma bounce_two:
  assumes "remainingBounces p \<noteq> 0" and "remainingBounces q \<noteq> 0"
    and "computeIntersections_thread X0 locals0 p (scene_geoms (scene_two td)) 2 zero_intersection
           (scene_materials (scene_two td)) (scene_textures (scene_two td)) = kernel_hit 1 a"
    and "computeIntersections_thread X0 locals0 q (scene_geoms (scene_two td)) 2 zero_intersection
           (scene_materials (scene_two td)) (scene_textures (scene_two td)) = kernel_hit 1 b"
  shows "bounce X0 (cfg_brute s) (scene_two td) (\<lambda>d i. locals0) 1 depth 2 [p, q] =
     Some (Inr (
       let (isects, paths) = (if s \<and> b < a then ([kernel_hit 1 b, kernel_hit 1 a], [q, p])
                              else ([kernel_hit 1 a, kernel_hit 1 b], [p, q]));
           shaded = [shadeMaterials_thread X0 True 1 0 (isects ! 0) (paths ! 0)
                       (scene_materials (scene_two td)) depth (scene_textures (scene_two td)),
                     shadeMaterials_thread X0 True 1 1 (isects ! 1) (paths ! 1)
                       (scene_materials (scene_two td)) depth (scene_textures (scene_two td))];
           (compacted, n) = compact 2 shaded
       in ((depth + 1, n, compacted), n = 0 \<or> depth + 1 = td)))"
proof -
  have geoms_size: "scene_geoms_size (scene_two td) = 2" and td: "scene_traceDepth (scene_two td) = td"
    by (simp_all add: scene_two_def)
  have "intersect_stage X0 (cfg_brute s) (scene_two td) (\<lambda>i. locals0) depth 2 [p, q] =
          Some (Inr ([p, q], [kernel_hit 1 a, kernel_hit 1 b]))"
    by (simp add: intersect_stage_def cfg_brute_def pixelcount_scene_two replicate_two
        computeIntersections_two geoms_size assms(3,4))
  then show ?thesis
    by (cases "s \<and> b < a")
       (auto simp add: bounce_def shade_stage_def cfg_brute_def sort_stage_two shadeMaterials_two
          kernel_hit_def td Let_def split: prod.splits)
qed

lemma generate_two:
  "generateRayFromCamera X0 (scene_camera (scene_two td)) iter td =
     [camera_path 0 (1 / 2) td, camera_path 1 (- (1 / 2)) td]"
  by (simp add: generateRayFromCamera_def generateRayFromCamera_thread_def scene_two_def cam_two_def
      X0_def camera_path_def Let_def upt_rec numeral_2_eq_2)

lemma camera_path_side:
  "0 < dx \<Longrightarrow> 0 < vx (direction (ray (camera_path px dx td)))"
  "dx < 0 \<Longrightarrow> vx (direction (ray (camera_path px dx td))) < 0"
proof -
  have "0 < dx * dx + (1::real)" by (rule add_nonneg_pos) simp_all
  then show "0 < dx \<Longrightarrow> 0 < vx (direction (ray (camera_path px dx td)))"
    and "dx < 0 \<Longrightarrow> vx (direction (ray (camera_path px dx td))) < 0"
    by (simp_all add: camera_path_def vnormalize_def zero_less_divide_iff divide_less_0_iff)
qed

lemma camera_path_fields:
  "remainingBounces (camera_path px dx td) = td"
  "pixelIndex (camera_path px dx td) = px"
  "color (camera_path px dx td) = Vec3 1 1 1"
  by (simp_all add: camera_path_def)

lemma diffuse_step_fields:
  "remainingBounces (diffuse_step index m p) = remainingBounces p - 1"
  "pixelIndex (diffuse_step index m p) = pixelIndex p"
  "color (diffuse_step index m p) =
     vmul (color p) (if m = 1 then Vec3 1 1 1 else Vec3 (1 / 2) (1 / 2) (1 / 2))"
  "vx (direction (ray (diffuse_step index m p))) = (if even index then - 1 else 1)"
  by (simp_all add: diffuse_step_def)

lemma bounce_two':
  assumes "remainingBounces p \<noteq> 0" and "remainingBounces q \<noteq> 0"
    and "computeIntersections_thread X0 locals0 p (scene_geoms (scene_two td)) 2 zero_intersection
           (scene_materials (scene_two td)) (scene_textures (scene_two td)) = kernel_hit 1 a"
    and "computeIntersections_thread X0 locals0 q (scene_geoms (scene_two td)) 2 zero_intersection
           (scene_materials (scene_two td)) (scene_textures (scene_two td)) = kernel_hit 1 b"
  shows "bounce X0 (cfg_brute s) (scene_two td) (\<lambda>d i. locals0) 1 depth 2 [p, q] =
     Some (Inr (
       let shaded = (if s \<and> b < a then [diffuse_step 0 b q, diffuse_step 1 a p]
                     else [diffuse_step 0 a p, diffuse_step 1 b q]);
           (compacted, n) = compact 2 shaded
       in ((depth + 1, n, compacted), n = 0 \<or> depth + 1 = td)))"
  unfolding bounce_two [OF assms] using assms(1,2)
  by (simp add: shade_diffuse_X0 diffuse_step_def Let_def)

lemma scene_two_fields:
  "scene_traceDepth (scene_two td) = td"
  "scene_camera (scene_two td) = cam_two (Vec3 0 0 1)"
  by (simp_all add: scene_two_def)

lemma run_off:
  "pixel_of (pathtrace X0 (cfg_brute False) (scene_two 2) (\<lambda>d i. locals0) 1 pathtraceInit_image) 0
     = Some (Vec3 (1 / 2) (1 / 2) (1 / 2))"
proof -
  let ?P0 = "camera_path 0 (1 / 2) 2" and ?P1 = "camera_path 1 (- (1 / 2)) 2"
  let ?Q0 = "diffuse_step 0 1 ?P0" and ?Q1 = "diffuse_step 1 0 ?P1"
  let ?R0 = "diffuse_step 0 0 ?Q0" and ?R1 = "diffuse_step 1 1 ?Q1"
  have b1: "bounce X0 (cfg_brute False) (scene_two 2) (\<lambda>d i. locals0) 1 0 2 [?P0, ?P1] =
      Some (Inr ((1, 2, [?Q0, ?Q1]), False))"
    by (subst bounce_two' [where a = 1 and b = 0])
       (simp_all add: camera_path_fields camera_path_side bf_thread_pos bf_thread_neg
          diffuse_step_fields compact_two_live)
  have b2: "bounce X0 (cfg_brute False) (scene_two 2) (\<lambda>d i. locals0) 1 1 2 [?Q0, ?Q1] =
      Some (Inr ((2, 0, [?R0, ?R1]), True))"
    by (subst bounce_two' [where a = 0 and b = 1])
       (simp_all add: camera_path_fields bf_thread_pos bf_thread_neg
          diffuse_step_fields compact_two_dead)
  have "trace_loop X0 (cfg_brute False) (scene_two 2) (\<lambda>d i. locals0) 1 0 2 [?P0, ?P1] =
      Some (Inr [?R0, ?R1])"
    by (subst trace_loop.simps, simp only: b1 option.case sum.case prod.case if_False,
        subst trace_loop.simps, simp only: b2 option.case sum.case prod.case if_True)
  then show ?thesis
    by (simp add: pathtrace_def pixel_of_def generate_two pixelcount_scene_two
        scene_two_fields(1) finalGather_def diffuse_step_fields camera_path_fields
        pathtraceInit_image_def)
qed

lemma run_on:
  "pixel_of (pathtrace X0 (cfg_brute True) (scene_two 2) (\<lambda>d i. locals0) 1 pathtraceInit_image) 0
     = Some (Vec3 1 1 1)"
proof -
  let ?P0 = "camera_path 0 (1 / 2) 2" and ?P1 = "camera_path 1 (- (1 / 2)) 2"
  let ?Q1 = "diffuse_step 0 0 ?P1" and ?Q0 = "diffuse_step 1 1 ?P0"
  let ?R1 = "diffuse_step 0 0 ?Q1" and ?R0 = "diffuse_step 1 1 ?Q0"
  have b1: "bounce X0 (cfg_brute True) (scene_two 2) (\<lambda>d i. locals0) 1 0 2 [?P0, ?P1] =
      Some (Inr ((1, 2, [?Q1, ?Q0]), False))"
    by (subst bounce_two' [where a = 1 and b = 0])
       (simp_all add: camera_path_fields camera_path_side bf_thread_pos bf_thread_neg
          diffuse_step_fields compact_two_live)
  have b2: "bounce X0 (cfg_brute True) (scene_two 2) (\<lambda>d i. locals0) 1 1 2 [?Q1, ?Q0] =
      Some (Inr ((2, 0, [?R1, ?R0]), True))"
    by (subst bounce_two' [where a = 0 and b = 1])
       (simp_all add: camera_path_fields bf_thread_pos bf_thread_neg
          diffuse_step_fields compact_two_dead)
  have "trace_loop X0 (cfg_brute True) (scene_two 2) (\<lambda>d i. locals0) 1 0 2 [?P0, ?P1] =
      Some (Inr [?R1, ?R0])"
    by (subst trace_loop.simps, simp only: b1 option.case sum.case prod.case if_False,
        subst trace_loop.simps, simp only: b2 option.case sum.case prod.case if_True)
  then show ?thesis
    by (simp add: pathtrace_def pixel_of_def generate_two pixelcount_scene_two
        scene_two_fields(1) finalGather_def diffuse_step_fields camera_path_fields
        pathtraceInit_image_def)
qed

lemma intersect_two:
  assumes "computeIntersections_thread X0 locals0 p (scene_geoms (scene_two td)) 2 zero_intersection
           (scene_materials (scene_two td)) (scene_textures (scene_two td)) = kernel_hit 1 a"
    and "computeIntersections_thread X0 locals0 q (scene_geoms (scene_two td)) 2 zero_intersection
           (scene_materials (scene_two td)) (scene_textures (scene_two td)) = kernel_hit 1 b"
  shows "intersect_stage X0 (cfg_brute s) (scene_two td) (\<lambda>i. locals0) depth 2 [p, q] =
          Some (Inr ([p, q], [kernel_hit 1 a, kernel_hit 1 b]))"
proof -
  have "scene_geoms_size (scene_two td) = 2" by (simp add: scene_two_def)
  then show ?thesis
    by (simp add: intersect_stage_def cfg_brute_def pixelcount_scene_two replicate_two
        computeIntersections_two assms)
qed

lemma pixelcount_scene_light: "pixelcount (scene_light td) = 2"
  by (simp add: pixelcount_def scene_light_def cam_two_def)

lemma scene_light_fields:
  "scene_traceDepth (scene_light td) = td"
  "scene_camera (scene_light td) = cam_two (Vec3 1 0 1)"
  "scene_materials (scene_light td) m = plain_material (Vec3 1 1 1) 5 (- 1)"
  by (simp_all add: scene_light_def)

lemma generate_light:
  "generateRayFromCamera X0 (scene_camera (scene_light td)) iter td =
     [camera_path 0 (3 / 2) td, camera_path 1 (1 / 2) td]"
  by (simp add: generateRayFromCamera_def generateRayFromCamera_thread_def scene_light_def
      cam_two_def X0_def camera_path_def Let_def upt_rec numeral_2_eq_2)

subsection \<open>Whole iterations\<close>

lemma pathtraceInit_image_at: "pathtraceInit_image q = Vec3 0 0 0"
  by (simp add: pathtraceInit_image_def)

text \<open>
  C2, as the code runs. With a bounce budget of zero every path is generated with the
  counter zero and the throughput white. The body of the loop still runs once: the
  shader returns at once for every path, the compaction leaves no active path, and
  the loop ends. \<^verbatim>\<open>finalGather\<close> then adds the throughput of all paths, so the
  iteration adds white to every pixel of the image and leaves the rest of the buffer
  as it was. The tree, when it is the one traversed, holds a tree of a depth below 64.
\<close>

theorem zero_budget_iteration_adds_white:
  assumes "STREAMCOMP c" and "scene_traceDepth scene = 0"
    and "ACCELSTRUCT c \<longrightarrow> laid_out (scene_kdtree scene) 0 sh \<and> max_depth sh < 64"
  shows "pathtrace X c scene junk iter dev_image =
           Some (Inr (\<lambda>q. if 0 \<le> q \<and> q < int (pixelcount scene)
                           then vadd (dev_image q) (Vec3 1 1 1) else dev_image q))"
proof -
  from assms(3) have "ACCELSTRUCT c \<longrightarrow> laid_out (scene_kdtree scene) 0 sh \<and> max_depth sh \<le> 64"
    by auto
  with assms(1,2) show ?thesis by (rule pathtrace_zero_budget)
qed

theorem zero_budget_iteration_adds_white_witness:
  "STREAMCOMP cfg_src \<and> scene_traceDepth (scene_two 0) = 0 \<and>
   laid_out (scene_kdtree (scene_two 0)) 0 (KdNode KdLeaf KdLeaf) \<and>
   max_depth (KdNode KdLeaf KdLeaf) < 64 \<and>
   pathtrace X0 cfg_src (scene_two 0) (\<lambda>d i. locals0) 1 pathtraceInit_image =
     Some (Inr (\<lambda>q. if 0 \<le> q \<and> q < 2 then Vec3 1 1 1 else Vec3 0 0 0))"
proof -
  have h1: "STREAMCOMP cfg_src" by (simp add: cfg_src_def)
  have h2: "scene_traceDepth (scene_two 0) = 0" by (simp add: scene_two_def)
  have lay: "laid_out (scene_kdtree (scene_two 0)) 0 (KdNode KdLeaf KdLeaf)"
    by (simp add: scene_two_def kd_two_leaves_def inner_node_def leaf_node_def)
  have dep: "max_depth (KdNode KdLeaf KdLeaf) < 64" by simp
  from lay dep have h3: "ACCELSTRUCT cfg_src \<longrightarrow>
      laid_out (scene_kdtree (scene_two 0)) 0 (KdNode KdLeaf KdLeaf) \<and>
      max_depth (KdNode KdLeaf KdLeaf) < 64" by simp
  from zero_budget_iteration_adds_white [OF h1 h2 h3, of X0 "\<lambda>d i. locals0" 1 pathtraceInit_image]
  have "pathtrace X0 cfg_src (scene_two 0) (\<lambda>d i. locals0) 1 pathtraceInit_image =
     Some (Inr (\<lambda>q. if 0 \<le> q \<and> q < 2 then Vec3 1 1 1 else Vec3 0 0 0))"
    by (simp add: pixelcount_scene_two pathtraceInit_image_at cong: if_cong)
  with h1 h2 lay dep show ?thesis by blast
qed

text \<open>
  The claim as it was stated fails on the two-pixel scene with a budget of zero: pixel 0
  holds black before the iteration and white after it.
\<close>

theorem zero_budget_iteration_changes_image:
  "pixel_of (Some (Inr pathtraceInit_image)) 0 = Some (Vec3 0 0 0) \<and>
   pixel_of (pathtrace X0 cfg_src (scene_two 0) (\<lambda>d i. locals0) 1 pathtraceInit_image) 0
     = Some (Vec3 1 1 1) \<and>
   pathtrace X0 cfg_src (scene_two 0) (\<lambda>d i. locals0) 1 pathtraceInit_image
     \<noteq> Some (Inr pathtraceInit_image)"
proof -
  have h1: "STREAMCOMP cfg_src" by (simp add: cfg_src_def)
  have h2: "scene_traceDepth (scene_two 0) = 0" by (simp add: scene_two_def)
  have h3: "ACCELSTRUCT cfg_src \<longrightarrow>
      laid_out (scene_kdtree (scene_two 0)) 0 (KdNode KdLeaf KdLeaf) \<and>
      max_depth (KdNode KdLeaf KdLeaf) \<le> 64"
    by (simp add: scene_two_def kd_two_leaves_def inner_node_def leaf_node_def)
  have before: "pixel_of (Some (Inr pathtraceInit_image)) 0 = Some (Vec3 0 0 0)"
    by (simp add: pixel_of_def pathtraceInit_image_at)
  from pathtrace_zero_budget [OF h1 h2 h3, of X0 "\<lambda>d i. locals0" 1 pathtraceInit_image]
  have after: "pixel_of (pathtrace X0 cfg_src (scene_two 0) (\<lambda>d i. locals0) 1 pathtraceInit_image) 0
     = Some (Vec3 1 1 1)"
    by (simp add: pixel_of_def pixelcount_scene_two pathtraceInit_image_at)
  from before after
  have "pathtrace X0 cfg_src (scene_two 0) (\<lambda>d i. locals0) 1 pathtraceInit_image
     \<noteq> Some (Inr pathtraceInit_image)" by auto
  with before after show ?thesis by blast
qed

subsection \<open>A scene of one sphere\<close>

lemma hit_uvs_keeps:
  "materialId (hit_uvs X geom pt isect) = materialId isect"
  "isect_t (hit_uvs X geom pt isect) = isect_t isect"
  by (simp_all add: hit_uvs_def)

lemma hit_normal_map_keeps:
  "materialId (hit_normal_map X geom pt nrm mat tex isect) = materialId isect"
  "isect_t (hit_normal_map X geom pt nrm mat tex isect) = isect_t isect"
  by (simp_all add: hit_normal_map_def Let_def split: prod.splits)

lemma write_intersection_hit:
  assumes "l_hit_geom_index L \<noteq> - 1"
  shows "materialId (write_intersection X L geoms mats tex isect) =
           materialid (geoms (l_hit_geom_index L))"
    and "isect_t (write_intersection X L geoms mats tex isect) = l_t_min L"
  using assms by (simp_all add: write_intersection_def Let_def hit_uvs_keeps hit_normal_map_keeps)

lemma bf_thread_one_sphere:
  assumes "gtype (geoms 0) = SPHERE"
    and "\<forall>w. 0 < fst (sphereIntersectionTest X (geoms 0) (ray p) w) \<and>
             fst (sphereIntersectionTest X (geoms 0) (ray p) w) < FLT_MAX"
  shows "isect_t (computeIntersections_thread X L0 p geoms 1 isect mats tex) > 0"
    and "materialId (computeIntersections_thread X L0 p geoms 1 isect mats tex) = materialid (geoms 0)"
proof -
  let ?w = "(l_tmp L0)\<lparr>o_outside := True\<rparr>"
  let ?L = "computeIntersections_locals X L0 p geoms 1"
  from assms(2) have t: "0 < fst (sphereIntersectionTest X (geoms 0) (ray p) ?w)"
    "fst (sphereIntersectionTest X (geoms 0) (ray p) ?w) < FLT_MAX" by simp_all
  from assms(1) t have h: "l_hit_geom_index ?L = 0"
    and m: "l_t_min ?L = fst (sphereIntersectionTest X (geoms 0) (ray p) ?w)"
    by (simp_all add: computeIntersections_locals_def bf_step_def Let_def split_beta)
  from h have n: "l_hit_geom_index ?L \<noteq> - 1" by simp
  from write_intersection_hit [OF n, of X geoms mats tex isect] h m t
  show "isect_t (computeIntersections_thread X L0 p geoms 1 isect mats tex) > 0"
    and "materialId (computeIntersections_thread X L0 p geoms 1 isect mats tex) = materialid (geoms 0)"
    by (simp_all add: computeIntersections_thread_def)
qed

lemma kd_thread_one_sphere:
  assumes "gtype (geoms 0) = SPHERE"
    and "\<forall>w. 0 < fst (sphereIntersectionTest X (geoms 0) (ray p) w) \<and>
             fst (sphereIntersectionTest X (geoms 0) (ray p) w) < FLT_MAX"
    and "nPrimitives (kdtree 0) = 1" and "primitivesOffset (kdtree 0) = 0"
    and "boundsIntersectionTest X (bounds (kdtree 0)) (ray p) \<noteq> - 1"
  shows "\<exists>r. computeIntersectionsKD_thread X L0 p geoms kdtree isect mats tex = Some (Inr r) \<and>
           isect_t r > 0 \<and> materialId r = materialid (geoms 0)"
proof -
  let ?w = "(l_tmp L0)\<lparr>o_outside := True\<rparr>"
  let ?L = "L0\<lparr>l_pathSegment := p, l_uv := Vec2 0 0, l_t_min := FLT_MAX,
                l_hit_geom_index := - 1, l_tmp := ?w\<rparr>"
  let ?L' = "kd_leaf_step X geoms (kdtree 0) ?L 0"
  from assms(2) have t: "0 < fst (sphereIntersectionTest X (geoms 0) (ray p) ?w)"
    "fst (sphereIntersectionTest X (geoms 0) (ray p) ?w) < FLT_MAX" by simp_all
  from assms(3,5) have k: "kd_traverse X geoms kdtree 0 [] ?L = Some (Inr ?L')"
    by (subst kd_traverse.simps) (simp add: Let_def)
  from assms(1,4) t have h: "l_hit_geom_index ?L' = 0"
    and m: "l_t_min ?L' = fst (sphereIntersectionTest X (geoms 0) (ray p) ?w)"
    by (simp_all add: kd_leaf_step_def Let_def split_beta)
  from h have n: "l_hit_geom_index ?L' \<noteq> - 1" by simp
  from k have "computeIntersectionsKD_thread X L0 p geoms kdtree isect mats tex =
      Some (Inr (write_intersection X ?L' geoms mats tex isect))"
    by (simp add: computeIntersectionsKD_thread_def Let_def)
  with write_intersection_hit [OF n, of X geoms mats tex isect] h m t show ?thesis by simp
qed

lemma collect_all:
  assumes "\<forall>i<length rs. \<exists>a. rs ! i = Some (Inr a) \<and> P a"
  shows "\<exists>xs. collect rs = Some (Inr xs) \<and> length xs = length rs \<and> (\<forall>i<length rs. P (xs ! i))"
  using assms
proof (induction rs)
  case Nil
  then show ?case by simp
next
  case (Cons r rs)
  from Cons.prems have "\<exists>a. (r # rs) ! 0 = Some (Inr a) \<and> P a" by blast
  then obtain a where a: "r = Some (Inr a)" and pa: "P a" by auto
  have "\<forall>i<length rs. \<exists>a. rs ! i = Some (Inr a) \<and> P a"
  proof (intro allI impI)
    fix i assume "i < length rs"
    then have "Suc i < length (r # rs)" by simp
    with Cons.prems have "\<exists>a. (r # rs) ! Suc i = Some (Inr a) \<and> P a" by blast
    then show "\<exists>a. rs ! i = Some (Inr a) \<and> P a" by simp
  qed
  from Cons.IH [OF this] obtain xs where xs: "collect rs = Some (Inr xs)"
    and l: "length xs = length rs" and p: "\<forall>i<length rs. P (xs ! i)" by blast
  from a xs have "collect (r # rs) = Some (Inr (a # xs))" by simp
  moreover have "\<forall>i<length (r # rs). P ((a # xs) ! i)"
  proof (intro allI impI)
    fix i assume "i < length (r # rs)"
    with pa p show "P ((a # xs) ! i)" by (cases i) simp_all
  qed
  ultimately show ?case using l by simp
qed

lemma intersect_stage_one_sphere:
  assumes size: "scene_geoms_size scene = 1" and sphere: "gtype (scene_geoms scene 0) = SPHERE"
    and hit: "\<forall>i<n. \<forall>w. 0 < fst (sphereIntersectionTest X (scene_geoms scene 0) (ray (ps ! i)) w) \<and>
                 fst (sphereIntersectionTest X (scene_geoms scene 0) (ray (ps ! i)) w) < FLT_MAX"
    and kd: "ACCELSTRUCT c \<longrightarrow>
               nPrimitives (scene_kdtree scene 0) = 1 \<and> primitivesOffset (scene_kdtree scene 0) = 0 \<and>
               (\<forall>i<n. boundsIntersectionTest X (bounds (scene_kdtree scene 0)) (ray (ps ! i)) \<noteq> - 1)"
  shows "\<exists>isects. intersect_stage X c scene junk depth n ps = Some (Inr (ps, isects)) \<and>
           (\<forall>i<n. isect_t (isects ! i) > 0 \<and>
                   materialId (isects ! i) = materialid (scene_geoms scene 0))"
proof (cases "ACCELSTRUCT c")
  case True
  let ?cleared = "replicate (pixelcount scene) zero_intersection"
  let ?rs = "map (\<lambda>path_index. computeIntersectionsKD_thread X (junk path_index)
             (ps ! path_index) (scene_geoms scene) (scene_kdtree scene)
             (?cleared ! path_index) (scene_materials scene) (scene_textures scene)) [0..<n]"
  let ?P = "\<lambda>r. isect_t r > 0 \<and> materialId r = materialid (scene_geoms scene 0)"
  have "\<forall>i<length ?rs. \<exists>a. ?rs ! i = Some (Inr a) \<and> ?P a"
  proof (intro allI impI)
    fix i assume "i < length ?rs"
    then have i: "i < n" by simp
    with hit kd True
    have "\<exists>r. computeIntersectionsKD_thread X (junk i) (ps ! i) (scene_geoms scene)
            (scene_kdtree scene) (?cleared ! i) (scene_materials scene) (scene_textures scene)
          = Some (Inr r) \<and> ?P r"
      by (intro kd_thread_one_sphere sphere) simp_all
    with i show "\<exists>a. ?rs ! i = Some (Inr a) \<and> ?P a" by simp
  qed
  from collect_all [of ?rs ?P, OF this] obtain xs where xs: "collect ?rs = Some (Inr xs)"
    and l: "length xs = n" and p: "\<forall>i<n. ?P (xs ! i)" by auto
  from True xs have "intersect_stage X c scene junk depth n ps =
      Some (Inr (ps, xs @ drop n ?cleared))"
    by (simp add: intersect_stage_def computeIntersectionsKD_def Let_def)
  moreover from l p have "\<forall>i<n. ?P ((xs @ drop n ?cleared) ! i)" by (simp add: nth_append)
  ultimately show ?thesis by blast
next
  case False
  let ?cleared = "replicate (pixelcount scene) zero_intersection"
  let ?front = "map (\<lambda>path_index. computeIntersections_thread X (junk path_index) (ps ! path_index)
             (scene_geoms scene) 1 (?cleared ! path_index) (scene_materials scene)
             (scene_textures scene)) [0..<n]"
  from False size have "intersect_stage X c scene junk depth n ps =
      Some (Inr (ps, ?front @ drop n ?cleared))"
    by (simp add: intersect_stage_def computeIntersections_def Let_def)
  moreover have "\<forall>i<n. isect_t ((?front @ drop n ?cleared) ! i) > 0 \<and>
      materialId ((?front @ drop n ?cleared) ! i) = materialid (scene_geoms scene 0)"
  proof (intro allI impI)
    fix i assume i: "i < n"
    with hit have h: "\<forall>w. 0 < fst (sphereIntersectionTest X (scene_geoms scene 0) (ray (ps ! i)) w) \<and>
                 fst (sphereIntersectionTest X (scene_geoms scene 0) (ray (ps ! i)) w) < FLT_MAX"
      by simp
    from i bf_thread_one_sphere [where geoms = "scene_geoms scene", OF sphere h]
    show "isect_t ((?front @ drop n ?cleared) ! i) > 0 \<and>
      materialId ((?front @ drop n ?cleared) ! i) = materialid (scene_geoms scene 0)"
      by (simp add: nth_append)
  qed
  ultimately show ?thesis by blast
qed

lemma pathtrace_one_light:
  assumes "STREAMCOMP c" and "scene_traceDepth scene > 0"
    and "scene_geoms_size scene = 1" and "gtype (scene_geoms scene 0) = SPHERE"
    and "m_color (scene_materials scene (materialid (scene_geoms scene 0))) = Vec3 1 1 1"
    and "emittance (scene_materials scene (materialid (scene_geoms scene 0))) = 5"
    and "\<forall>p \<in> set (generateRayFromCamera X (scene_camera scene) iter (scene_traceDepth scene)). \<forall>w.
           0 < fst (sphereIntersectionTest X (scene_geoms scene 0) (ray p) w) \<and>
           fst (sphereIntersectionTest X (scene_geoms scene 0) (ray p) w) < FLT_MAX"
    and "ACCELSTRUCT c \<longrightarrow>
           nPrimitives (scene_kdtree scene 0) = 1 \<and> primitivesOffset (scene_kdtree scene 0) = 0 \<and>
           (\<forall>p \<in> set (generateRayFromCamera X (scene_camera scene) iter (scene_traceDepth scene)).
              boundsIntersectionTest X (bounds (scene_kdtree scene 0)) (ray p) \<noteq> - 1)"
  shows "pathtrace X c scene junk iter dev_image =
           Some (Inr (\<lambda>q. if 0 \<le> q \<and> q < int (pixelcount scene)
                           then vadd (dev_image q) (Vec3 5 5 5) else dev_image q))"
proof -
  let ?ps = "generateRayFromCamera X (scene_camera scene) iter (scene_traceDepth scene)"
  let ?N = "pixelcount scene"
  have len: "length ?ps = ?N" by (simp add: generated_paths pixelcount_def)
  then have mem: "?ps ! i \<in> set ?ps" if "i < ?N" for i using that by simp
  from assms(7) mem
  have hit: "\<forall>i<?N. \<forall>w. 0 < fst (sphereIntersectionTest X (scene_geoms scene 0) (ray (?ps ! i)) w) \<and>
                 fst (sphereIntersectionTest X (scene_geoms scene 0) (ray (?ps ! i)) w) < FLT_MAX"
    by blast
  from assms(8) mem
  have kd: "ACCELSTRUCT c \<longrightarrow>
               nPrimitives (scene_kdtree scene 0) = 1 \<and> primitivesOffset (scene_kdtree scene 0) = 0 \<and>
               (\<forall>i<?N. boundsIntersectionTest X (bounds (scene_kdtree scene 0)) (ray (?ps ! i)) \<noteq> - 1)"
    by blast
  from intersect_stage_one_sphere [OF assms(3,4) hit kd, of "junk 0" 0]
  obtain isects where i: "intersect_stage X c scene (junk 0) 0 ?N ?ps = Some (Inr (?ps, isects))"
    and r: "\<forall>i<?N. isect_t (isects ! i) > 0 \<and>
                   materialId (isects ! i) = materialid (scene_geoms scene 0)" by blast
  from r assms(5,6)
  have "\<forall>i<?N. isect_t (isects ! i) > 0 \<and>
           m_color (scene_materials scene (materialId (isects ! i))) = Vec3 1 1 1 \<and>
           emittance (scene_materials scene (materialId (isects ! i))) = 5" by simp
  with assms(1,2) i show ?thesis by (rule pathtrace_all_lit)
qed

text \<open>
  C7. A path that is still active and whose intersection has a material of positive
  emittance leaves the shader with its throughput multiplied by the colour of the
  material times the emittance and with the counter zero; its ray is not touched.
  Consequently, take a scene whose only primitive is a sphere of a white material of
  emittance 5 that fills the view: the test of the sphere reports a hit at a distance
  between 0 and \<^verbatim>\<open>FLT_MAX\<close> for the ray of every pixel and, where the kernel on the
  tree is the one compiled, the tree is the one leaf that holds the sphere and the ray
  of every pixel meets its bounds. Then a bounce budget above zero and an image as
  \<^verbatim>\<open>pathtraceInit\<close> leaves it give an image that holds \<open>(5, 5, 5)\<close> at every pixel.
\<close>

theorem emissive_hit_lights_every_pixel:
  "(remainingBounces seg \<noteq> 0 \<and> isect_t isect > 0 \<and> emittance (mats (materialId isect)) > 0 \<longrightarrow>
      shadeMaterials_thread X pt iter index isect seg mats depth tex =
        seg\<lparr>color := vmul (color seg)
                (vscale (m_color (mats (materialId isect))) (emittance (mats (materialId isect)))),
            remainingBounces := 0\<rparr>) \<and>
   (STREAMCOMP c \<and> scene_traceDepth scene > 0 \<and>
    scene_geoms_size scene = 1 \<and> gtype (scene_geoms scene 0) = SPHERE \<and>
    m_color (scene_materials scene (materialid (scene_geoms scene 0))) = Vec3 1 1 1 \<and>
    emittance (scene_materials scene (materialid (scene_geoms scene 0))) = 5 \<and>
    (\<forall>p \<in> set (generateRayFromCamera X (scene_camera scene) iter (scene_traceDepth scene)). \<forall>w.
       0 < fst (sphereIntersectionTest X (scene_geoms scene 0) (ray p) w) \<and>
       fst (sphereIntersectionTest X (scene_geoms scene 0) (ray p) w) < FLT_MAX) \<and>
    (ACCELSTRUCT c \<longrightarrow>
       nPrimitives (scene_kdtree scene 0) = 1 \<and> primitivesOffset (scene_kdtree scene 0) = 0 \<and>
       (\<forall>p \<in> set (generateRayFromCamera X (scene_camera scene) iter (scene_traceDepth scene)).
          boundsIntersectionTest X (bounds (scene_kdtree scene 0)) (ray p) \<noteq> - 1)) \<longrightarrow>
      pathtrace X c scene junk iter pathtraceInit_image =
        Some (Inr (\<lambda>q. if 0 \<le> q \<and> q < int (pixelcount scene) then Vec3 5 5 5 else Vec3 0 0 0)))"
proof (intro conjI impI)
  assume "remainingBounces seg \<noteq> 0 \<and> isect_t isect > 0 \<and> emittance (mats (materialId isect)) > 0"
  then show "shadeMaterials_thread X pt iter index isect seg mats depth tex =
        seg\<lparr>color := vmul (color seg)
                (vscale (m_color (mats (materialId isect))) (emittance (mats (materialId isect)))),
            remainingBounces := 0\<rparr>"
    by (simp add: shade_emissive)
next
  assume h: "STREAMCOMP c \<and> scene_traceDepth scene > 0 \<and>
    scene_geoms_size scene = 1 \<and> gtype (scene_geoms scene 0) = SPHERE \<and>
    m_color (scene_materials scene (materialid (scene_geoms scene 0))) = Vec3 1 1 1 \<and>
    emittance (scene_materials scene (materialid (scene_geoms scene 0))) = 5 \<and>
    (\<forall>p \<in> set (generateRayFromCamera X (scene_camera scene) iter (scene_traceDepth scene)). \<forall>w.
       0 < fst (sphereIntersectionTest X (scene_geoms scene 0) (ray p) w) \<and>
       fst (sphereIntersectionTest X (scene_geoms scene 0) (ray p) w) < FLT_MAX) \<and>
    (ACCELSTRUCT c \<longrightarrow>
       nPrimitives (scene_kdtree scene 0) = 1 \<and> primitivesOffset (scene_kdtree scene 0) = 0 \<and>
       (\<forall>p \<in> set (generateRayFromCamera X (scene_camera scene) iter (scene_traceDepth scene)).
          boundsIntersectionTest X (bounds (scene_kdtree scene 0)) (ray p) \<noteq> - 1))"
  then have h1: "STREAMCOMP c" and h2: "scene_traceDepth scene > 0"
    and h3: "scene_geoms_size scene = 1" and h4: "gtype (scene_geoms scene 0) = SPHERE"
    and h5: "m_color (scene_materials scene (materialid (scene_geoms scene 0))) = Vec3 1 1 1"
    and h6: "emittance (scene_materials scene (materialid (scene_geoms scene 0))) = 5"
    and h7: "\<forall>p \<in> set (generateRayFromCamera X (scene_camera scene) iter (scene_traceDepth scene)). \<forall>w.
       0 < fst (sphereIntersectionTest X (scene_geoms scene 0) (ray p) w) \<and>
       fst (sphereIntersectionTest X (scene_geoms scene 0) (ray p) w) < FLT_MAX"
    and h8: "ACCELSTRUCT c \<longrightarrow>
       nPrimitives (scene_kdtree scene 0) = 1 \<and> primitivesOffset (scene_kdtree scene 0) = 0 \<and>
       (\<forall>p \<in> set (generateRayFromCamera X (scene_camera scene) iter (scene_traceDepth scene)).
          boundsIntersectionTest X (bounds (scene_kdtree scene 0)) (ray p) \<noteq> - 1)"
    by blast+
  have "pathtrace X c scene junk iter pathtraceInit_image =
      Some (Inr (\<lambda>q. if 0 \<le> q \<and> q < int (pixelcount scene)
                      then vadd (pathtraceInit_image q) (Vec3 5 5 5) else pathtraceInit_image q))"
    using h1 h2 h3 h4 h5 h6 h7 h8 by (rule pathtrace_one_light)
  then show "pathtrace X c scene junk iter pathtraceInit_image =
      Some (Inr (\<lambda>q. if 0 \<le> q \<and> q < int (pixelcount scene) then Vec3 5 5 5 else Vec3 0 0 0))"
    by (simp add: pathtraceInit_image_at cong: if_cong)
qed

theorem emissive_hit_lights_every_pixel_witness:
  "remainingBounces (camera_path 0 (3 / 2) 3) \<noteq> 0 \<and> isect_t (kernel_hit 1 0) > 0 \<and>
   emittance (scene_materials (scene_light 3) (materialId (kernel_hit 1 0))) > 0 \<and>
   shadeMaterials_thread X0 True 1 0 (kernel_hit 1 0) (camera_path 0 (3 / 2) 3)
     (scene_materials (scene_light 3)) 0 (scene_textures (scene_light 3)) =
     (camera_path 0 (3 / 2) 3)\<lparr>color := Vec3 5 5 5, remainingBounces := 0\<rparr> \<and>
   STREAMCOMP cfg_src \<and> ACCELSTRUCT cfg_src \<and> scene_traceDepth (scene_light 3) > 0 \<and>
   scene_geoms_size (scene_light 3) = 1 \<and> gtype (scene_geoms (scene_light 3) 0) = SPHERE \<and>
   m_color (scene_materials (scene_light 3) (materialid (scene_geoms (scene_light 3) 0))) = Vec3 1 1 1 \<and>
   emittance (scene_materials (scene_light 3) (materialid (scene_geoms (scene_light 3) 0))) = 5 \<and>
   generateRayFromCamera X0 (scene_camera (scene_light 3)) 1 (scene_traceDepth (scene_light 3)) =
     [camera_path 0 (3 / 2) 3, camera_path 1 (1 / 2) 3] \<and>
   (\<forall>w. fst (sphereIntersectionTest X0 (scene_geoms (scene_light 3) 0)
              (ray (camera_path 0 (3 / 2) 3)) w) = 1) \<and>
   (\<forall>w. fst (sphereIntersectionTest X0 (scene_geoms (scene_light 3) 0)
              (ray (camera_path 1 (1 / 2) 3)) w) = 1) \<and>
   1 < FLT_MAX \<and>
   nPrimitives (scene_kdtree (scene_light 3) 0) = 1 \<and>
   primitivesOffset (scene_kdtree (scene_light 3) 0) = 0 \<and>
   boundsIntersectionTest X0 (bounds (scene_kdtree (scene_light 3) 0))
     (ray (camera_path 0 (3 / 2) 3)) = 0 \<and>
   boundsIntersectionTest X0 (bounds (scene_kdtree (scene_light 3) 0))
     (ray (camera_path 1 (1 / 2) 3)) = 0 \<and>
   pathtrace X0 cfg_src (scene_light 3) (\<lambda>d i. locals0) 1 pathtraceInit_image =
     Some (Inr (\<lambda>q. if 0 \<le> q \<and> q < 2 then Vec3 5 5 5 else Vec3 0 0 0))"
proof -
  let ?P0 = "camera_path 0 (3 / 2) 3" and ?P1 = "camera_path 1 (1 / 2) 3"
  let ?S = "scene_light 3"
  have a1: "remainingBounces ?P0 \<noteq> 0" by (simp add: camera_path_fields)
  have a2: "isect_t (kernel_hit 1 0) > 0" by (simp add: kernel_hit_def)
  have a3: "emittance (scene_materials ?S (materialId (kernel_hit 1 0))) > 0"
    by (simp add: scene_light_fields plain_material_def)
  have b1: "STREAMCOMP cfg_src" and b1': "ACCELSTRUCT cfg_src" by (simp_all add: cfg_src_def)
  have b2: "scene_traceDepth ?S > 0" by (simp add: scene_light_fields)
  have b3: "scene_geoms_size ?S = 1" and b4: "gtype (scene_geoms ?S 0) = SPHERE"
    by (simp_all add: scene_light_def prim_def)
  have b5: "m_color (scene_materials ?S (materialid (scene_geoms ?S 0))) = Vec3 1 1 1"
    and b6: "emittance (scene_materials ?S (materialid (scene_geoms ?S 0))) = 5"
    by (simp_all add: scene_light_fields plain_material_def)
  have g: "generateRayFromCamera X0 (scene_camera ?S) 1 (scene_traceDepth ?S) = [?P0, ?P1]"
    by (simp add: scene_light_fields(1) generate_light)
  have b7: "\<forall>w. fst (sphereIntersectionTest X0 (scene_geoms ?S 0) (ray ?P0) w) = 1"
    and b7': "\<forall>w. fst (sphereIntersectionTest X0 (scene_geoms ?S 0) (ray ?P1) w) = 1"
    by (simp_all add: X0_def scene_light_def prim_def camera_path_side)
  have f: "1 < FLT_MAX" by (simp add: FLT_MAX_def)
  have b8: "nPrimitives (scene_kdtree ?S 0) = 1" and b9: "primitivesOffset (scene_kdtree ?S 0) = 0"
    by (simp_all add: scene_light_def leaf_node_def)
  have b10: "boundsIntersectionTest X0 (bounds (scene_kdtree ?S 0)) (ray ?P0) = 0"
    and b10': "boundsIntersectionTest X0 (bounds (scene_kdtree ?S 0)) (ray ?P1) = 0"
    by (simp_all add: X0_def)
  note inst = emissive_hit_lights_every_pixel [where seg = "?P0" and isect = "kernel_hit 1 0"
      and mats = "scene_materials ?S" and X = X0 and pt = True and iter = 1
      and index = 0 and depth = 0 and tex = "scene_textures ?S" and c = cfg_src
      and scene = "?S" and junk = "\<lambda>d i. locals0"]
  from inst a1 a2 a3
  have s: "shadeMaterials_thread X0 True 1 0 (kernel_hit 1 0) ?P0
     (scene_materials ?S) 0 (scene_textures ?S) =
     ?P0\<lparr>color := Vec3 5 5 5, remainingBounces := 0\<rparr>"
    by (simp add: scene_light_fields plain_material_def kernel_hit_def camera_path_fields)
  from b7 b7' f g have h7: "\<forall>p \<in> set (generateRayFromCamera X0 (scene_camera ?S) 1 (scene_traceDepth ?S)). \<forall>w.
       0 < fst (sphereIntersectionTest X0 (scene_geoms ?S 0) (ray p) w) \<and>
       fst (sphereIntersectionTest X0 (scene_geoms ?S 0) (ray p) w) < FLT_MAX"
    by simp
  from b8 b9 b10 b10' g have h8: "ACCELSTRUCT cfg_src \<longrightarrow>
       nPrimitives (scene_kdtree ?S 0) = 1 \<and> primitivesOffset (scene_kdtree ?S 0) = 0 \<and>
       (\<forall>p \<in> set (generateRayFromCamera X0 (scene_camera ?S) 1 (scene_traceDepth ?S)).
          boundsIntersectionTest X0 (bounds (scene_kdtree ?S 0)) (ray p) \<noteq> - 1)"
    by simp
  from inst b1 b2 b3 b4 b5 b6 h7 h8
  have p: "pathtrace X0 cfg_src ?S (\<lambda>d i. locals0) 1 pathtraceInit_image =
     Some (Inr (\<lambda>q. if 0 \<le> q \<and> q < 2 then Vec3 5 5 5 else Vec3 0 0 0))"
    by (simp add: pixelcount_scene_light)
  from a1 a2 a3 s b1 b1' b2 b3 b4 b5 b6 g b7 b7' f b8 b9 b10 b10' p show ?thesis by blast
qed

subsection \<open>Sorting where no path scatters\<close>

lemma shade_no_scatter:
  assumes "\<forall>m. emittance (mats m) > 0"
  shows "shadeMaterials_thread X pt iter index isect p mats depth tex =
           shadeMaterials_thread X pt iter 0 isect p mats depth tex"
    and "remainingBounces (shadeMaterials_thread X pt iter index isect p mats depth tex) = 0"
  using assms by (simp_all add: shadeMaterials_thread_def Let_def)

lemma map_index_zip:
  assumes "n \<le> length xs" and "n \<le> length ys"
  shows "map (\<lambda>i. f (xs ! i) (ys ! i)) [0..<n] = map (\<lambda>(x, y). f x y) (zip (take n xs) (take n ys))"
  using assms by (intro nth_equalityI) simp_all

lemma shadeMaterials_no_scatter:
  assumes "n \<le> length isects" and "n \<le> length ps" and "\<forall>m. emittance (mats m) > 0"
  shows "shadeMaterials X pt iter n isects ps mats depth tex =
           map (\<lambda>(i, p). shadeMaterials_thread X pt iter 0 i p mats depth tex)
               (zip (take n isects) (take n ps)) @ drop n ps"
proof -
  have "map (\<lambda>index. shadeMaterials_thread X pt iter index (isects ! index) (ps ! index) mats depth tex)
          [0..<n] =
        map (\<lambda>i. shadeMaterials_thread X pt iter 0 (isects ! i) (ps ! i) mats depth tex) [0..<n]"
    using shade_no_scatter(1) [OF assms(3)] by (intro map_cong [OF refl]) blast
  also have "\<dots> = map (\<lambda>(i, p). shadeMaterials_thread X pt iter 0 i p mats depth tex)
               (zip (take n isects) (take n ps))"
    using assms(1,2) by (rule map_index_zip)
  finally show ?thesis by (simp add: shadeMaterials_def)
qed

lemma sort_stage_pairs:
  assumes "n \<le> length isects" and "n \<le> length ps" and "sort_stage X n isects ps = (isects', ps')"
  shows "mset (zip (take n isects') (take n ps')) = mset (zip (take n isects) (take n ps))"
    and "drop n ps' = drop n ps"
proof -
  obtain ks vs where
    s: "thrust_sort_by_key (sort_arrangement X) materialCmp (take n isects) (take n ps) = (ks, vs)"
    by (cases "thrust_sort_by_key (sort_arrangement X) materialCmp (take n isects) (take n ps)")
  from assms(1,2) have len: "length (take n isects) = length (take n ps)" by simp
  note z = thrust_sort_by_key_zip [OF len s]
  from assms(3) s have i': "isects' = ks @ drop n isects" and p': "ps' = vs @ drop n ps"
    by (simp_all add: sort_stage_def)
  from z(1,2) assms(1,2) have lk: "length ks = n" and lv: "length vs = n" by simp_all
  from lk lv z(3) show "mset (zip (take n isects') (take n ps')) = mset (zip (take n isects) (take n ps))"
    by (simp add: i' p')
  from lv show "drop n ps' = drop n ps" by (simp add: p')
qed

lemma vadd_swap: "vadd (vadd a x) y = vadd (vadd a y) x"
  by (cases a; cases x; cases y) simp

lemma foldl_vadd_mset:
  assumes "mset xs = mset ys"
  shows "foldl vadd a xs = foldl vadd a ys"
proof -
  have "fold (\<lambda>x a. vadd a x) xs = fold (\<lambda>x a. vadd a x) ys"
    using assms by (intro fold_multiset_equiv) (auto simp add: fun_eq_iff vadd_swap)
  then show ?thesis by (simp add: foldl_conv_fold)
qed

lemma finalGather_mset:
  assumes "mset (take n ps') = mset (take n ps)"
  shows "finalGather n im ps' = finalGather n im ps"
proof
  fix q
  from assms have "mset (map color (filter (\<lambda>p. pixelIndex p = q) (take n ps'))) =
      mset (map color (filter (\<lambda>p. pixelIndex p = q) (take n ps)))"
    by simp
  then show "finalGather n im ps' q = finalGather n im ps q"
    unfolding finalGather_def gather_at by (rule foldl_vadd_mset)
qed

lemma shade_stage_no_scatter:
  assumes "STREAMCOMP c" and "length ps = n" and "length isects = n"
    and "\<forall>m. emittance (scene_materials scene m) > 0"
  shows "\<exists>out. shade_stage X c scene iter depth n ps isects = ((depth + 1, 0, out), True) \<and>
           mset out = mset (map (\<lambda>(i, p). shadeMaterials_thread X (PROCTEXT c) iter 0 i p
                                  (scene_materials scene) depth (scene_textures scene))
                                (zip isects ps))"
proof -
  let ?G = "\<lambda>(i, p). shadeMaterials_thread X (PROCTEXT c) iter 0 i p
                       (scene_materials scene) depth (scene_textures scene)"
  from assms(2,3) have le: "n \<le> length isects" "n \<le> length ps" by simp_all
  obtain isects' ps' where
    s: "(if MATSORT c then sort_stage X n isects ps else (isects, ps)) = (isects', ps')"
    by (cases "if MATSORT c then sort_stage X n isects ps else (isects, ps)")
  have props: "length ps' = n \<and> length isects' = n \<and> mset (zip isects' ps') = mset (zip isects ps)"
  proof (cases "MATSORT c")
    case True
    with s have st: "sort_stage X n isects ps = (isects', ps')" by simp
    from sort_stage_props(1,2) [OF le st] sort_stage_pairs(1) [OF le st] assms(2,3)
    show ?thesis by simp
  next
    case False
    with s assms(2,3) show ?thesis by simp
  qed
  then have l: "n \<le> length isects'" "n \<le> length ps'" by simp_all
  let ?shaded = "shadeMaterials X (PROCTEXT c) iter n isects' ps' (scene_materials scene) depth
                   (scene_textures scene)"
  from shadeMaterials_no_scatter [OF l assms(4)] props
  have sh: "?shaded = map ?G (zip isects' ps')" by simp
  have "remainingBounces (?G x) = 0" for x
    by (cases x) (simp add: shade_no_scatter(2) [OF assms(4)])
  then have "\<forall>p \<in> set (take n ?shaded). remainingBounces p \<le> 0"
    unfolding sh by (auto dest!: in_set_takeD)
  then have "compact n ?shaded = (?shaded, 0)" by (rule compact_all_dead)
  with s assms(1)
  have "shade_stage X c scene iter depth n ps isects = ((depth + 1, 0, ?shaded), True)"
    by (simp add: shade_stage_def Let_def)
  moreover have "mset ?shaded = mset (map ?G (zip isects ps))"
  proof -
    from props have "mset (zip isects' ps') = mset (zip isects ps)" by simp
    then have "image_mset ?G (mset (zip isects' ps')) = image_mset ?G (mset (zip isects ps))"
      by (rule arg_cong)
    then show ?thesis unfolding sh by (simp only: mset_map)
  qed
  ultimately show ?thesis by blast
qed

lemma trace_loop_None:
  assumes "bounce X c scene junk iter depth n ps = None"
  shows "trace_loop X c scene junk iter depth n ps = None"
  using assms by (subst trace_loop.simps) simp

lemma trace_loop_fault:
  assumes "bounce X c scene junk iter depth n ps = Some (Inl e)"
  shows "trace_loop X c scene junk iter depth n ps = Some (Inl e)"
  using assms by (subst trace_loop.simps) simp

lemma pathtrace_sort_no_scatter:
  assumes "STREAMCOMP c" and "\<forall>m. emittance (scene_materials scene m) > 0"
  shows "pathtrace X (c\<lparr>MATSORT := True\<rparr>) scene junk iter dev_image =
         pathtrace X (c\<lparr>MATSORT := False\<rparr>) scene junk iter dev_image"
proof -
  let ?ps = "generateRayFromCamera X (scene_camera scene) iter (scene_traceDepth scene)"
  let ?N = "pixelcount scene"
  let ?T = "c\<lparr>MATSORT := True\<rparr>" and ?F = "c\<lparr>MATSORT := False\<rparr>"
  have len: "length ?ps = ?N" by (simp add: generated_paths pixelcount_def)
  have st: "STREAMCOMP ?T" "STREAMCOMP ?F" using assms(1) by simp_all
  have i: "intersect_stage X ?T scene (junk 0) 0 ?N ?ps = intersect_stage X c scene (junk 0) 0 ?N ?ps"
    "intersect_stage X ?F scene (junk 0) 0 ?N ?ps = intersect_stage X c scene (junk 0) 0 ?N ?ps"
    by (simp_all add: intersect_stage_MATSORT)
  show ?thesis
  proof (cases "intersect_stage X c scene (junk 0) 0 ?N ?ps")
    case None
    with i have "bounce X ?T scene junk iter 0 ?N ?ps = None"
      and "bounce X ?F scene junk iter 0 ?N ?ps = None"
      by (simp_all add: bounce_def)
    then have "trace_loop X ?T scene junk iter 0 ?N ?ps = None"
      and "trace_loop X ?F scene junk iter 0 ?N ?ps = None"
      by (simp_all add: trace_loop_None)
    then show ?thesis by (simp add: pathtrace_def)
  next
    case (Some r)
    show ?thesis
    proof (cases r)
      case (Inl e)
      with Some i have "bounce X ?T scene junk iter 0 ?N ?ps = Some (Inl e)"
        and "bounce X ?F scene junk iter 0 ?N ?ps = Some (Inl e)"
        by (simp_all add: bounce_def)
      then have "trace_loop X ?T scene junk iter 0 ?N ?ps = Some (Inl e)"
        and "trace_loop X ?F scene junk iter 0 ?N ?ps = Some (Inl e)"
        by (simp_all add: trace_loop_fault)
      then show ?thesis by (simp add: pathtrace_def)
    next
      case (Inr pr)
      obtain psx isects where pr: "pr = (psx, isects)" by (cases pr)
      from Some Inr pr have ist: "intersect_stage X c scene (junk 0) 0 ?N ?ps = Some (Inr (psx, isects))"
        by simp
      from intersect_stage_result [OF ist] have psx: "psx = ?ps" and leni: "length isects = ?N"
        by simp_all
      let ?G = "\<lambda>(i, p). shadeMaterials_thread X (PROCTEXT c) iter 0 i p
                       (scene_materials scene) 0 (scene_textures scene)"
      from shade_stage_no_scatter [OF st(1) len leni assms(2), of X iter 0]
      obtain outT where
        sT: "shade_stage X ?T scene iter 0 ?N ?ps isects = ((0 + 1, 0, outT), True)"
        and mT: "mset outT = mset (map ?G (zip isects ?ps))" by auto
      from shade_stage_no_scatter [OF st(2) len leni assms(2), of X iter 0]
      obtain outF where
        sF: "shade_stage X ?F scene iter 0 ?N ?ps isects = ((0 + 1, 0, outF), True)"
        and mF: "mset outF = mset (map ?G (zip isects ?ps))" by auto
      from ist i psx sT have "bounce X ?T scene junk iter 0 ?N ?ps = Some (Inr ((0 + 1, 0, outT), True))"
        by (simp add: bounce_def)
      then have tT: "trace_loop X ?T scene junk iter 0 ?N ?ps = Some (Inr outT)"
        by (rule trace_loop_last)
      from ist i psx sF have "bounce X ?F scene junk iter 0 ?N ?ps = Some (Inr ((0 + 1, 0, outF), True))"
        by (simp add: bounce_def)
      then have tF: "trace_loop X ?F scene junk iter 0 ?N ?ps = Some (Inr outF)"
        by (rule trace_loop_last)
      from mT mF have "mset outT = mset outF" by simp
      moreover from mset_eq_length [OF mT] len leni have "length outT = ?N" by simp
      moreover from mset_eq_length [OF mF] len leni have "length outF = ?N" by simp
      ultimately have "mset (take ?N outT) = mset (take ?N outF)" by simp
      then have "finalGather ?N dev_image outT = finalGather ?N dev_image outF"
        by (rule finalGather_mset)
      with tT tF show ?thesis by (simp add: pathtrace_def)
    qed
  qed
qed

lemma run_light:
  "pathtrace X0 cfg_src (scene_light 3) (\<lambda>d i. locals0) 1 pathtraceInit_image =
     Some (Inr (\<lambda>q. if 0 \<le> q \<and> q < 2 then Vec3 5 5 5 else Vec3 0 0 0))"
proof -
  let ?S = "scene_light 3"
  have g: "generateRayFromCamera X0 (scene_camera ?S) 1 (scene_traceDepth ?S) =
      [camera_path 0 (3 / 2) 3, camera_path 1 (1 / 2) 3]"
    by (simp add: scene_light_fields(1) generate_light)
  have b1: "STREAMCOMP cfg_src" by (simp add: cfg_src_def)
  have b2: "scene_traceDepth ?S > 0" by (simp add: scene_light_fields)
  have b3: "scene_geoms_size ?S = 1" and b4: "gtype (scene_geoms ?S 0) = SPHERE"
    by (simp_all add: scene_light_def prim_def)
  have b5: "m_color (scene_materials ?S (materialid (scene_geoms ?S 0))) = Vec3 1 1 1"
    and b6: "emittance (scene_materials ?S (materialid (scene_geoms ?S 0))) = 5"
    by (simp_all add: scene_light_fields plain_material_def)
  have h7: "\<forall>p \<in> set (generateRayFromCamera X0 (scene_camera ?S) 1 (scene_traceDepth ?S)). \<forall>w.
       0 < fst (sphereIntersectionTest X0 (scene_geoms ?S 0) (ray p) w) \<and>
       fst (sphereIntersectionTest X0 (scene_geoms ?S 0) (ray p) w) < FLT_MAX"
    unfolding g by (simp add: X0_def scene_light_def prim_def camera_path_side FLT_MAX_def)
  have h8: "ACCELSTRUCT cfg_src \<longrightarrow>
       nPrimitives (scene_kdtree ?S 0) = 1 \<and> primitivesOffset (scene_kdtree ?S 0) = 0 \<and>
       (\<forall>p \<in> set (generateRayFromCamera X0 (scene_camera ?S) 1 (scene_traceDepth ?S)).
          boundsIntersectionTest X0 (bounds (scene_kdtree ?S 0)) (ray p) \<noteq> - 1)"
    by (simp add: X0_def scene_light_def leaf_node_def)
  from pathtrace_one_light [where junk = "\<lambda>d i. locals0" and dev_image = pathtraceInit_image,
      OF b1 b2 b3 b4 b5 b6 h7 h8]
  show ?thesis
    by (simp add: pixelcount_scene_light pathtraceInit_image_at cong: if_cong)
qed

text \<open>
  C1, as the code has it. The sorting stage does not change what a bounce leaves when
  the material ids of the active intersection records ascend strictly: every arrangement
  that meets the contract of \<^verbatim>\<open>thrust::sort_by_key\<close> then leaves every path where it
  was. Nor does the sort change the image of a whole iteration, whatever the arrangement,
  in a scene all of whose materials emit, under stream compaction: there no path reaches
  the scatter, and what the shader leaves of a path does not depend on its position. In
  general the shader seeds the engine of a path from the iteration, the bounce
  depth and the index of the thread, which is the position of the path in the array: the
  path at position \<open>index\<close> that reaches the diffuse bounce is handed to \<^verbatim>\<open>scatterRay\<close>
  with the engine of \<open>index\<close>, whatever its pixel.
\<close>

theorem sort_toggle_same_when_ids_strictly_ascend:
  "(intersect_stage X c scene (junk depth) depth n ps = Some (Inr (psx, isects)) \<and>
    n \<le> length ps \<and> n \<le> pixelcount scene \<and>
    sorted_wrt (<) (map materialId (take n isects)) \<longrightarrow>
      bounce X (c\<lparr>MATSORT := True\<rparr>) scene junk iter depth n ps =
      bounce X (c\<lparr>MATSORT := False\<rparr>) scene junk iter depth n ps) \<and>
   (index < n \<and> remainingBounces (ps ! index) \<noteq> 0 \<and> isect_t (recs ! index) > 0 \<and>
    \<not> emittance (mats (materialId (recs ! index))) > 0 \<and>
    textureOffset (mats (materialId (recs ! index))) = - 1 \<longrightarrow>
      shadeMaterials X pt iter n recs ps mats depth tex ! index =
        (let p3 = scatterRay X (ps ! index)
                    (getPointOnRay X (ray (ps ! index)) (isect_t (recs ! index)))
                    (surfaceNormal (recs ! index)) (mats (materialId (recs ! index)))
                    (makeSeededRandomEngine X (word_of_int iter) (word_of_nat index) (word_of_int depth))
         in p3\<lparr>remainingBounces := remainingBounces p3 - 1\<rparr>)) \<and>
   (STREAMCOMP c \<and> (\<forall>m. emittance (scene_materials scene m) > 0) \<longrightarrow>
      pathtrace X (c\<lparr>MATSORT := True\<rparr>) scene junk iter dev_image =
      pathtrace X (c\<lparr>MATSORT := False\<rparr>) scene junk iter dev_image)"
proof (intro conjI impI)
  assume "intersect_stage X c scene (junk depth) depth n ps = Some (Inr (psx, isects)) \<and>
    n \<le> length ps \<and> n \<le> pixelcount scene \<and>
    sorted_wrt (<) (map materialId (take n isects))"
  then have h1: "intersect_stage X c scene (junk depth) depth n ps = Some (Inr (psx, isects))"
    and h2: "n \<le> length ps" and h3: "n \<le> pixelcount scene"
    and h4: "sorted_wrt (<) (map materialId (take n isects))"
    by blast+
  show "bounce X (c\<lparr>MATSORT := True\<rparr>) scene junk iter depth n ps =
      bounce X (c\<lparr>MATSORT := False\<rparr>) scene junk iter depth n ps"
    using h1 h2 h3 h4 by (rule bounce_sort_sorted)
next
  assume h: "index < n \<and> remainingBounces (ps ! index) \<noteq> 0 \<and> isect_t (recs ! index) > 0 \<and>
    \<not> emittance (mats (materialId (recs ! index))) > 0 \<and>
    textureOffset (mats (materialId (recs ! index))) = - 1"
  then have "shadeMaterials X pt iter n recs ps mats depth tex ! index =
      shadeMaterials_thread X pt iter index (recs ! index) (ps ! index) mats depth tex"
    by (simp add: shadeMaterials_nth)
  also have "\<dots> =
        (let p3 = scatterRay X (ps ! index)
                    (getPointOnRay X (ray (ps ! index)) (isect_t (recs ! index)))
                    (surfaceNormal (recs ! index)) (mats (materialId (recs ! index)))
                    (makeSeededRandomEngine X (word_of_int iter) (word_of_nat index) (word_of_int depth))
         in p3\<lparr>remainingBounces := remainingBounces p3 - 1\<rparr>)"
    using h by (intro shade_scatter) simp_all
  finally show "shadeMaterials X pt iter n recs ps mats depth tex ! index =
        (let p3 = scatterRay X (ps ! index)
                    (getPointOnRay X (ray (ps ! index)) (isect_t (recs ! index)))
                    (surfaceNormal (recs ! index)) (mats (materialId (recs ! index)))
                    (makeSeededRandomEngine X (word_of_int iter) (word_of_nat index) (word_of_int depth))
         in p3\<lparr>remainingBounces := remainingBounces p3 - 1\<rparr>)" .
next
  assume "STREAMCOMP c \<and> (\<forall>m. emittance (scene_materials scene m) > 0)"
  then have "STREAMCOMP c" and "\<forall>m. emittance (scene_materials scene m) > 0" by blast+
  then show "pathtrace X (c\<lparr>MATSORT := True\<rparr>) scene junk iter dev_image =
      pathtrace X (c\<lparr>MATSORT := False\<rparr>) scene junk iter dev_image"
    by (rule pathtrace_sort_no_scatter)
qed

theorem sort_toggle_same_when_ids_strictly_ascend_witness:
  "intersect_stage X0 (cfg_brute False) (scene_two 2) (\<lambda>i. locals0) 0 2
     [camera_path 0 (- (1 / 2)) 2, camera_path 1 (1 / 2) 2]
     = Some (Inr ([camera_path 0 (- (1 / 2)) 2, camera_path 1 (1 / 2) 2],
                  [kernel_hit 1 0, kernel_hit 1 1])) \<and>
   sorted_wrt (<) (map materialId (take 2 [kernel_hit 1 0, kernel_hit 1 1])) \<and>
   bounce X0 ((cfg_brute False)\<lparr>MATSORT := True\<rparr>) (scene_two 2) (\<lambda>d i. locals0) 1 0 2
     [camera_path 0 (- (1 / 2)) 2, camera_path 1 (1 / 2) 2] =
   bounce X0 ((cfg_brute False)\<lparr>MATSORT := False\<rparr>) (scene_two 2) (\<lambda>d i. locals0) 1 0 2
     [camera_path 0 (- (1 / 2)) 2, camera_path 1 (1 / 2) 2] \<and>
   shadeMaterials X0 True 1 2 [kernel_hit 1 0, kernel_hit 1 1]
     [camera_path 0 (- (1 / 2)) 2, camera_path 1 (1 / 2) 2]
     (scene_materials (scene_two 2)) 0 (scene_textures (scene_two 2)) ! 1 =
     diffuse_step 1 1 (camera_path 1 (1 / 2) 2) \<and>
   STREAMCOMP cfg_src \<and> (\<forall>m. emittance (scene_materials (scene_light 3) m) > 0) \<and>
   pathtrace X0 (cfg_src\<lparr>MATSORT := True\<rparr>) (scene_light 3) (\<lambda>d i. locals0) 1 pathtraceInit_image =
     Some (Inr (\<lambda>q. if 0 \<le> q \<and> q < 2 then Vec3 5 5 5 else Vec3 0 0 0))"
proof -
  let ?P = "camera_path 0 (- (1 / 2)) 2" and ?Q = "camera_path 1 (1 / 2) 2"
  let ?recs = "[kernel_hit 1 0, kernel_hit 1 1]"
  have i: "intersect_stage X0 (cfg_brute False) (scene_two 2) (\<lambda>i. locals0) 0 2 [?P, ?Q]
     = Some (Inr ([?P, ?Q], ?recs))"
    by (rule intersect_two) (simp_all add: bf_thread_pos bf_thread_neg camera_path_side)
  have s: "sorted_wrt (<) (map materialId (take 2 ?recs))" by (simp add: kernel_hit_def)
  have l: "2 \<le> length [?P, ?Q]" and n: "2 \<le> pixelcount (scene_two 2)"
    by (simp_all add: pixelcount_scene_two)
  have k: "(1::nat) < 2" and r: "remainingBounces ([?P, ?Q] ! 1) \<noteq> 0"
    and t: "isect_t (?recs ! 1) > 0"
    and e: "\<not> emittance (scene_materials (scene_two 2) (materialId (?recs ! 1))) > 0"
    and o: "textureOffset (scene_materials (scene_two 2) (materialId (?recs ! 1))) = - 1"
    by (simp_all add: camera_path_fields kernel_hit_def scene_two_def plain_material_def)
  note inst = sort_toggle_same_when_ids_strictly_ascend [where X = X0 and c = "cfg_brute False"
      and scene = "scene_two 2" and junk = "\<lambda>d i. locals0" and depth = 0 and n = 2
      and ps = "[?P, ?Q]" and psx = "[?P, ?Q]" and isects = "?recs" and iter = 1 and index = 1
      and recs = "?recs" and mats = "scene_materials (scene_two 2)" and pt = True
      and tex = "scene_textures (scene_two 2)"]
  from inst i s l n
  have b: "bounce X0 ((cfg_brute False)\<lparr>MATSORT := True\<rparr>) (scene_two 2) (\<lambda>d i. locals0) 1 0 2 [?P, ?Q] =
      bounce X0 ((cfg_brute False)\<lparr>MATSORT := False\<rparr>) (scene_two 2) (\<lambda>d i. locals0) 1 0 2 [?P, ?Q]"
    by blast
  from inst k r t e o
  have "shadeMaterials X0 True 1 2 ?recs [?P, ?Q] (scene_materials (scene_two 2)) 0
          (scene_textures (scene_two 2)) ! 1 =
        (let p3 = scatterRay X0 ([?P, ?Q] ! 1)
                    (getPointOnRay X0 (ray ([?P, ?Q] ! 1)) (isect_t (?recs ! 1)))
                    (surfaceNormal (?recs ! 1)) (scene_materials (scene_two 2) (materialId (?recs ! 1)))
                    (makeSeededRandomEngine X0 (word_of_int 1) (word_of_nat 1) (word_of_int 0))
         in p3\<lparr>remainingBounces := remainingBounces p3 - 1\<rparr>)"
    by blast
  also have "\<dots> = diffuse_step 1 1 ?Q"
    using seed_parity [of 1 0]
    by (simp add: X0_fields scatterRay_diffuse_def sample0_def kernel_hit_def scene_two_def
        plain_material_def diffuse_step_def Let_def)
  finally have d: "shadeMaterials X0 True 1 2 ?recs [?P, ?Q] (scene_materials (scene_two 2)) 0
          (scene_textures (scene_two 2)) ! 1 = diffuse_step 1 1 ?Q" .
  have sc: "STREAMCOMP cfg_src" by (simp add: cfg_src_def)
  have m: "\<forall>m. emittance (scene_materials (scene_light 3) m) > 0"
    by (simp add: scene_light_fields plain_material_def)
  have f: "cfg_src\<lparr>MATSORT := False\<rparr> = cfg_src" by (simp add: cfg_src_def)
  note inst2 = sort_toggle_same_when_ids_strictly_ascend [where X = X0 and c = cfg_src
      and scene = "scene_light 3" and junk = "\<lambda>d i. locals0" and iter = 1
      and dev_image = pathtraceInit_image]
  from inst2 sc m
  have "pathtrace X0 (cfg_src\<lparr>MATSORT := True\<rparr>) (scene_light 3) (\<lambda>d i. locals0) 1 pathtraceInit_image =
      pathtrace X0 (cfg_src\<lparr>MATSORT := False\<rparr>) (scene_light 3) (\<lambda>d i. locals0) 1 pathtraceInit_image"
    by blast
  with f run_light
  have w: "pathtrace X0 (cfg_src\<lparr>MATSORT := True\<rparr>) (scene_light 3) (\<lambda>d i. locals0) 1 pathtraceInit_image =
      Some (Inr (\<lambda>q. if 0 \<le> q \<and> q < 2 then Vec3 5 5 5 else Vec3 0 0 0))"
    by simp
  from i s b d sc m w show ?thesis by blast
qed

text \<open>
  The claim as it was stated fails on the two-pixel scene with a budget of two bounces.
  The ray of pixel 0 hits the sphere of material 1 and the ray of pixel 1 the box of
  material 0, so the sort exchanges the two paths. The path of pixel 0 is then shaded
  at position 1 with the engine of position 1, bounces towards the sphere again and
  ends white; without the sort it is shaded at position 0, bounces towards the grey
  box and ends grey.
\<close>

theorem sort_toggle_changes_pixel:
  "pixel_of (pathtrace X0 (cfg_brute True) (scene_two 2) (\<lambda>d i. locals0) 1 pathtraceInit_image) 0
     = Some (Vec3 1 1 1) \<and>
   pixel_of (pathtrace X0 (cfg_brute False) (scene_two 2) (\<lambda>d i. locals0) 1 pathtraceInit_image) 0
     = Some (Vec3 (1 / 2) (1 / 2) (1 / 2)) \<and>
   pathtrace X0 (cfg_brute True) (scene_two 2) (\<lambda>d i. locals0) 1 pathtraceInit_image \<noteq>
   pathtrace X0 (cfg_brute False) (scene_two 2) (\<lambda>d i. locals0) 1 pathtraceInit_image"
proof -
  note on = run_on and off = run_off
  from on off
  have "pathtrace X0 (cfg_brute True) (scene_two 2) (\<lambda>d i. locals0) 1 pathtraceInit_image \<noteq>
        pathtrace X0 (cfg_brute False) (scene_two 2) (\<lambda>d i. locals0) 1 pathtraceInit_image"
    by auto
  with on off show ?thesis by blast
qed

theorem computeIntersections_writes_intersections_only_witness:
  "fst (computeIntersections X0 (\<lambda>i. locals0) 0 1 [white_path (Vec3 1 0 0) 1] geoms_sphere_diamond 2
          [zero_intersection] (\<lambda>i. plain_material (Vec3 1 1 1) 0 (- 1)) (\<lambda>i. Vec3 0 0 0))
     = [white_path (Vec3 1 0 0) 1] \<and>
   \<not> ACCELSTRUCT (cfg_brute False) \<and>
   l_hit_geom_index (computeIntersections_locals X0 locals0 (white_path (Vec3 1 0 0) 1)
                       geoms_sphere_diamond 2) = 1 \<and>
   color (white_path (Vec3 1 0 0) 1) = Vec3 1 1 1 \<and>
   color (l_pathSegment (computeIntersections_locals X0 locals0 (white_path (Vec3 1 0 0) 1)
                           geoms_sphere_diamond 2)) = Vec3 1 0 1"
proof -
  let ?p = "white_path (Vec3 1 0 0) 1"
  have c: "\<not> ACCELSTRUCT (cfg_brute False)" by (simp add: cfg_brute_def)
  have h: "l_hit_geom_index (computeIntersections_locals X0 locals0 ?p geoms_sphere_diamond 2) = 1"
    by (simp add: computeIntersections_locals_def bf_step_def X0_def locals0_def white_path_def
        geoms_sphere_diamond_def prim_def Let_def FLT_MAX_def upt_rec numeral_2_eq_2)
  have w: "color ?p = Vec3 1 1 1" by (simp add: white_path_def)
  note inst = computeIntersections_writes_intersections_only [where X = X0
      and junk = "\<lambda>i. locals0" and depth = 0 and num_paths = 1 and pathSegments = "[?p]"
      and geoms = geoms_sphere_diamond and geoms_size = 2 and intersections = "[zero_intersection]"
      and materials = "\<lambda>i. plain_material (Vec3 1 1 1) 0 (- 1)"
      and dev_textures = "\<lambda>i. Vec3 0 0 0" and c = "cfg_brute False" and scene = "scene_two 2"
      and ?junk2.0 = "\<lambda>d i. locals0" and iter = 1 and ?L0.0 = locals0 and pathSegment = "?p"]
  from inst have f: "fst (computeIntersections X0 (\<lambda>i. locals0) 0 1 [?p] geoms_sphere_diamond 2
          [zero_intersection] (\<lambda>i. plain_material (Vec3 1 1 1) 0 (- 1)) (\<lambda>i. Vec3 0 0 0)) = [?p]"
    by blast
  from inst h have "color (l_pathSegment (computeIntersections_locals X0 locals0 ?p
                           geoms_sphere_diamond 2)) = vmul (color ?p) (Vec3 1 0 1)"
    by simp
  with w have l: "color (l_pathSegment (computeIntersections_locals X0 locals0 ?p
                           geoms_sphere_diamond 2)) = Vec3 1 0 1" by simp
  from f c h w l show ?thesis by blast
qed

end
